theory Spec2Isabelle
  imports Main
begin

section \<open>JavaScript values, property keys and heap objects\<close>

text \<open>
  The engine works on JavaScript values with reference identity, so the embedding keeps
  an explicit heap.  A value is a primitive, a reference to a heap object, a reference to
  a draft (the proxy, or the \<open>DraftMap\<close>/\<open>DraftSet\<close> instance, which the source
  identifies with its state record), or one of the built-in prototype objects and functions
  that property lookups on plain records and arrays can reach.

  Numbers are integers plus the two values the source's comparisons single out,
  \<open>NaN\<close> and \<open>-0\<close>.
\<close>

datatype prim =
    PUndefined | PNull | PBool bool | PNum int | PNegZero | PNaN | PStr string | PSym string

datatype val = Prim prim | Ref nat | Draft nat | Builtin string

text \<open>
  Property keys of records and arrays.  An array index (a canonical numeric string) is
  \<open>KNum\<close>; \<open>KStr\<close> holds every other string key, \<open>KSym\<close> a symbol.
\<close>

datatype key = KStr string | KNum nat | KSym string

text \<open>An own property: its key, its value, and whether it is enumerable.\<close>

type_synonym props = "(key \<times> val \<times> bool) list"

text \<open>
  Heap objects.  \<open>ORecord\<close> is a draftable record (a plain object, or an instance
  carrying the draftable marker), \<open>OArray\<close> an array whose \<open>None\<close> slots are
  holes, \<open>OMap\<close> and \<open>OSet\<close> the insertion-ordered native containers,
  \<open>OFunction\<close> a function and \<open>OOpaque\<close> any other object (a class instance without
  the marker, a Date): \<open>typeof\<close> gives "object" for it, but it is not draftable.
  \<open>is_frozen\<close> is what \<open>Object.isFrozen\<close> answers; for a map or set it also
  stands for the replacement of the mutating methods that \<open>freeze\<close> performs together
  with \<open>Object.freeze\<close>.
\<close>

datatype content =
    ORecord props
  | OArray "val option list"
  | OMap "(val \<times> val) list"
  | OSet "val list"
  | OFunction
  | OOpaque props

record obj =
  content :: content
  is_frozen :: bool

text \<open>env.ts: the three well-known symbols.\<close>

definition NOTHING :: val where
  "NOTHING = Prim (PSym ''immer-nothing'')"

definition DRAFTABLE :: key where
  "DRAFTABLE = KSym ''immer-draftable''"

definition DRAFT_STATE :: key where
  "DRAFT_STATE = KSym ''immer-state''"

subsection \<open>Equality\<close>

definition is_zero :: "val \<Rightarrow> bool" where
  "is_zero v = (v = Prim (PNum 0) \<or> v = Prim PNegZero)"

text \<open>The operator \<open>===\<close>: \<open>NaN\<close> differs from itself, the two zeros are equal.\<close>

definition strict_eq :: "val \<Rightarrow> val \<Rightarrow> bool" where
  "strict_eq x y =
     (x \<noteq> Prim PNaN \<and> y \<noteq> Prim PNaN \<and> (x = y \<or> (is_zero x \<and> is_zero y)))"

text \<open>
  common.ts \<open>is\<close>:
  \<^verbatim>\<open>if (x === y) return x !== 0 || 1 / x === 1 / y
  else return x !== x && y !== y\<close>
  For two zeros \<open>1/x === 1/y\<close> holds exactly when they have the same sign.
\<close>

definition "is" :: "val \<Rightarrow> val \<Rightarrow> bool" where
  "is x y =
     (if strict_eq x y then (\<not> is_zero x \<or> x = y)
      else (\<not> strict_eq x x \<and> \<not> strict_eq y y))"

text \<open>SameValueZero, the key equality of the native Map and Set.\<close>

definition same_value_zero :: "val \<Rightarrow> val \<Rightarrow> bool" where
  "same_value_zero x y = (strict_eq x y \<or> (x = Prim PNaN \<and> y = Prim PNaN))"

definition norm_zero :: "val \<Rightarrow> val" where
  "norm_zero v = (if v = Prim PNegZero then Prim (PNum 0) else v)"

subsection \<open>The native Map and Set, as insertion-ordered lists\<close>

definition map_has :: "(val \<times> 'a) list \<Rightarrow> val \<Rightarrow> bool" where
  "map_has m k = list_ex (\<lambda>e. same_value_zero (fst e) k) m"

definition map_get :: "(val \<times> 'a) list \<Rightarrow> val \<Rightarrow> 'a option" where
  "map_get m k = map_option snd (find (\<lambda>e. same_value_zero (fst e) k) m)"

definition map_set :: "(val \<times> 'a) list \<Rightarrow> val \<Rightarrow> 'a \<Rightarrow> (val \<times> 'a) list" where
  "map_set m k v =
     (if map_has m k
      then map (\<lambda>e. if same_value_zero (fst e) k then (fst e, v) else e) m
      else m @ [(norm_zero k, v)])"

definition map_delete :: "(val \<times> 'a) list \<Rightarrow> val \<Rightarrow> (val \<times> 'a) list" where
  "map_delete m k = filter (\<lambda>e. \<not> same_value_zero (fst e) k) m"

text \<open>\<open>map.get(k)\<close> as a value: \<open>undefined\<close> for a missing key.\<close>

definition map_get_val :: "(val \<times> val) list \<Rightarrow> val \<Rightarrow> val" where
  "map_get_val m k = (case map_get m k of None \<Rightarrow> Prim PUndefined | Some v \<Rightarrow> v)"

definition set_has :: "val list \<Rightarrow> val \<Rightarrow> bool" where
  "set_has xs v = list_ex (\<lambda>x. same_value_zero x v) xs"

definition set_add :: "val list \<Rightarrow> val \<Rightarrow> val list" where
  "set_add xs v = (if set_has xs v then xs else xs @ [norm_zero v])"

definition set_delete :: "val list \<Rightarrow> val \<Rightarrow> val list" where
  "set_delete xs v = filter (\<lambda>x. \<not> same_value_zero x v) xs"

text \<open>\<open>new Set(iterable)\<close> and \<open>new Map(iterable)\<close>: insertion with duplicates merged.\<close>

definition set_of_list :: "val list \<Rightarrow> val list" where
  "set_of_list xs = foldl set_add [] xs"

definition map_of_list :: "(val \<times> 'a) list \<Rightarrow> (val \<times> 'a) list" where
  "map_of_list es = foldl (\<lambda>m e. map_set m (fst e) (snd e)) [] es"

subsection \<open>Own properties of records and arrays\<close>

definition props_has :: "props \<Rightarrow> key \<Rightarrow> bool" where
  "props_has fs k = (map_of fs k \<noteq> None)"

definition props_get :: "props \<Rightarrow> key \<Rightarrow> val option" where
  "props_get fs k = map_option fst (map_of fs k)"

definition props_enumerable :: "props \<Rightarrow> key \<Rightarrow> bool" where
  "props_enumerable fs k = (case map_of fs k of None \<Rightarrow> False | Some p \<Rightarrow> snd p)"

text \<open>Assignment keeps the position and enumerability of an existing property; a new
  property is appended, enumerable.\<close>

definition props_set :: "props \<Rightarrow> key \<Rightarrow> val \<Rightarrow> props" where
  "props_set fs k v =
     (if props_has fs k
      then map (\<lambda>p. if fst p = k then (k, v, snd (snd p)) else p) fs
      else fs @ [(k, v, True)])"

definition props_delete :: "props \<Rightarrow> key \<Rightarrow> props" where
  "props_delete fs k = filter (\<lambda>p. fst p \<noteq> k) fs"

text \<open>\<open>Reflect.ownKeys\<close>: integer keys ascending, then strings, then symbols, each in
  insertion order.\<close>

definition own_keys_of :: "key list \<Rightarrow> key list" where
  "own_keys_of ks =
     map KNum (sort (concat (map (\<lambda>k. case k of KNum n \<Rightarrow> [n] | _ \<Rightarrow> []) ks)))
     @ filter (\<lambda>k. case k of KStr _ \<Rightarrow> True | _ \<Rightarrow> False) ks
     @ filter (\<lambda>k. case k of KSym _ \<Rightarrow> True | _ \<Rightarrow> False) ks"

definition arr_has :: "val option list \<Rightarrow> key \<Rightarrow> bool" where
  "arr_has xs k =
     (case k of
        KNum i \<Rightarrow> i < length xs \<and> xs ! i \<noteq> None
      | KStr s \<Rightarrow> s = ''length''
      | KSym _ \<Rightarrow> False)"

definition arr_get :: "val option list \<Rightarrow> key \<Rightarrow> val option" where
  "arr_get xs k =
     (case k of
        KNum i \<Rightarrow> (if i < length xs then xs ! i else None)
      | KStr s \<Rightarrow> (if s = ''length'' then Some (Prim (PNum (int (length xs)))) else None)
      | KSym _ \<Rightarrow> None)"

definition arr_set_index :: "val option list \<Rightarrow> nat \<Rightarrow> val \<Rightarrow> val option list" where
  "arr_set_index xs i v =
     (if i < length xs then xs[i := Some v]
      else xs @ replicate (i - length xs) None @ [Some v])"

definition arr_set_length :: "val option list \<Rightarrow> nat \<Rightarrow> val option list" where
  "arr_set_length xs n = take n xs @ replicate (n - length xs) None"

definition arr_delete_index :: "val option list \<Rightarrow> nat \<Rightarrow> val option list" where
  "arr_delete_index xs i = (if i < length xs then xs[i := None] else xs)"

definition arr_keys :: "val option list \<Rightarrow> key list" where
  "arr_keys xs = map KNum (filter (\<lambda>i. xs ! i \<noteq> None) [0..<length xs]) @ [KStr ''length'']"

subsection \<open>The built-in prototypes\<close>

text \<open>
  Records inherit from \<open>Object.prototype\<close>, arrays from \<open>Array.prototype\<close> and then
  \<open>Object.prototype\<close>.  Every inherited property is a data property holding a built-in
  function, except \<open>__proto__\<close>, which is an accessor with a getter and a setter.
  User-defined prototypes are outside the model.
\<close>

datatype protodesc = PData val | PAccessor

definition objectProtoNames :: "string list" where
  "objectProtoNames =
     [''constructor'', ''__proto__'', ''hasOwnProperty'', ''isPrototypeOf'',
      ''propertyIsEnumerable'', ''toLocaleString'', ''toString'', ''valueOf'',
      ''__defineGetter__'', ''__defineSetter__'', ''__lookupGetter__'', ''__lookupSetter__'']"

definition arrayProtoNames :: "string list" where
  "arrayProtoNames =
     [''constructor'', ''at'', ''concat'', ''copyWithin'', ''entries'', ''every'', ''fill'',
      ''filter'', ''find'', ''findIndex'', ''findLast'', ''findLastIndex'', ''flat'',
      ''flatMap'', ''forEach'', ''includes'', ''indexOf'', ''join'', ''keys'',
      ''lastIndexOf'', ''map'', ''pop'', ''push'', ''reduce'', ''reduceRight'', ''reverse'',
      ''shift'', ''slice'', ''some'', ''sort'', ''splice'', ''toLocaleString'', ''toString'',
      ''unshift'', ''values'']"

definition objectProto :: "key \<Rightarrow> protodesc option" where
  "objectProto k =
     (case k of
        KStr s \<Rightarrow>
          (if s = ''__proto__'' then Some PAccessor
           else if s = ''constructor'' then Some (PData (Builtin ''Object''))
           else if s \<in> set objectProtoNames
             then Some (PData (Builtin (''Object.prototype.'' @ s)))
           else None)
      | _ \<Rightarrow> None)"

definition arrayProto :: "key \<Rightarrow> protodesc option" where
  "arrayProto k =
     (case k of
        KStr s \<Rightarrow>
          (if s = ''constructor'' then Some (PData (Builtin ''Array''))
           else if s \<in> set arrayProtoNames
             then Some (PData (Builtin (''Array.prototype.'' @ s)))
           else None)
      | _ \<Rightarrow> None)"

text \<open>The first descriptor of \<open>k\<close> on the prototype chain of an object with this content.\<close>

definition proto_desc :: "content \<Rightarrow> key \<Rightarrow> protodesc option" where
  "proto_desc c k =
     (case c of
        OArray _ \<Rightarrow> (case arrayProto k of Some d \<Rightarrow> Some d | None \<Rightarrow> objectProto k)
      | _ \<Rightarrow> objectProto k)"

text \<open>\<open>getPrototypeOf\<close> of an object with this content.\<close>

definition proto_of :: "content \<Rightarrow> val" where
  "proto_of c =
     (case c of
        OArray _ \<Rightarrow> Builtin ''Array.prototype''
      | OMap _ \<Rightarrow> Builtin ''Map.prototype''
      | OSet _ \<Rightarrow> Builtin ''Set.prototype''
      | OFunction \<Rightarrow> Builtin ''Function.prototype''
      | _ \<Rightarrow> Builtin ''Object.prototype'')"

text \<open>\<open>Object.prototype.hasOwnProperty.call(o, k)\<close>.\<close>

definition own_has :: "content \<Rightarrow> key \<Rightarrow> bool" where
  "own_has c k =
     (case c of
        ORecord fs \<Rightarrow> props_has fs k
      | OOpaque fs \<Rightarrow> props_has fs k
      | OArray xs \<Rightarrow> arr_has xs k
      | _ \<Rightarrow> False)"

definition own_get :: "content \<Rightarrow> key \<Rightarrow> val option" where
  "own_get c k =
     (case c of
        ORecord fs \<Rightarrow> props_get fs k
      | OOpaque fs \<Rightarrow> props_get fs k
      | OArray xs \<Rightarrow> arr_get xs k
      | _ \<Rightarrow> None)"

text \<open>\<open>k in o\<close>: own or inherited.\<close>

definition in_obj :: "content \<Rightarrow> key \<Rightarrow> bool" where
  "in_obj c k = (own_has c k \<or> proto_desc c k \<noteq> None)"

text \<open>\<open>o[k]\<close> on an ordinary object: the own value, else the inherited one; the inherited
  \<open>__proto__\<close> getter answers the prototype.\<close>

definition ord_get :: "content \<Rightarrow> key \<Rightarrow> val" where
  "ord_get c k =
     (case own_get c k of
        Some v \<Rightarrow> v
      | None \<Rightarrow>
          (case proto_desc c k of
             Some (PData v) \<Rightarrow> v
           | Some PAccessor \<Rightarrow> proto_of c
           | None \<Rightarrow> Prim PUndefined))"

text \<open>\<open>Reflect.ownKeys(o)\<close>.\<close>

definition own_keys :: "content \<Rightarrow> key list" where
  "own_keys c =
     (case c of
        ORecord fs \<Rightarrow> own_keys_of (map fst fs)
      | OOpaque fs \<Rightarrow> own_keys_of (map fst fs)
      | OArray xs \<Rightarrow> arr_keys xs
      | _ \<Rightarrow> [])"

definition own_enumerable :: "content \<Rightarrow> key \<Rightarrow> bool" where
  "own_enumerable c k =
     (case c of
        ORecord fs \<Rightarrow> props_enumerable fs k
      | OOpaque fs \<Rightarrow> props_enumerable fs k
      | OArray xs \<Rightarrow> (case k of KNum i \<Rightarrow> arr_has xs k | _ \<Rightarrow> False)
      | _ \<Rightarrow> False)"

section \<open>Draft states, scopes and the engine state\<close>

text \<open>types-internal.ts \<open>ArchType\<close>; the order matters (\<open>getArchtype(obj) > 1\<close> means
  map or set).\<close>

datatype archtype = AObject | AArray | AMap | ASet

text \<open>
  The draft-state record (\<open>ProxyObjectState\<close>, \<open>ProxyArrayState\<close>, \<open>MapState\<close>,
  \<open>SetState\<close>).  Field \<open>x_d\<close> is the source's \<open>x_\<close>.  A draft is identified with
  its index in the table of draft states, so \<open>draft_\<close> is the index itself; \<open>revoke_\<close>
  of a proxy is the flag \<open>revoked_d\<close>, as for maps and sets.  \<open>base_d\<close> and
  \<open>copy_d\<close> are heap addresses.  The source's \<open>assigned_\<close> is an object keyed by
  property for records and arrays (\<open>assigned_d\<close>, initially empty) and a native Map,
  initially undefined, for a map draft (\<open>massigned_d\<close>).
\<close>

record dstate =
  type_d :: archtype
  scope_d :: nat
  modified_d :: bool
  finalized_d :: bool
  isManual_d :: bool
  parent_d :: "nat option"
  base_d :: nat
  copy_d :: "nat option"
  assigned_d :: "(key \<times> bool) list"
  massigned_d :: "(val \<times> bool) list option"
  drafts_d :: "(val \<times> val) list"
  revoked_d :: bool

text \<open>A patch \<open>{op, path, value?}\<close>; \<open>value_p = None\<close> when the field is absent.\<close>

record patch =
  op_p :: string
  path_p :: "val list"
  value_p :: "val option"

text \<open>scope.ts \<open>ImmerScope\<close>; field \<open>x_s\<close> is the source's \<open>x_\<close>.  \<open>drafts_s\<close>
  lists the drafts by
  their indices and becomes \<open>None\<close> when \<open>revokeScope\<close> sets it to null.  The listener is user code:
  the scope records whether one was supplied, and what it is called with is logged in the
  state.\<close>

record scope =
  patches_s :: "patch list option"
  inversePatches_s :: "patch list option"
  canAutoFreeze_s :: bool
  drafts_s :: "nat list option"
  parent_s :: "nat option"
  patchListener_s :: bool
  unfinalizedDrafts_s :: int

datatype strictmode = StrictTrue | StrictFalse | ClassOnly

text \<open>
  The whole state: the heap, the draft states, the scopes, the module variable
  \<open>currentScope\<close>, the configuration of the one \<open>Immer\<close> instance, the calls made
  to patch listeners, and the prototype changes made by assignments to \<open>__proto__\<close> on
  ordinary objects.
\<close>

record state =
  heap :: "obj list"
  drafts :: "dstate list"
  scopes :: "scope list"
  currentScope :: "nat option"
  autoFreeze :: bool
  useStrictShallowCopy :: strictmode
  listener_calls :: "(patch list \<times> patch list) list"
  proto_writes :: "(nat \<times> val) list"

subsection \<open>Errors and the state-and-exception monad\<close>

text \<open>
  \<open>Immer n\<close> is \<open>die(n)\<close> (errors.ts; the message arguments are dropped),
  \<open>TypeError\<close> and \<open>RangeError\<close> are raised by the language itself,
  \<open>UserError\<close> is an exception thrown by the recipe.  \<open>OutOfFuel\<close> marks a
  recursion that was cut off, \<open>Unmodelled\<close> an input outside the embedding (a
  dangling reference, an array with non-index properties, a built-in prototype used as
  data).
\<close>

datatype error = Immer nat | TypeError | RangeError | UserError val | OutOfFuel | Unmodelled

type_synonym 'a M = "state \<Rightarrow> (error + 'a) \<times> state"

definition retM :: "'a \<Rightarrow> 'a M" where
  "retM x = (\<lambda>s. (Inr x, s))"

definition throwM :: "error \<Rightarrow> 'a M" where
  "throwM e = (\<lambda>s. (Inl e, s))"

definition bindM :: "'a M \<Rightarrow> ('a \<Rightarrow> 'b M) \<Rightarrow> 'b M" where
  "bindM m f = (\<lambda>s. case m s of (Inl e, s') \<Rightarrow> (Inl e, s') | (Inr x, s') \<Rightarrow> f x s')"

definition thenM :: "'a M \<Rightarrow> 'b M \<Rightarrow> 'b M" where
  "thenM m n = bindM m (\<lambda>_. n)"

definition getsM :: "(state \<Rightarrow> 'a) \<Rightarrow> 'a M" where
  "getsM f = (\<lambda>s. (Inr (f s), s))"

definition modifyM :: "(state \<Rightarrow> state) \<Rightarrow> unit M" where
  "modifyM f = (\<lambda>s. (Inr (), f s))"

definition whenM :: "bool \<Rightarrow> unit M \<Rightarrow> unit M" where
  "whenM b m = (if b then m else retM ())"

text \<open>errors.ts \<open>die\<close>: always throws.\<close>

definition die :: "nat \<Rightarrow> 'a M" where
  "die n = throwM (Immer n)"

text \<open>\<open>try { m } catch (e) { h(e) }\<close>.\<close>

definition catchM :: "'a M \<Rightarrow> (error \<Rightarrow> 'a M) \<Rightarrow> 'a M" where
  "catchM m h = (\<lambda>s. case m s of (Inl e, s') \<Rightarrow> h e s' | (Inr x, s') \<Rightarrow> (Inr x, s'))"

text \<open>Running a loop body over a list, stopping at the first exception.\<close>

primrec forM :: "'a list \<Rightarrow> ('a \<Rightarrow> unit M) \<Rightarrow> unit M" where
  "forM [] f = retM ()"
| "forM (x # xs) f = bindM (f x) (\<lambda>_. forM xs f)"

subsection \<open>Access to the tables\<close>

definition getObj :: "nat \<Rightarrow> obj M" where
  "getObj a = (\<lambda>s. if a < length (heap s) then (Inr (heap s ! a), s) else (Inl Unmodelled, s))"

definition getContent :: "nat \<Rightarrow> content M" where
  "getContent a = bindM (getObj a) (\<lambda>ob. retM (content ob))"

definition getDraft :: "nat \<Rightarrow> dstate M" where
  "getDraft d =
     (\<lambda>s. if d < length (drafts s) then (Inr (drafts s ! d), s) else (Inl Unmodelled, s))"

definition getScope :: "nat \<Rightarrow> scope M" where
  "getScope i =
     (\<lambda>s. if i < length (scopes s) then (Inr (scopes s ! i), s) else (Inl Unmodelled, s))"

definition setDraft :: "nat \<Rightarrow> (dstate \<Rightarrow> dstate) \<Rightarrow> unit M" where
  "setDraft d f = modifyM (\<lambda>s. s\<lparr>drafts := (drafts s)[d := f (drafts s ! d)]\<rparr>)"

definition setScope :: "nat \<Rightarrow> (scope \<Rightarrow> scope) \<Rightarrow> unit M" where
  "setScope i f = modifyM (\<lambda>s. s\<lparr>scopes := (scopes s)[i := f (scopes s ! i)]\<rparr>)"

text \<open>The one primitive that changes what a heap object holds.\<close>

definition setContent :: "nat \<Rightarrow> content \<Rightarrow> unit M" where
  "setContent a c = modifyM (\<lambda>s. s\<lparr>heap := (heap s)[a := (heap s ! a)\<lparr>content := c\<rparr>]\<rparr>)"

definition setFrozen :: "nat \<Rightarrow> state \<Rightarrow> state" where
  "setFrozen a s = s\<lparr>heap := (heap s)[a := (heap s ! a)\<lparr>is_frozen := True\<rparr>]\<rparr>"

text \<open>Allocation of a fresh, unfrozen object.\<close>

definition alloc :: "content \<Rightarrow> nat M" where
  "alloc c =
     (\<lambda>s. (Inr (length (heap s)), s\<lparr>heap := heap s @ [\<lparr>content = c, is_frozen = False\<rparr>]\<rparr>))"

section \<open>common.ts\<close>

text \<open>A revoked proxy throws on every operation, also on the read of its state.  Map and
  set drafts are class instances: reading their state never throws.\<close>

definition proxy_revoked :: "dstate \<Rightarrow> bool" where
  "proxy_revoked st = (revoked_d st \<and> (type_d st = AObject \<or> type_d st = AArray))"

text \<open>\<open>value[DRAFT_STATE]\<close> of a draft.\<close>

definition stateOf :: "nat \<Rightarrow> dstate M" where
  "stateOf d = bindM (getDraft d) (\<lambda>st. if proxy_revoked st then throwM TypeError else retM st)"

text \<open>\<open>isDraft\<close>: \<^verbatim>\<open>return !!value && !!value[DRAFT_STATE]\<close>.\<close>

definition isDraft :: "val \<Rightarrow> bool M" where
  "isDraft v = (case v of Draft d \<Rightarrow> bindM (stateOf d) (\<lambda>_. retM True) | _ \<Rightarrow> retM False)"

definition is_prototype_object :: "string \<Rightarrow> bool" where
  "is_prototype_object n = (n \<in> {''Object.prototype'', ''Array.prototype'', ''Map.prototype'',
     ''Set.prototype'', ''Function.prototype''})"

text \<open>\<open>isDraftable\<close>: plain objects, arrays, marked instances, maps and sets.  A record
  or array proxy answers through its traps, a map or set draft is an instance of Map or
  Set.\<close>

definition isDraftable :: "val \<Rightarrow> bool M" where
  "isDraftable v =
     (case v of
        Prim p \<Rightarrow> retM False
      | Ref a \<Rightarrow>
          bindM (getContent a) (\<lambda>c. retM
            (case c of ORecord _ \<Rightarrow> True | OArray _ \<Rightarrow> True | OMap _ \<Rightarrow> True
             | OSet _ \<Rightarrow> True | OFunction \<Rightarrow> False | OOpaque _ \<Rightarrow> False))
      | Draft d \<Rightarrow> bindM (stateOf d) (\<lambda>_. retM True)
      | Builtin n \<Rightarrow> (if is_prototype_object n then throwM Unmodelled else retM False))"

text \<open>\<open>getArchtype\<close>.\<close>

definition getArchtype :: "val \<Rightarrow> archtype M" where
  "getArchtype v =
     (case v of
        Prim p \<Rightarrow> (if p = PUndefined \<or> p = PNull then throwM TypeError else retM AObject)
      | Ref a \<Rightarrow>
          bindM (getContent a) (\<lambda>c. retM
            (case c of OArray _ \<Rightarrow> AArray | OMap _ \<Rightarrow> AMap | OSet _ \<Rightarrow> ASet | _ \<Rightarrow> AObject))
      | Draft d \<Rightarrow> bindM (stateOf d) (\<lambda>st. retM (type_d st))
      | Builtin n \<Rightarrow> (if is_prototype_object n then throwM Unmodelled else retM AObject))"

text \<open>\<open>isFrozen\<close> is \<open>Object.isFrozen\<close>: true for a primitive; the proxy target and a
  map or set draft are never frozen.\<close>

definition isFrozen :: "val \<Rightarrow> bool M" where
  "isFrozen v =
     (case v of
        Prim p \<Rightarrow> retM True
      | Ref a \<Rightarrow> bindM (getObj a) (\<lambda>ob. retM (is_frozen ob))
      | Draft d \<Rightarrow> bindM (stateOf d) (\<lambda>_. retM False)
      | Builtin n \<Rightarrow> retM False)"

text \<open>\<open>latest\<close>: \<^verbatim>\<open>return state.copy_ || state.base_\<close>.\<close>

definition latest :: "dstate \<Rightarrow> nat" where
  "latest st = (case copy_d st of Some c \<Rightarrow> c | None \<Rightarrow> base_d st)"

text \<open>
  \<open>shallowCopy(base, strict)\<close>.  A map, a set and an array are duplicated as they are
  (\<open>slice\<close> keeps holes).  A record is copied property by property: in strict mode every
  own property with its enumerability, otherwise (\<open>{...base}\<close>, \<open>Object.assign\<close>) the
  enumerable own properties.  Records of the model count as plain, so \<open>"class_only"\<close>
  copies them the simple way; the descriptor-level behaviour of the strict copy is
  modelled separately below (\<open>strictCopy\<close>).
\<close>

definition shallowCopy :: "content \<Rightarrow> strictmode \<Rightarrow> content" where
  "shallowCopy c strict =
     (case c of
        OMap m \<Rightarrow> OMap m
      | OSet xs \<Rightarrow> OSet xs
      | OArray xs \<Rightarrow> OArray xs
      | ORecord fs \<Rightarrow>
          (if strict = StrictTrue
           then ORecord (map (\<lambda>k. (k, the (props_get fs k), props_enumerable fs k))
                   (own_keys_of (map fst fs)))
           else ORecord (map (\<lambda>k. (k, the (props_get fs k), True))
                   (filter (props_enumerable fs) (own_keys_of (map fst fs)))))
      | OOpaque fs \<Rightarrow>
          ORecord (map (\<lambda>k. (k, the (props_get fs k), props_enumerable fs k))
                   (own_keys_of (map fst fs)))
      | OFunction \<Rightarrow> ORecord [])"

subsection \<open>freeze\<close>

text \<open>\<open>Object.values(obj)\<close>: the values of the own enumerable string-keyed properties.
  A map or set has none but the four replaced methods, which \<open>freeze\<close> skips as
  functions.\<close>

definition object_values :: "content \<Rightarrow> val list" where
  "object_values c =
     (case c of
        ORecord fs \<Rightarrow>
          map (\<lambda>k. the (props_get fs k))
            (filter (\<lambda>k. props_enumerable fs k \<and> (case k of KSym _ \<Rightarrow> False | _ \<Rightarrow> True))
               (own_keys_of (map fst fs)))
      | OArray xs \<Rightarrow> concat (map (\<lambda>x. case x of None \<Rightarrow> [] | Some v \<Rightarrow> [v]) xs)
      | _ \<Rightarrow> [])"

text \<open>The guard of \<open>freeze\<close>:
  \<^verbatim>\<open>if (isFrozen(obj) || isDraft(obj) || !isDraftable(obj)) return obj\<close>\<close>

definition freeze_skips :: "val \<Rightarrow> bool M" where
  "freeze_skips v =
     bindM (isFrozen v) (\<lambda>fr. if fr then retM True else
     bindM (isDraft v) (\<lambda>dr. if dr then retM True else
     bindM (isDraftable v) (\<lambda>da. retM (\<not> da))))"

definition unfrozen_count :: "state \<Rightarrow> nat" where
  "unfrozen_count s = length (filter (\<lambda>ob. \<not> is_frozen ob) (heap s))"

text \<open>
  \<open>freeze(obj, true)\<close> recurses over \<open>Object.values(obj)\<close> after freezing \<open>obj\<close>.
  The recursion is written with its pending calls as a list: the first value is frozen
  and its own values are put in front of the rest, which visits the values in the order
  of the source.  It ends because every step that is not skipped freezes one more
  object.
\<close>

function freeze_deep :: "val list \<Rightarrow> state \<Rightarrow> (error + unit) \<times> state" where
  "freeze_deep [] s = (Inr (), s)"
| "freeze_deep (v # vs) s =
     (case fst (freeze_skips v s) of
        Inl e \<Rightarrow> (Inl e, s)
      | Inr True \<Rightarrow> freeze_deep vs s
      | Inr False \<Rightarrow>
          (case v of
             Ref a \<Rightarrow> freeze_deep (object_values (content (heap s ! a)) @ vs) (setFrozen a s)
           | _ \<Rightarrow> freeze_deep vs s))"
  by pat_completeness auto

lemma filter_update_less:
  assumes "a < length xs" "P (xs ! a)" "\<not> P y"
  shows "length (filter P (xs[a := y])) < length (filter P xs)"
proof -
  have "xs = take a xs @ xs ! a # drop (Suc a) xs"
    using assms(1) by (rule id_take_nth_drop)
  moreover have "xs[a := y] = take a xs @ y # drop (Suc a) xs"
    using assms(1) by (rule upd_conv_take_nth_drop)
  ultimately have
    "length (filter P xs) =
       length (filter P (take a xs)) + Suc (length (filter P (drop (Suc a) xs)))"
    and "length (filter P (xs[a := y])) =
       length (filter P (take a xs)) + length (filter P (drop (Suc a) xs))"
    using assms(2,3) by (metis filter.simps(2) filter_append length_append length_Cons)+
  then show ?thesis by simp
qed

lemma unfrozen_count_setFrozen:
  "a < length (heap s) \<Longrightarrow> \<not> is_frozen (heap s ! a) \<Longrightarrow>
     unfrozen_count (setFrozen a s) < unfrozen_count s"
  unfolding unfrozen_count_def setFrozen_def
  by (simp add: filter_update_less)

lemma freeze_skips_Ref_False:
  "fst (freeze_skips (Ref a) s) = Inr False \<Longrightarrow>
     a < length (heap s) \<and> \<not> is_frozen (heap s ! a)"
  unfolding freeze_skips_def isFrozen_def isDraft_def isDraftable_def getObj_def
    getContent_def bindM_def retM_def
  by (auto split: if_splits prod.splits sum.splits)

termination freeze_deep
  apply (relation "measures [\<lambda>(vs, s). unfrozen_count s, \<lambda>(vs, s). length vs]")
  apply simp_all
  apply (drule freeze_skips_Ref_False)
  apply (simp add: unfrozen_count_setFrozen)
  done

text \<open>
  \<open>freeze(obj, deep)\<close>:
  \<^verbatim>\<open>if (isFrozen(obj) || isDraft(obj) || !isDraftable(obj)) return obj
  if (getArchtype(obj) > 1) obj.set = obj.add = obj.clear = obj.delete = dontMutateFrozenCollections
  Object.freeze(obj)
  if (deep) Object.values(obj).forEach(value => freeze(value, true))\<close>
\<close>

definition freeze :: "val \<Rightarrow> bool \<Rightarrow> unit M" where
  "freeze v deep =
     (if deep then freeze_deep [v]
      else bindM (freeze_skips v) (\<lambda>sk.
             if sk then retM ()
             else (case v of Ref a \<Rightarrow> modifyM (setFrozen a) | _ \<Rightarrow> retM ())))"

subsection \<open>Assignment and deletion on ordinary objects\<close>

definition is_objectish :: "val \<Rightarrow> bool" where
  "is_objectish v = (case v of Prim _ \<Rightarrow> False | _ \<Rightarrow> True)"

text \<open>
  \<open>o[k] = v\<close> on an ordinary heap object, in strict-mode code.  A key that resolves to
  the inherited \<open>__proto__\<close> accessor runs its setter, which changes the prototype when
  \<open>v\<close> is an object or null (logged in \<open>proto_writes\<close>) and does nothing otherwise.
  A frozen object rejects the write.  Arrays take indices and \<open>length\<close>; an array with
  other own properties is outside the model.
\<close>

definition ordSet :: "nat \<Rightarrow> key \<Rightarrow> val \<Rightarrow> unit M" where
  "ordSet a k v =
     bindM (getObj a) (\<lambda>ob.
       if \<not> own_has (content ob) k \<and> proto_desc (content ob) k = Some PAccessor then
         (if is_objectish v \<or> v = Prim PNull
          then (if is_frozen ob then throwM TypeError
                else modifyM (\<lambda>s. s\<lparr>proto_writes := proto_writes s @ [(a, v)]\<rparr>))
          else retM ())
       else if is_frozen ob then throwM TypeError
       else
         (case content ob of
            ORecord fs \<Rightarrow> setContent a (ORecord (props_set fs k v))
          | OOpaque fs \<Rightarrow> setContent a (OOpaque (props_set fs k v))
          | OArray xs \<Rightarrow>
              (case k of
                 KNum i \<Rightarrow> setContent a (OArray (arr_set_index xs i v))
               | KStr n \<Rightarrow>
                   (if n = ''length'' then
                      (case v of
                         Prim (PNum l) \<Rightarrow>
                           (if 0 \<le> l then setContent a (OArray (arr_set_length xs (nat l)))
                            else throwM RangeError)
                       | _ \<Rightarrow> throwM RangeError)
                    else throwM Unmodelled)
               | KSym _ \<Rightarrow> throwM Unmodelled)
          | _ \<Rightarrow> throwM Unmodelled))"

text \<open>\<open>delete o[k]\<close> on an ordinary heap object, in strict-mode code.\<close>

definition ordDelete :: "nat \<Rightarrow> key \<Rightarrow> unit M" where
  "ordDelete a k =
     bindM (getObj a) (\<lambda>ob.
       if \<not> own_has (content ob) k then retM ()
       else if is_frozen ob then throwM TypeError
       else
         (case content ob of
            ORecord fs \<Rightarrow> setContent a (ORecord (props_delete fs k))
          | OOpaque fs \<Rightarrow> setContent a (OOpaque (props_delete fs k))
          | OArray xs \<Rightarrow>
              (case k of
                 KNum i \<Rightarrow> setContent a (OArray (arr_delete_index xs i))
               | _ \<Rightarrow> throwM TypeError)
          | _ \<Rightarrow> throwM Unmodelled))"

section \<open>scope.ts\<close>

definition getCurrentScope :: "nat option M" where
  "getCurrentScope = getsM currentScope"

definition createScope :: "nat option \<Rightarrow> scope" where
  "createScope parent =
     \<lparr>patches_s = None, inversePatches_s = None, canAutoFreeze_s = True,
      drafts_s = Some [], parent_s = parent, patchListener_s = False,
      unfinalizedDrafts_s = 0\<rparr>"

text \<open>\<open>usePatchesInScope\<close>; the Patches plugin is taken as loaded.\<close>

definition usePatchesInScope :: "nat \<Rightarrow> bool \<Rightarrow> unit M" where
  "usePatchesInScope sc patchListener =
     whenM patchListener
       (setScope sc (\<lambda>x. x\<lparr>patches_s := Some [], inversePatches_s := Some [],
                            patchListener_s := True\<rparr>))"

definition leaveScope :: "nat \<Rightarrow> unit M" where
  "leaveScope sc =
     bindM (getScope sc) (\<lambda>x.
       modifyM (\<lambda>s. if currentScope s = Some sc then s\<lparr>currentScope := parent_s x\<rparr> else s))"

text \<open>\<open>revokeDraft\<close>: a proxy is revoked through \<open>revoke_\<close>, a map or set draft by
  its flag; both are the flag \<open>revoked_d\<close> here.\<close>

definition revokeDraft :: "nat \<Rightarrow> unit M" where
  "revokeDraft d = bindM (stateOf d) (\<lambda>_. setDraft d (\<lambda>st. st\<lparr>revoked_d := True\<rparr>))"

definition revokeScope :: "nat \<Rightarrow> unit M" where
  "revokeScope sc =
     thenM (leaveScope sc)
       (bindM (getScope sc) (\<lambda>x.
          case drafts_s x of
            None \<Rightarrow> throwM TypeError
          | Some ds \<Rightarrow> thenM (forM ds revokeDraft) (setScope sc (\<lambda>y. y\<lparr>drafts_s := None\<rparr>))))"

definition enterScope :: "nat M" where
  "enterScope =
     (\<lambda>s. (Inr (length (scopes s)),
            s\<lparr>scopes := scopes s @ [createScope (currentScope s)],
              currentScope := Some (length (scopes s))\<rparr>))"

section \<open>Creating drafts\<close>

definition archtype_of :: "content \<Rightarrow> archtype" where
  "archtype_of c =
     (case c of OArray _ \<Rightarrow> AArray | OMap _ \<Rightarrow> AMap | OSet _ \<Rightarrow> ASet | _ \<Rightarrow> AObject)"

text \<open>The initial state record written by \<open>createProxyProxy\<close> and by the constructors
  of \<open>DraftMap\<close> and \<open>DraftSet\<close>.\<close>

definition new_dstate :: "archtype \<Rightarrow> nat \<Rightarrow> nat option \<Rightarrow> nat \<Rightarrow> dstate" where
  "new_dstate t sc parent b =
     \<lparr>type_d = t, scope_d = sc, modified_d = False, finalized_d = False,
      isManual_d = False, parent_d = parent, base_d = b, copy_d = None,
      assigned_d = [], massigned_d = None, drafts_d = [], revoked_d = False\<rparr>"

text \<open>
  immerClass.ts \<open>createProxy(value, parent)\<close>: the draft is built for the kind of
  \<open>value\<close>, with the scope of the parent or else the current scope, and pushed on that
  scope's \<open>drafts_\<close>.  Without a scope the push fails on \<open>undefined\<close>, after a revoked
  scope on \<open>null\<close>.  The value drafted is a heap object; a draft wrapped in a second
  draft is outside the model.
\<close>

definition createProxy :: "val \<Rightarrow> nat option \<Rightarrow> val M" where
  "createProxy v parent =
     (case v of
        Ref a \<Rightarrow>
          bindM (getContent a) (\<lambda>c.
          bindM (case parent of
                   Some p \<Rightarrow> bindM (getDraft p) (\<lambda>pst. retM (Some (scope_d pst)))
                 | None \<Rightarrow> getCurrentScope) (\<lambda>sco.
            case sco of
              None \<Rightarrow> throwM TypeError
            | Some sc \<Rightarrow>
                bindM (getsM (\<lambda>s. length (drafts s))) (\<lambda>d.
                thenM (modifyM (\<lambda>s. s\<lparr>drafts :=
                         drafts s @ [new_dstate (archtype_of c) sc parent a]\<rparr>))
                 (bindM (getScope sc) (\<lambda>x.
                    case drafts_s x of
                      None \<Rightarrow> throwM TypeError
                    | Some ds \<Rightarrow>
                        thenM (setScope sc (\<lambda>y. y\<lparr>drafts_s := Some (ds @ [d])\<rparr>))
                          (retM (Draft d)))))))
      | _ \<Rightarrow> throwM Unmodelled)"

section \<open>proxy.ts: record and array drafts\<close>

text \<open>\<open>prepareCopy\<close>:
  \<^verbatim>\<open>if (!state.copy_) state.copy_ = shallowCopy(state.base_, state.scope_.immer_.useStrictShallowCopy_)\<close>\<close>

definition prepareCopy :: "nat \<Rightarrow> unit M" where
  "prepareCopy d =
     bindM (getDraft d) (\<lambda>st.
       case copy_d st of
         Some _ \<Rightarrow> retM ()
       | None \<Rightarrow>
           bindM (getContent (base_d st)) (\<lambda>c.
           bindM (getsM useStrictShallowCopy) (\<lambda>mode.
           bindM (alloc (shallowCopy c mode)) (\<lambda>a.
             setDraft d (\<lambda>x. x\<lparr>copy_d := Some a\<rparr>)))))"

text \<open>
  \<open>markChanged\<close>:
  \<^verbatim>\<open>if (!state.modified_) { state.modified_ = true; if (state.parent_) markChanged(state.parent_) }\<close>
  A parent is created before its children, so its index is smaller; the recursion is
  written with that test, which makes it terminate on every table.
\<close>

function markChanged_rec :: "nat \<Rightarrow> state \<Rightarrow> state" where
  "markChanged_rec d s =
     (if d < length (drafts s) \<and> \<not> modified_d (drafts s ! d) then
        (let s' = s\<lparr>drafts := (drafts s)[d := (drafts s ! d)\<lparr>modified_d := True\<rparr>]\<rparr> in
         case parent_d (drafts s ! d) of
           None \<Rightarrow> s'
         | Some p \<Rightarrow> (if p < d then markChanged_rec p s' else s'))
      else s)"
  by pat_completeness auto
termination
  by (relation "measure (\<lambda>(d, s). d)") auto

declare markChanged_rec.simps [simp del]

definition markChanged :: "nat \<Rightarrow> unit M" where
  "markChanged d = modifyM (markChanged_rec d)"

text \<open>\<open>peek(draft, prop)\<close>, which the traps call on \<open>state.base_\<close> and on
  \<open>latest(state)\<close>: a plain read \<open>source[prop]\<close>.\<close>

definition peek :: "nat \<Rightarrow> key \<Rightarrow> val M" where
  "peek a k = bindM (getContent a) (\<lambda>c. retM (ord_get c k))"

text \<open>\<open>getDescriptorFromProto(source, prop)\<close>: nothing unless \<open>prop in source\<close>, else
  the first descriptor on the prototype chain.\<close>

definition getDescriptorFromProto :: "content \<Rightarrow> key \<Rightarrow> protodesc option" where
  "getDescriptorFromProto source k = (if \<not> in_obj source k then None else proto_desc source k)"

text \<open>\<open>readPropFromProto\<close>: the inherited value, or the inherited getter called on the
  draft.  The one inherited getter, of \<open>__proto__\<close>, answers the prototype of the draft,
  which the \<open>getPrototypeOf\<close> trap takes from \<open>state.base_\<close>.\<close>

definition readPropFromProto :: "dstate \<Rightarrow> content \<Rightarrow> key \<Rightarrow> val M" where
  "readPropFromProto st source k =
     (case getDescriptorFromProto source k of
        None \<Rightarrow> retM (Prim PUndefined)
      | Some (PData v) \<Rightarrow> retM v
      | Some PAccessor \<Rightarrow> bindM (getContent (base_d st)) (\<lambda>b. retM (proto_of b)))"

text \<open>\<open>state.copy_![prop] = value\<close>: fails on a null copy.\<close>

definition copyAssign :: "nat \<Rightarrow> key \<Rightarrow> val \<Rightarrow> unit M" where
  "copyAssign d k v =
     bindM (getDraft d) (\<lambda>st.
       case copy_d st of None \<Rightarrow> throwM TypeError | Some ca \<Rightarrow> ordSet ca k v)"

text \<open>\<open>objectTraps.get\<close>.  The state itself is not a value of the model, so a read of
  \<open>DRAFT_STATE\<close> through the trap is left out.\<close>

definition objectTraps_get :: "nat \<Rightarrow> key \<Rightarrow> val M" where
  "objectTraps_get d k =
     bindM (stateOf d) (\<lambda>st.
       if k = DRAFT_STATE then throwM Unmodelled else
       bindM (getContent (latest st)) (\<lambda>source.
         if \<not> own_has source k then readPropFromProto st source k
         else
           (let v = (case own_get source k of Some x \<Rightarrow> x | None \<Rightarrow> Prim PUndefined) in
            if finalized_d st then retM v else
            bindM (isDraftable v) (\<lambda>da.
              if \<not> da then retM v else
              bindM (peek (base_d st) k) (\<lambda>bv.
                if strict_eq v bv then
                  thenM (prepareCopy d)
                    (bindM (createProxy v (Some d)) (\<lambda>dr.
                       thenM (copyAssign d k dr) (retM dr)))
                else retM v)))))"

text \<open>\<open>objectTraps.has\<close>: \<^verbatim>\<open>return prop in latest(state)\<close>.\<close>

definition objectTraps_has :: "nat \<Rightarrow> key \<Rightarrow> bool M" where
  "objectTraps_has d k =
     bindM (stateOf d) (\<lambda>st. bindM (getContent (latest st)) (\<lambda>c. retM (in_obj c k)))"

text \<open>\<open>objectTraps.ownKeys\<close>: \<^verbatim>\<open>return Reflect.ownKeys(latest(state))\<close>.\<close>

definition objectTraps_ownKeys :: "nat \<Rightarrow> key list M" where
  "objectTraps_ownKeys d =
     bindM (stateOf d) (\<lambda>st. bindM (getContent (latest st)) (\<lambda>c. retM (own_keys c)))"

text \<open>\<open>state.assigned_[prop] = b\<close> and \<open>delete state.assigned_[prop]\<close>.\<close>

definition assign_key :: "(key \<times> bool) list \<Rightarrow> key \<Rightarrow> bool \<Rightarrow> (key \<times> bool) list" where
  "assign_key al k b =
     (if map_of al k \<noteq> None then map (\<lambda>p. if fst p = k then (k, b) else p) al
      else al @ [(k, b)])"

definition setAssigned :: "nat \<Rightarrow> key \<Rightarrow> bool \<Rightarrow> unit M" where
  "setAssigned d k b = setDraft d (\<lambda>st. st\<lparr>assigned_d := assign_key (assigned_d st) k b\<rparr>)"

definition deleteAssigned :: "nat \<Rightarrow> key \<Rightarrow> unit M" where
  "deleteAssigned d k =
     setDraft d (\<lambda>st. st\<lparr>assigned_d := filter (\<lambda>p. fst p \<noteq> k) (assigned_d st)\<rparr>)"

text \<open>
  \<open>objectTraps.set\<close>, the block under \<open>if (!state.modified_)\<close>.  The result says
  whether control goes on past the block (\<open>False\<close>: the trap has returned).
  \<^verbatim>\<open>const current = peek(latest(state), prop)
  const currentState = current?.[DRAFT_STATE]
  if (currentState && currentState.base_ === value) {
    state.copy_![prop] = value; state.assigned_[prop] = false; return true }
  if (is(value, current) && (value !== undefined || has(state.base_, prop))) return true
  prepareCopy(state); markChanged(state)\<close>
\<close>

definition set_unmodified :: "nat \<Rightarrow> key \<Rightarrow> val \<Rightarrow> bool M" where
  "set_unmodified d k v =
     bindM (stateOf d) (\<lambda>st.
     bindM (peek (latest st) k) (\<lambda>current.
     bindM (case current of
              Draft c \<Rightarrow> bindM (stateOf c) (\<lambda>cs. retM (Some cs))
            | _ \<Rightarrow> retM None) (\<lambda>currentState.
       if (case currentState of Some cs \<Rightarrow> strict_eq (Ref (base_d cs)) v | None \<Rightarrow> False)
       then thenM (copyAssign d k v) (thenM (setAssigned d k False) (retM False))
       else
         bindM (getContent (base_d st)) (\<lambda>b.
           if is v current \<and> (\<not> strict_eq v (Prim PUndefined) \<or> own_has b k)
           then retM False
           else thenM (prepareCopy d) (thenM (markChanged d) (retM True))))))"

text \<open>
  \<open>objectTraps.set\<close>, after that block:
  \<^verbatim>\<open>if ((state.copy_![prop] === value && (value !== undefined || prop in state.copy_)) ||
      (Number.isNaN(value) && Number.isNaN(state.copy_![prop]))) return true
  state.copy_![prop] = value; state.assigned_[prop] = true; return true\<close>
\<close>

definition set_store :: "nat \<Rightarrow> key \<Rightarrow> val \<Rightarrow> unit M" where
  "set_store d k v =
     bindM (getDraft d) (\<lambda>st.
       case copy_d st of
         None \<Rightarrow> throwM TypeError
       | Some ca \<Rightarrow>
           bindM (getContent ca) (\<lambda>cp.
             if (strict_eq (ord_get cp k) v \<and> (\<not> strict_eq v (Prim PUndefined) \<or> in_obj cp k))
                \<or> (v = Prim PNaN \<and> ord_get cp k = Prim PNaN)
             then retM ()
             else thenM (ordSet ca k v) (setAssigned d k True)))"

text \<open>
  \<open>objectTraps.set\<close>.  An inherited setter is called on the draft; the only one is the
  setter of \<open>__proto__\<close>, which asks the proxy to change its prototype when the value is
  an object or null (the \<open>setPrototypeOf\<close> trap: \<open>die(12)\<close>) and does nothing otherwise.
\<close>

definition objectTraps_set :: "nat \<Rightarrow> key \<Rightarrow> val \<Rightarrow> unit M" where
  "objectTraps_set d k v =
     bindM (stateOf d) (\<lambda>st.
     bindM (getContent (latest st)) (\<lambda>source.
       if getDescriptorFromProto source k = Some PAccessor then
         (if is_objectish v \<or> v = Prim PNull then die 12 else retM ())
       else
         bindM (if modified_d st then retM True else set_unmodified d k v) (\<lambda>goes_on.
           if goes_on then set_store d k v else retM ())))"

text \<open>
  \<open>objectTraps.deleteProperty\<close>:
  \<^verbatim>\<open>if (peek(state.base_, prop) !== undefined || prop in state.base_) {
    state.assigned_[prop] = false; prepareCopy(state); markChanged(state)
  } else { delete state.assigned_[prop] }
  if (state.copy_) delete state.copy_[prop]
  return true\<close>
\<close>

definition objectTraps_deleteProperty :: "nat \<Rightarrow> key \<Rightarrow> unit M" where
  "objectTraps_deleteProperty d k =
     bindM (stateOf d) (\<lambda>st.
     bindM (getContent (base_d st)) (\<lambda>b.
       thenM (if \<not> strict_eq (ord_get b k) (Prim PUndefined) \<or> in_obj b k
              then thenM (setAssigned d k False) (thenM (prepareCopy d) (markChanged d))
              else deleteAssigned d k)
         (bindM (getDraft d) (\<lambda>st'.
            case copy_d st' of Some ca \<Rightarrow> ordDelete ca k | None \<Rightarrow> retM ()))))"

text \<open>\<open>objectTraps.getPrototypeOf\<close>, \<open>defineProperty\<close> and \<open>setPrototypeOf\<close>.\<close>

definition objectTraps_getPrototypeOf :: "nat \<Rightarrow> val M" where
  "objectTraps_getPrototypeOf d =
     bindM (stateOf d) (\<lambda>st. bindM (getContent (base_d st)) (\<lambda>b. retM (proto_of b)))"

definition objectTraps_defineProperty :: "nat \<Rightarrow> unit M" where
  "objectTraps_defineProperty d = bindM (stateOf d) (\<lambda>_. die 11)"

definition objectTraps_setPrototypeOf :: "nat \<Rightarrow> unit M" where
  "objectTraps_setPrototypeOf d = bindM (stateOf d) (\<lambda>_. die 12)"

text \<open>
  \<open>isNaN(parseInt(prop))\<close>: \<open>parseInt\<close> skips white space and a sign and then needs
  a digit; on a symbol it throws.
\<close>

definition is_digit :: "char \<Rightarrow> bool" where
  "is_digit c = (c \<in> set ''0123456789'')"

definition parseInt_isNaN :: "string \<Rightarrow> bool" where
  "parseInt_isNaN str =
     (case dropWhile (\<lambda>c. c = CHR '' '') str of
        [] \<Rightarrow> True
      | c # cs \<Rightarrow>
          (if c = CHR ''+'' \<or> c = CHR ''-''
           then (case cs of [] \<Rightarrow> True | c' # _ \<Rightarrow> \<not> is_digit c')
           else \<not> is_digit c))"

definition key_parseInt_isNaN :: "key \<Rightarrow> bool M" where
  "key_parseInt_isNaN k =
     (case k of
        KNum _ \<Rightarrow> retM False
      | KStr str \<Rightarrow> retM (parseInt_isNaN str)
      | KSym _ \<Rightarrow> throwM TypeError)"

text \<open>
  \<open>arrayTraps.set\<close>, with the check of non-production builds:
  \<^verbatim>\<open>if (prop !== "length" && isNaN(parseInt(prop))) die(14)
  return objectTraps.set.call(this, state[0], prop, value, state[0])\<close>
\<close>

definition arrayTraps_set :: "nat \<Rightarrow> key \<Rightarrow> val \<Rightarrow> unit M" where
  "arrayTraps_set d k v =
     bindM (stateOf d) (\<lambda>_.
       if k = KStr ''length'' then objectTraps_set d k v
       else bindM (key_parseInt_isNaN k) (\<lambda>nan.
              if nan then die 14 else objectTraps_set d k v))"

text \<open>
  \<open>arrayTraps.deleteProperty\<close>:
  \<^verbatim>\<open>if (isNaN(parseInt(prop))) die(13)
  return arrayTraps.set.call(this, state, prop, undefined)\<close>
\<close>

definition arrayTraps_deleteProperty :: "nat \<Rightarrow> key \<Rightarrow> unit M" where
  "arrayTraps_deleteProperty d k =
     bindM (stateOf d) (\<lambda>_.
     bindM (key_parseInt_isNaN k) (\<lambda>nan.
       if nan then die 13 else arrayTraps_set d k (Prim PUndefined)))"

section \<open>mapset.ts: map and set drafts\<close>

primrec mapM :: "'a list \<Rightarrow> ('a \<Rightarrow> 'b M) \<Rightarrow> 'b list M" where
  "mapM [] f = retM []"
| "mapM (x # xs) f = bindM (f x) (\<lambda>y. bindM (mapM xs f) (\<lambda>ys. retM (y # ys)))"

definition mapOf :: "nat \<Rightarrow> (val \<times> val) list M" where
  "mapOf a = bindM (getContent a) (\<lambda>c. case c of OMap m \<Rightarrow> retM m | _ \<Rightarrow> throwM Unmodelled)"

definition setOf :: "nat \<Rightarrow> val list M" where
  "setOf a = bindM (getContent a) (\<lambda>c. case c of OSet xs \<Rightarrow> retM xs | _ \<Rightarrow> throwM Unmodelled)"

text \<open>A call of a native mutating method on \<open>state.copy_\<close>.  On a null copy it fails; on
  a map or set that \<open>freeze\<close> has frozen the method is \<open>dontMutateFrozenCollections\<close>,
  which is \<open>die(2)\<close>.\<close>

definition copyUpdate :: "nat \<Rightarrow> (content \<Rightarrow> content) \<Rightarrow> unit M" where
  "copyUpdate d f =
     bindM (getDraft d) (\<lambda>st.
       case copy_d st of
         None \<Rightarrow> throwM TypeError
       | Some ca \<Rightarrow>
           bindM (getObj ca) (\<lambda>ob.
             if is_frozen ob then die 2 else setContent ca (f (content ob))))"

definition on_map :: "((val \<times> val) list \<Rightarrow> (val \<times> val) list) \<Rightarrow> content \<Rightarrow> content" where
  "on_map f c = (case c of OMap m \<Rightarrow> OMap (f m) | _ \<Rightarrow> c)"

definition on_set :: "(val list \<Rightarrow> val list) \<Rightarrow> content \<Rightarrow> content" where
  "on_set f c = (case c of OSet xs \<Rightarrow> OSet (f xs) | _ \<Rightarrow> c)"

text \<open>\<open>assertUnrevoked\<close>: \<^verbatim>\<open>if (state.revoked_) die(3, JSON.stringify(latest(state)))\<close>\<close>

definition assertUnrevoked :: "nat \<Rightarrow> unit M" where
  "assertUnrevoked d = bindM (getDraft d) (\<lambda>st. if revoked_d st then die 3 else retM ())"

text \<open>\<open>prepareMapCopy\<close>:
  \<^verbatim>\<open>if (!state.copy_) { state.assigned_ = new Map(); state.copy_ = new Map(state.base_) }\<close>\<close>

definition prepareMapCopy :: "nat \<Rightarrow> unit M" where
  "prepareMapCopy d =
     bindM (getDraft d) (\<lambda>st.
       case copy_d st of
         Some _ \<Rightarrow> retM ()
       | None \<Rightarrow>
           thenM (setDraft d (\<lambda>x. x\<lparr>massigned_d := Some []\<rparr>))
             (bindM (mapOf (base_d st)) (\<lambda>m.
              bindM (alloc (OMap m)) (\<lambda>a.
                setDraft d (\<lambda>x. x\<lparr>copy_d := Some a\<rparr>)))))"

text \<open>\<open>state.assigned_!.set(key, b)\<close> and \<open>state.assigned_!.delete(key)\<close> of a map
  draft; they fail while \<open>assigned_\<close> is undefined.\<close>

definition massignedUpdate :: "nat \<Rightarrow> ((val \<times> bool) list \<Rightarrow> (val \<times> bool) list) \<Rightarrow> unit M" where
  "massignedUpdate d f =
     bindM (getDraft d) (\<lambda>st.
       case massigned_d st of
         None \<Rightarrow> throwM TypeError
       | Some al \<Rightarrow> setDraft d (\<lambda>x. x\<lparr>massigned_d := Some (f al)\<rparr>))"

subsection \<open>DraftMap\<close>

text \<open>\<open>get size()\<close>: \<^verbatim>\<open>return latest(this[DRAFT_STATE]).size\<close>\<close>

definition DraftMap_size :: "nat \<Rightarrow> nat M" where
  "DraftMap_size d =
     bindM (getDraft d) (\<lambda>st. bindM (mapOf (latest st)) (\<lambda>m. retM (length m)))"

text \<open>\<open>has(key)\<close>: \<^verbatim>\<open>return latest(this[DRAFT_STATE]).has(key)\<close>\<close>

definition DraftMap_has :: "nat \<Rightarrow> val \<Rightarrow> bool M" where
  "DraftMap_has d k =
     bindM (getDraft d) (\<lambda>st. bindM (mapOf (latest st)) (\<lambda>m. retM (map_has m k)))"

text \<open>
  \<open>set(key, value)\<close>:
  \<^verbatim>\<open>assertUnrevoked(state)
  if (!latest(state).has(key) || latest(state).get(key) !== value) {
    prepareMapCopy(state); markChanged(state)
    state.assigned_!.set(key, true); state.copy_!.set(key, value); state.assigned_!.set(key, true)
  }
  return this\<close>
\<close>

definition DraftMap_set :: "nat \<Rightarrow> val \<Rightarrow> val \<Rightarrow> unit M" where
  "DraftMap_set d k v =
     thenM (assertUnrevoked d)
       (bindM (getDraft d) (\<lambda>st.
        bindM (mapOf (latest st)) (\<lambda>m.
          if \<not> map_has m k \<or> \<not> strict_eq (map_get_val m k) v then
            thenM (prepareMapCopy d)
           (thenM (markChanged d)
           (thenM (massignedUpdate d (\<lambda>al. map_set al k True))
           (thenM (copyUpdate d (on_map (\<lambda>m. map_set m k v)))
                  (massignedUpdate d (\<lambda>al. map_set al k True)))))
          else retM ())))"

text \<open>
  \<open>delete(key)\<close>:
  \<^verbatim>\<open>if (!this.has(key)) return false
  assertUnrevoked(state); prepareMapCopy(state); markChanged(state)
  if (state.base_.has(key)) state.assigned_!.set(key, false) else state.assigned_!.delete(key)
  state.copy_!.delete(key)
  return true\<close>
\<close>

definition DraftMap_delete :: "nat \<Rightarrow> val \<Rightarrow> bool M" where
  "DraftMap_delete d k =
     bindM (DraftMap_has d k) (\<lambda>h.
       if \<not> h then retM False else
       thenM (assertUnrevoked d)
      (thenM (prepareMapCopy d)
      (thenM (markChanged d)
      (bindM (getDraft d) (\<lambda>st.
       bindM (mapOf (base_d st)) (\<lambda>b.
       thenM (if map_has b k then massignedUpdate d (\<lambda>al. map_set al k False)
              else massignedUpdate d (\<lambda>al. map_delete al k))
      (thenM (copyUpdate d (on_map (\<lambda>m. map_delete m k)))
             (retM True))))))))"

text \<open>
  \<open>clear()\<close>:
  \<^verbatim>\<open>assertUnrevoked(state)
  if (latest(state).size) {
    prepareMapCopy(state); markChanged(state)
    state.assigned_ = new Map()
    each(state.base_, key => { state.assigned_!.set(key, false) })
    state.copy_!.clear()
  }\<close>
\<close>

definition DraftMap_clear :: "nat \<Rightarrow> unit M" where
  "DraftMap_clear d =
     thenM (assertUnrevoked d)
       (bindM (getDraft d) (\<lambda>st.
        bindM (mapOf (latest st)) (\<lambda>m.
          if length m \<noteq> 0 then
            thenM (prepareMapCopy d)
           (thenM (markChanged d)
           (bindM (mapOf (base_d st)) (\<lambda>b.
            thenM (setDraft d (\<lambda>x. x\<lparr>massigned_d :=
                     Some (foldl (\<lambda>al key. map_set al key False) [] (map fst b))\<rparr>))
                  (copyUpdate d (on_map (\<lambda>_. []))))))
          else retM ())))"

text \<open>
  \<open>get(key)\<close>:
  \<^verbatim>\<open>assertUnrevoked(state)
  const value = latest(state).get(key)
  if (state.finalized_ || !isDraftable(value)) return value
  if (value !== state.base_.get(key)) return value
  const draft = createProxy(value, state)
  prepareMapCopy(state)
  state.copy_!.set(key, draft)
  return draft\<close>
\<close>

definition DraftMap_get :: "nat \<Rightarrow> val \<Rightarrow> val M" where
  "DraftMap_get d k =
     thenM (assertUnrevoked d)
       (bindM (getDraft d) (\<lambda>st.
        bindM (mapOf (latest st)) (\<lambda>m.
          let v = map_get_val m k in
          if finalized_d st then retM v else
          bindM (isDraftable v) (\<lambda>da.
            if \<not> da then retM v else
            bindM (mapOf (base_d st)) (\<lambda>b.
              if \<not> strict_eq v (map_get_val b k) then retM v
              else
                bindM (createProxy v (Some d)) (\<lambda>dr.
                thenM (prepareMapCopy d)
               (thenM (copyUpdate d (on_map (\<lambda>m. map_set m k dr)))
                      (retM dr))))))))"

text \<open>\<open>keys()\<close>: \<^verbatim>\<open>return latest(this[DRAFT_STATE]).keys()\<close>, read to its end at once.\<close>

definition DraftMap_keys :: "nat \<Rightarrow> val list M" where
  "DraftMap_keys d =
     bindM (getDraft d) (\<lambda>st. bindM (mapOf (latest st)) (\<lambda>m. retM (map fst m)))"

text \<open>\<open>values()\<close> and \<open>entries()\<close> (the default iterator): an iterator over
  \<open>this.keys()\<close> whose \<open>next\<close> answers \<open>this.get(key)\<close>; here read to its end at
  once.\<close>

definition DraftMap_values :: "nat \<Rightarrow> val list M" where
  "DraftMap_values d = bindM (DraftMap_keys d) (\<lambda>ks. mapM ks (DraftMap_get d))"

definition DraftMap_entries :: "nat \<Rightarrow> (val \<times> val) list M" where
  "DraftMap_entries d =
     bindM (DraftMap_keys d) (\<lambda>ks.
       mapM ks (\<lambda>k. bindM (DraftMap_get d k) (\<lambda>v. retM (k, v))))"

text \<open>
  \<open>forEach(cb)\<close>:
  \<^verbatim>\<open>latest(state).forEach((_value, key, _map) => { cb.call(thisArg, this.get(key), key, this) })\<close>
  The callback is user code; the result lists the arguments it is called with when it
  leaves the map as it is.
\<close>

definition DraftMap_forEach :: "nat \<Rightarrow> (val \<times> val) list M" where
  "DraftMap_forEach d =
     bindM (getDraft d) (\<lambda>st.
     bindM (mapOf (latest st)) (\<lambda>m.
       mapM (map fst m) (\<lambda>k. bindM (DraftMap_get d k) (\<lambda>v. retM (v, k)))))"

subsection \<open>DraftSet\<close>

text \<open>
  \<open>prepareSetCopy\<close>:
  \<^verbatim>\<open>if (!state.copy_) {
    state.copy_ = new Set()
    state.base_.forEach(value => {
      if (isDraftable(value)) {
        const draft = createProxy(value, state)
        state.drafts_.set(value, draft); state.copy_!.add(draft)
      } else state.copy_!.add(value)
    })
  }\<close>
\<close>

definition prepareSetCopy :: "nat \<Rightarrow> unit M" where
  "prepareSetCopy d =
     bindM (getDraft d) (\<lambda>st.
       case copy_d st of
         Some _ \<Rightarrow> retM ()
       | None \<Rightarrow>
           bindM (alloc (OSet [])) (\<lambda>a.
           thenM (setDraft d (\<lambda>x. x\<lparr>copy_d := Some a\<rparr>))
          (bindM (setOf (base_d st)) (\<lambda>b.
             forM b (\<lambda>v.
               bindM (isDraftable v) (\<lambda>da.
                 if da then
                   bindM (createProxy v (Some d)) (\<lambda>dr.
                   thenM (setDraft d (\<lambda>x. x\<lparr>drafts_d := map_set (drafts_d x) v dr\<rparr>))
                         (copyUpdate d (on_set (\<lambda>xs. set_add xs dr))))
                 else copyUpdate d (on_set (\<lambda>xs. set_add xs v))))))))"

text \<open>\<open>get size()\<close>: \<^verbatim>\<open>return latest(this[DRAFT_STATE]).size\<close>\<close>

definition DraftSet_size :: "nat \<Rightarrow> nat M" where
  "DraftSet_size d =
     bindM (getDraft d) (\<lambda>st. bindM (setOf (latest st)) (\<lambda>xs. retM (length xs)))"

text \<open>
  \<open>has(value)\<close>:
  \<^verbatim>\<open>assertUnrevoked(state)
  if (!state.copy_) return state.base_.has(value)
  if (state.copy_.has(value)) return true
  if (state.drafts_.has(value) && state.copy_.has(state.drafts_.get(value))) return true
  return false\<close>
\<close>

definition DraftSet_has :: "nat \<Rightarrow> val \<Rightarrow> bool M" where
  "DraftSet_has d v =
     thenM (assertUnrevoked d)
       (bindM (getDraft d) (\<lambda>st.
          case copy_d st of
            None \<Rightarrow> bindM (setOf (base_d st)) (\<lambda>b. retM (set_has b v))
          | Some ca \<Rightarrow>
              bindM (setOf ca) (\<lambda>xs.
                if set_has xs v then retM True
                else retM (case map_get (drafts_d st) v of
                             Some dr \<Rightarrow> set_has xs dr
                           | None \<Rightarrow> False))))"

text \<open>
  \<open>add(value)\<close>:
  \<^verbatim>\<open>assertUnrevoked(state)
  if (!this.has(value)) { prepareSetCopy(state); markChanged(state); state.copy_!.add(value) }
  return this\<close>
\<close>

definition DraftSet_add :: "nat \<Rightarrow> val \<Rightarrow> unit M" where
  "DraftSet_add d v =
     thenM (assertUnrevoked d)
       (bindM (DraftSet_has d v) (\<lambda>h.
          if \<not> h then
            thenM (prepareSetCopy d)
           (thenM (markChanged d)
                  (copyUpdate d (on_set (\<lambda>xs. set_add xs v))))
          else retM ()))"

text \<open>
  \<open>delete(value)\<close>:
  \<^verbatim>\<open>if (!this.has(value)) return false
  assertUnrevoked(state); prepareSetCopy(state); markChanged(state)
  return (state.copy_!.delete(value) ||
    (state.drafts_.has(value) ? state.copy_!.delete(state.drafts_.get(value)) : false))\<close>
\<close>

definition DraftSet_delete :: "nat \<Rightarrow> val \<Rightarrow> bool M" where
  "DraftSet_delete d v =
     bindM (DraftSet_has d v) (\<lambda>h.
       if \<not> h then retM False else
       thenM (assertUnrevoked d)
      (thenM (prepareSetCopy d)
      (thenM (markChanged d)
      (bindM (getDraft d) (\<lambda>st.
       bindM (setOf (latest st)) (\<lambda>xs.
         if set_has xs v
         then thenM (copyUpdate d (on_set (\<lambda>ys. set_delete ys v))) (retM True)
         else
           (case map_get (drafts_d st) v of
              Some dr \<Rightarrow>
                thenM (copyUpdate d (on_set (\<lambda>ys. set_delete ys dr))) (retM (set_has xs dr))
            | None \<Rightarrow> retM False)))))))"

text \<open>
  \<open>clear()\<close>:
  \<^verbatim>\<open>assertUnrevoked(state)
  if (latest(state).size) { prepareSetCopy(state); markChanged(state); state.copy_!.clear() }\<close>
\<close>

definition DraftSet_clear :: "nat \<Rightarrow> unit M" where
  "DraftSet_clear d =
     thenM (assertUnrevoked d)
       (bindM (getDraft d) (\<lambda>st.
        bindM (setOf (latest st)) (\<lambda>xs.
          if length xs \<noteq> 0 then
            thenM (prepareSetCopy d)
           (thenM (markChanged d)
                  (copyUpdate d (on_set (\<lambda>_. []))))
          else retM ())))"

text \<open>
  \<open>values()\<close> (also \<open>keys()\<close> and the default iterator):
  \<^verbatim>\<open>assertUnrevoked(state); prepareSetCopy(state); return state.copy_!.values()\<close>
  read to its end at once.  \<open>entries()\<close> pairs every value with itself, and
  \<open>forEach\<close> calls its callback on the values of \<open>this.values()\<close>.
\<close>

definition DraftSet_values :: "nat \<Rightarrow> val list M" where
  "DraftSet_values d =
     thenM (assertUnrevoked d)
    (thenM (prepareSetCopy d)
    (bindM (getDraft d) (\<lambda>st.
       case copy_d st of None \<Rightarrow> throwM TypeError | Some ca \<Rightarrow> setOf ca)))"

definition DraftSet_keys :: "nat \<Rightarrow> val list M" where
  "DraftSet_keys d = DraftSet_values d"

definition DraftSet_entries :: "nat \<Rightarrow> (val \<times> val) list M" where
  "DraftSet_entries d =
     thenM (assertUnrevoked d)
    (thenM (prepareSetCopy d)
    (bindM (getDraft d) (\<lambda>st.
       case copy_d st of
         None \<Rightarrow> throwM TypeError
       | Some ca \<Rightarrow> bindM (setOf ca) (\<lambda>xs. retM (map (\<lambda>x. (x, x)) xs)))))"

definition DraftSet_forEach :: "nat \<Rightarrow> val list M" where
  "DraftSet_forEach d = DraftSet_values d"

section \<open>Operations of the language on any value\<close>

text \<open>
  \<open>v[k]\<close>, \<open>v[k] = x\<close>, \<open>delete v[k]\<close>, \<open>k in v\<close> and
  \<open>hasOwnProperty\<close>, as the patch code and a recipe perform them on a value that may
  be a record or array draft (the traps) or an ordinary object.  Properties of a map or
  set draft object itself, and of primitives other than null and undefined, are outside
  the model.
\<close>

definition js_get :: "val \<Rightarrow> key \<Rightarrow> val M" where
  "js_get v k =
     (case v of
        Draft d \<Rightarrow>
          bindM (stateOf d) (\<lambda>st.
            if type_d st = AObject \<or> type_d st = AArray then objectTraps_get d k
            else throwM Unmodelled)
      | Ref a \<Rightarrow> peek a k
      | Prim p \<Rightarrow> (if p = PUndefined \<or> p = PNull then throwM TypeError else throwM Unmodelled)
      | Builtin _ \<Rightarrow> throwM Unmodelled)"

definition js_set :: "val \<Rightarrow> key \<Rightarrow> val \<Rightarrow> unit M" where
  "js_set v k x =
     (case v of
        Draft d \<Rightarrow>
          bindM (stateOf d) (\<lambda>st.
            if type_d st = AObject then objectTraps_set d k x
            else if type_d st = AArray then arrayTraps_set d k x
            else throwM Unmodelled)
      | Ref a \<Rightarrow> ordSet a k x
      | Prim p \<Rightarrow> (if p = PUndefined \<or> p = PNull then throwM TypeError else throwM Unmodelled)
      | Builtin _ \<Rightarrow> throwM Unmodelled)"

definition js_delete :: "val \<Rightarrow> key \<Rightarrow> unit M" where
  "js_delete v k =
     (case v of
        Draft d \<Rightarrow>
          bindM (stateOf d) (\<lambda>st.
            if type_d st = AObject then objectTraps_deleteProperty d k
            else if type_d st = AArray then arrayTraps_deleteProperty d k
            else throwM Unmodelled)
      | Ref a \<Rightarrow> ordDelete a k
      | Prim p \<Rightarrow> (if p = PUndefined \<or> p = PNull then throwM TypeError else throwM Unmodelled)
      | Builtin _ \<Rightarrow> throwM Unmodelled)"

definition js_has :: "val \<Rightarrow> key \<Rightarrow> bool M" where
  "js_has v k =
     (case v of
        Draft d \<Rightarrow>
          bindM (stateOf d) (\<lambda>st.
            if type_d st = AObject \<or> type_d st = AArray then objectTraps_has d k
            else throwM Unmodelled)
      | Ref a \<Rightarrow> bindM (getContent a) (\<lambda>c. retM (in_obj c k))
      | _ \<Rightarrow> throwM TypeError)"

text \<open>
  \<open>objectTraps.getOwnPropertyDescriptor\<close> answers
  \<^verbatim>\<open>{writable: true, configurable: state.type_ !== ArchType.Array || prop !== "length",
   enumerable: desc.enumerable, value: owner[prop]}\<close>
  for an own property of \<open>latest(state)\<close>; \<open>hasOwnProperty\<close> and
  \<open>propertyIsEnumerable\<close> on a proxy go through it.
\<close>

definition js_hasOwn :: "val \<Rightarrow> key \<Rightarrow> bool M" where
  "js_hasOwn v k =
     (case v of
        Draft d \<Rightarrow>
          bindM (stateOf d) (\<lambda>st.
            if type_d st = AObject \<or> type_d st = AArray
            then bindM (getContent (latest st)) (\<lambda>c. retM (own_has c k))
            else throwM Unmodelled)
      | Ref a \<Rightarrow> bindM (getContent a) (\<lambda>c. retM (own_has c k))
      | Prim p \<Rightarrow> (if p = PUndefined \<or> p = PNull then throwM TypeError else retM False)
      | Builtin _ \<Rightarrow> throwM Unmodelled)"

definition js_isEnumerable :: "val \<Rightarrow> key \<Rightarrow> bool M" where
  "js_isEnumerable v k =
     (case v of
        Draft d \<Rightarrow>
          bindM (stateOf d) (\<lambda>st.
            if type_d st = AObject \<or> type_d st = AArray
            then bindM (getContent (latest st)) (\<lambda>c. retM (own_enumerable c k))
            else throwM Unmodelled)
      | Ref a \<Rightarrow> bindM (getContent a) (\<lambda>c. retM (own_enumerable c k))
      | Prim p \<Rightarrow> (if p = PUndefined \<or> p = PNull then throwM TypeError else retM False)
      | Builtin _ \<Rightarrow> throwM Unmodelled)"

definition js_ownKeys :: "val \<Rightarrow> key list M" where
  "js_ownKeys v =
     (case v of
        Draft d \<Rightarrow>
          bindM (stateOf d) (\<lambda>st.
            if type_d st = AObject \<or> type_d st = AArray then objectTraps_ownKeys d
            else throwM Unmodelled)
      | Ref a \<Rightarrow> bindM (getContent a) (\<lambda>c. retM (own_keys c))
      | _ \<Rightarrow> throwM TypeError)"

text \<open>Calls of the native Map and Set methods on an ordinary object; a frozen one has its
  mutating methods replaced by \<open>dontMutateFrozenCollections\<close>.\<close>

definition nativeUpdate :: "nat \<Rightarrow> (content \<Rightarrow> content) \<Rightarrow> unit M" where
  "nativeUpdate a f =
     bindM (getObj a) (\<lambda>ob. if is_frozen ob then die 2 else setContent a (f (content ob)))"

text \<open>Method calls \<open>v.get(k)\<close>, \<open>v.has(k)\<close>, \<open>v.set(k, x)\<close>, \<open>v.delete(k)\<close>,
  \<open>v.add(x)\<close> on a map or set, draft or not.\<close>

definition js_map_get :: "val \<Rightarrow> val \<Rightarrow> val M" where
  "js_map_get v k =
     (case v of
        Draft d \<Rightarrow> DraftMap_get d k
      | Ref a \<Rightarrow> bindM (mapOf a) (\<lambda>m. retM (map_get_val m k))
      | _ \<Rightarrow> throwM TypeError)"

definition js_map_has :: "val \<Rightarrow> val \<Rightarrow> bool M" where
  "js_map_has v k =
     (case v of
        Draft d \<Rightarrow> DraftMap_has d k
      | Ref a \<Rightarrow> bindM (mapOf a) (\<lambda>m. retM (map_has m k))
      | _ \<Rightarrow> throwM TypeError)"

definition js_map_set :: "val \<Rightarrow> val \<Rightarrow> val \<Rightarrow> unit M" where
  "js_map_set v k x =
     (case v of
        Draft d \<Rightarrow> DraftMap_set d k x
      | Ref a \<Rightarrow> bindM (mapOf a) (\<lambda>_. nativeUpdate a (on_map (\<lambda>m. map_set m k x)))
      | _ \<Rightarrow> throwM TypeError)"

definition js_map_delete :: "val \<Rightarrow> val \<Rightarrow> bool M" where
  "js_map_delete v k =
     (case v of
        Draft d \<Rightarrow> DraftMap_delete d k
      | Ref a \<Rightarrow>
          bindM (mapOf a) (\<lambda>m.
            thenM (nativeUpdate a (on_map (\<lambda>m. map_delete m k))) (retM (map_has m k)))
      | _ \<Rightarrow> throwM TypeError)"

definition js_set_add :: "val \<Rightarrow> val \<Rightarrow> unit M" where
  "js_set_add v x =
     (case v of
        Draft d \<Rightarrow> DraftSet_add d x
      | Ref a \<Rightarrow> bindM (setOf a) (\<lambda>_. nativeUpdate a (on_set (\<lambda>xs. set_add xs x)))
      | _ \<Rightarrow> throwM TypeError)"

definition js_set_delete :: "val \<Rightarrow> val \<Rightarrow> bool M" where
  "js_set_delete v x =
     (case v of
        Draft d \<Rightarrow> DraftSet_delete d x
      | Ref a \<Rightarrow>
          bindM (setOf a) (\<lambda>xs.
            thenM (nativeUpdate a (on_set (\<lambda>ys. set_delete ys x))) (retM (set_has xs x)))
      | _ \<Rightarrow> throwM TypeError)"

definition js_map_entries :: "val \<Rightarrow> (val \<times> val) list M" where
  "js_map_entries v =
     (case v of Draft d \<Rightarrow> DraftMap_entries d | Ref a \<Rightarrow> mapOf a | _ \<Rightarrow> throwM TypeError)"

definition js_set_values :: "val \<Rightarrow> val list M" where
  "js_set_values v =
     (case v of Draft d \<Rightarrow> DraftSet_values d | Ref a \<Rightarrow> setOf a | _ \<Rightarrow> throwM TypeError)"

subsection \<open>Property keys from values\<close>

definition digit_val :: "char \<Rightarrow> nat" where
  "digit_val c = of_char c - 48"

definition canonical_numeric :: "string \<Rightarrow> bool" where
  "canonical_numeric str =
     (str \<noteq> [] \<and> list_all is_digit str \<and> (str = ''0'' \<or> hd str \<noteq> CHR ''0''))"

definition key_of_string :: "string \<Rightarrow> key" where
  "key_of_string str =
     (if canonical_numeric str then KNum (foldl (\<lambda>n c. 10 * n + digit_val c) 0 str)
      else KStr str)"

fun show_nat :: "nat \<Rightarrow> string" where
  "show_nat n =
     (if n < 10 then [char_of (48 + n)] else show_nat (n div 10) @ [char_of (48 + n mod 10)])"

text \<open>\<open>ToPropertyKey\<close> on primitives; the string form of an object is outside the model.\<close>

definition to_key :: "val \<Rightarrow> key M" where
  "to_key v =
     (case v of
        Prim (PStr str) \<Rightarrow> retM (key_of_string str)
      | Prim (PNum n) \<Rightarrow>
          retM (if 0 \<le> n then KNum (nat n) else KStr (''-'' @ show_nat (nat (- n))))
      | Prim PNegZero \<Rightarrow> retM (KNum 0)
      | Prim PNaN \<Rightarrow> retM (KStr ''NaN'')
      | Prim (PSym n) \<Rightarrow> retM (KSym n)
      | Prim PUndefined \<Rightarrow> retM (KStr ''undefined'')
      | Prim PNull \<Rightarrow> retM (KStr ''null'')
      | Prim (PBool b) \<Rightarrow> retM (KStr (if b then ''true'' else ''false''))
      | _ \<Rightarrow> throwM Unmodelled)"

text \<open>A record or array key as the value that stands for it in a patch path: a number
  for an index, a string or symbol otherwise.\<close>

definition key_val :: "key \<Rightarrow> val" where
  "key_val k =
     (case k of KStr str \<Rightarrow> Prim (PStr str) | KNum n \<Rightarrow> Prim (PNum (int n))
      | KSym n \<Rightarrow> Prim (PSym n))"

text \<open>
  The \<open>prop\<close> handed around by \<open>each\<close>: a key of a record or array, or a key of a map
  or an element of a set (any value).
\<close>

datatype slot = PKey key | PVal val

text \<open>\<open>path.concat(prop)\<close>: \<open>concat\<close> spreads an argument that is an array, which a
  map key can be.\<close>

definition path_concat :: "val list \<Rightarrow> slot \<Rightarrow> val list M" where
  "path_concat p pr =
     (case pr of
        PKey k \<Rightarrow> retM (p @ [key_val k])
      | PVal (Ref a) \<Rightarrow>
          bindM (getContent a) (\<lambda>c.
            case c of
              OArray xs \<Rightarrow>
                retM (p @ map (\<lambda>x. case x of None \<Rightarrow> Prim PUndefined | Some v \<Rightarrow> v) xs)
            | _ \<Rightarrow> retM (p @ [Ref a]))
      | PVal (Draft d) \<Rightarrow>
          bindM (stateOf d) (\<lambda>st.
            if type_d st = AArray then throwM Unmodelled else retM (p @ [Draft d]))
      | PVal v \<Rightarrow> retM (p @ [v]))"

text \<open>common.ts \<open>get\<close>, \<open>has\<close> and \<open>set\<close> on a heap object, as finalization and
  patch generation call them on \<open>base_\<close>, on \<open>copy_\<close> and on plain values.\<close>

definition get_prop :: "nat \<Rightarrow> slot \<Rightarrow> val M" where
  "get_prop a pr =
     bindM (getContent a) (\<lambda>c.
       case c of
         OMap m \<Rightarrow> (case pr of PVal k \<Rightarrow> retM (map_get_val m k)
                     | PKey k \<Rightarrow> retM (map_get_val m (key_val k)))
       | _ \<Rightarrow> (case pr of PKey k \<Rightarrow> retM (ord_get c k)
                | PVal v \<Rightarrow> bindM (to_key v) (\<lambda>k. retM (ord_get c k))))"

definition has_prop :: "nat \<Rightarrow> slot \<Rightarrow> bool M" where
  "has_prop a pr =
     bindM (getContent a) (\<lambda>c.
       case c of
         OMap m \<Rightarrow> (case pr of PVal k \<Rightarrow> retM (map_has m k)
                     | PKey k \<Rightarrow> retM (map_has m (key_val k)))
       | _ \<Rightarrow> (case pr of PKey k \<Rightarrow> retM (own_has c k)
                | PVal v \<Rightarrow> bindM (to_key v) (\<lambda>k. retM (own_has c k))))"

definition set_prop :: "nat \<Rightarrow> slot \<Rightarrow> val \<Rightarrow> unit M" where
  "set_prop a pr x =
     bindM (getContent a) (\<lambda>c.
       case c of
         OMap _ \<Rightarrow> nativeUpdate a (on_map (\<lambda>m. map_set m
                     (case pr of PVal k \<Rightarrow> k | PKey k \<Rightarrow> key_val k) x))
       | OSet _ \<Rightarrow> nativeUpdate a (on_set (\<lambda>xs. set_add xs x))
       | _ \<Rightarrow> (case pr of PKey k \<Rightarrow> ordSet a k x
                | PVal v \<Rightarrow> bindM (to_key v) (\<lambda>k. ordSet a k x)))"

section \<open>patches.ts: generating patches\<close>

definition REPLACE :: string where "REPLACE = ''replace''"
definition ADD :: string where "ADD = ''add''"
definition REMOVE :: string where "REMOVE = ''remove''"

primrec foldM :: "('b \<Rightarrow> 'a \<Rightarrow> 'b M) \<Rightarrow> 'a list \<Rightarrow> 'b \<Rightarrow> 'b M" where
  "foldM f [] acc = retM acc"
| "foldM f (x # xs) acc = bindM (f acc x) (\<lambda>acc'. foldM f xs acc')"

text \<open>
  \<open>deepClonePatchValue\<close>.  The source recurses over the value, and does not end on a
  cyclic one; the recursion depth is bounded by the first argument.
  \<^verbatim>\<open>if (!isDraftable(obj)) return obj
  if (Array.isArray(obj)) return obj.map(deepClonePatchValue)
  if (isMap(obj)) return new Map(Array.from(obj.entries()).map(([k, v]) => [k, deepClonePatchValue(v)]))
  if (isSet(obj)) return new Set(Array.from(obj).map(deepClonePatchValue))
  const cloned = Object.create(getPrototypeOf(obj))
  for (const key in obj) cloned[key] = deepClonePatchValue(obj[key])
  if (has(obj, immerable)) cloned[immerable] = obj[immerable]
  return cloned\<close>
  \<open>map\<close> keeps holes; \<open>for ... in\<close> visits the enumerable string keys.
\<close>

fun deepClonePatchValue :: "nat \<Rightarrow> val \<Rightarrow> val M" where
  "deepClonePatchValue 0 v = throwM OutOfFuel"
| "deepClonePatchValue (Suc n) v =
     bindM (isDraftable v) (\<lambda>da.
       if \<not> da then retM v else
       bindM (getArchtype v) (\<lambda>t.
         case t of
           AArray \<Rightarrow>
             bindM (js_get v (KStr ''length'')) (\<lambda>len.
               case len of
                 Prim (PNum l) \<Rightarrow>
                   bindM (alloc (OArray [])) (\<lambda>a.
                   bindM (mapM [0..<nat l] (\<lambda>i.
                            bindM (js_has v (KNum i)) (\<lambda>h.
                              if h then
                                bindM (js_get v (KNum i)) (\<lambda>x.
                                bindM (deepClonePatchValue n x) (\<lambda>y. retM (Some y)))
                              else retM None))) (\<lambda>ys.
                   thenM (setContent a (OArray ys)) (retM (Ref a))))
               | _ \<Rightarrow> throwM Unmodelled)
         | AMap \<Rightarrow>
             bindM (js_map_entries v) (\<lambda>es.
             bindM (mapM es (\<lambda>e.
                      bindM (deepClonePatchValue n (snd e)) (\<lambda>y. retM (fst e, y)))) (\<lambda>es'.
             bindM (alloc (OMap (map_of_list es'))) (\<lambda>a. retM (Ref a))))
         | ASet \<Rightarrow>
             bindM (js_set_values v) (\<lambda>xs.
             bindM (mapM xs (deepClonePatchValue n)) (\<lambda>ys.
             bindM (alloc (OSet (set_of_list ys))) (\<lambda>a. retM (Ref a))))
         | AObject \<Rightarrow>
             bindM (alloc (ORecord [])) (\<lambda>a.
             bindM (js_ownKeys v) (\<lambda>ks.
             thenM (forM (filter (\<lambda>k. case k of KSym _ \<Rightarrow> False | _ \<Rightarrow> True) ks) (\<lambda>k.
                      bindM (js_isEnumerable v k) (\<lambda>en.
                        if \<not> en then retM () else
                        bindM (js_get v k) (\<lambda>x.
                        bindM (deepClonePatchValue n x) (\<lambda>y. ordSet a k y)))))
            (thenM (bindM (js_hasOwn v DRAFTABLE) (\<lambda>h.
                      if h then bindM (js_get v DRAFTABLE) (\<lambda>m. ordSet a DRAFTABLE m)
                      else retM ()))
                   (retM (Ref a)))))))"

text \<open>\<open>clonePatchValueIfNeeded\<close>:
  \<^verbatim>\<open>if (isDraft(obj)) return deepClonePatchValue(obj) else return obj\<close>\<close>

definition clonePatchValueIfNeeded :: "nat \<Rightarrow> val \<Rightarrow> val M" where
  "clonePatchValueIfNeeded fuel v =
     bindM (isDraft v) (\<lambda>dr. if dr then deepClonePatchValue fuel v else retM v)"

text \<open>The two patch arrays of a scope, as the generators extend them.\<close>

type_synonym patchlists = "patch list \<times> patch list"

text \<open>
  \<open>generatePatchesFromAssigned\<close>, one round of its loop over \<open>state.assigned_\<close>:
  \<^verbatim>\<open>const origValue = get(base_, key)
  const value = get(copy_!, key)
  const op = !assignedValue ? REMOVE : has(base_, key) ? REPLACE : ADD
  if (origValue === value && op === REPLACE) return
  const path = basePath.concat(key as any)
  patches.push(op === REMOVE ? {op, path} : {op, path, value})
  inversePatches.push(
    op === ADD ? {op: REMOVE, path}
    : op === REMOVE ? {op: ADD, path, value: clonePatchValueIfNeeded(origValue)}
    : {op: REPLACE, path, value: clonePatchValueIfNeeded(origValue)})\<close>
\<close>

definition assignedPatch ::
  "nat \<Rightarrow> nat \<Rightarrow> nat \<Rightarrow> val list \<Rightarrow> patchlists \<Rightarrow> slot \<times> bool \<Rightarrow> patchlists M" where
  "assignedPatch fuel b c basePath pl entry =
     bindM (get_prop b (fst entry)) (\<lambda>origValue.
     bindM (get_prop c (fst entry)) (\<lambda>v.
     bindM (has_prop b (fst entry)) (\<lambda>inBase.
       let op = (if \<not> snd entry then REMOVE else if inBase then REPLACE else ADD) in
       if strict_eq origValue v \<and> op = REPLACE then retM pl else
       bindM (path_concat basePath (fst entry)) (\<lambda>path.
       bindM (if op = ADD then retM \<lparr>op_p = REMOVE, path_p = path, value_p = None\<rparr>
              else bindM (clonePatchValueIfNeeded fuel origValue) (\<lambda>ov.
                     retM \<lparr>op_p = (if op = REMOVE then ADD else REPLACE), path_p = path,
                           value_p = Some ov\<rparr>)) (\<lambda>inv.
         retM (fst pl @ [if op = REMOVE then \<lparr>op_p = op, path_p = path, value_p = None\<rparr>
                         else \<lparr>op_p = op, path_p = path, value_p = Some v\<rparr>],
               snd pl @ [inv]))))))"

text \<open>The entries of \<open>state.assigned_\<close> in the order \<open>each\<close> visits them: own keys of
  the object, or the entries of the native Map (which must exist).\<close>

definition assignedEntries :: "dstate \<Rightarrow> (slot \<times> bool) list M" where
  "assignedEntries st =
     (if type_d st = AMap then
        (case massigned_d st of
           None \<Rightarrow> throwM TypeError
         | Some al \<Rightarrow> retM (map (\<lambda>e. (PVal (fst e), snd e)) al))
      else retM (map (\<lambda>k. (PKey k, the (map_of (assigned_d st) k)))
                   (own_keys_of (map fst (assigned_d st)))))"

definition generatePatchesFromAssigned ::
  "nat \<Rightarrow> dstate \<Rightarrow> val list \<Rightarrow> patchlists \<Rightarrow> patchlists M" where
  "generatePatchesFromAssigned fuel st basePath pl =
     bindM (assignedEntries st) (\<lambda>entries.
       case copy_d st of
         None \<Rightarrow> (if entries = [] then retM pl else throwM TypeError)
       | Some c \<Rightarrow> foldM (assignedPatch fuel (base_d st) c basePath) entries pl)"

definition elem :: "val option list \<Rightarrow> nat \<Rightarrow> val" where
  "elem xs i =
     (if i < length xs then (case xs ! i of None \<Rightarrow> Prim PUndefined | Some v \<Rightarrow> v)
      else Prim PUndefined)"

text \<open>
  \<open>generateArrayPatches\<close>:
  \<^verbatim>\<open>if (copy_.length < base_.length) {
    ;[base_, copy_] = [copy_, base_]
    ;[patches, inversePatches] = [inversePatches, patches]
  }
  for (let i = 0; i < base_.length; i++) {
    if (assigned_[i] && copy_[i] !== base_[i]) {
      const path = basePath.concat([i])
      patches.push({op: REPLACE, path, value: clonePatchValueIfNeeded(copy_[i])})
      inversePatches.push({op: REPLACE, path, value: clonePatchValueIfNeeded(base_[i])})
    }
  }
  for (let i = base_.length; i < copy_.length; i++) {
    const path = basePath.concat([i])
    patches.push({op: ADD, path, value: clonePatchValueIfNeeded(copy_[i])})
  }
  for (let i = copy_.length - 1; base_.length <= i; --i) {
    const path = basePath.concat([i])
    inversePatches.push({op: REMOVE, path})
  }\<close>
  \<open>arrayPatches\<close> is the part after the exchange, on the two arrays and the two lists
  as they are then named.
\<close>

definition arrayPatches ::
  "nat \<Rightarrow> (key \<times> bool) list \<Rightarrow> val option list \<Rightarrow> val option list \<Rightarrow> val list \<Rightarrow>
   patchlists \<Rightarrow> patchlists M" where
  "arrayPatches fuel assigned b c basePath pl =
     bindM (foldM (\<lambda>acc i.
              if map_of assigned (KNum i) = Some True \<and> \<not> strict_eq (elem c i) (elem b i) then
                bindM (clonePatchValueIfNeeded fuel (elem c i)) (\<lambda>cv.
                bindM (clonePatchValueIfNeeded fuel (elem b i)) (\<lambda>bv.
                  retM (fst acc @ [\<lparr>op_p = REPLACE, path_p = basePath @ [Prim (PNum (int i))],
                                    value_p = Some cv\<rparr>],
                        snd acc @ [\<lparr>op_p = REPLACE, path_p = basePath @ [Prim (PNum (int i))],
                                    value_p = Some bv\<rparr>])))
              else retM acc) [0..<length b] pl) (\<lambda>pl1.
     bindM (foldM (\<lambda>acc i.
              bindM (clonePatchValueIfNeeded fuel (elem c i)) (\<lambda>cv.
                retM (acc @ [\<lparr>op_p = ADD, path_p = basePath @ [Prim (PNum (int i))],
                              value_p = Some cv\<rparr>]))) [length b..<length c] (fst pl1)) (\<lambda>ps.
       retM (ps, snd pl1 @ map (\<lambda>i. \<lparr>op_p = REMOVE, path_p = basePath @ [Prim (PNum (int i))],
                                       value_p = None\<rparr>) (rev [length b..<length c]))))"

definition generateArrayPatches ::
  "nat \<Rightarrow> dstate \<Rightarrow> val list \<Rightarrow> patchlists \<Rightarrow> patchlists M" where
  "generateArrayPatches fuel st basePath pl =
     bindM (getContent (base_d st)) (\<lambda>bc.
       case copy_d st of
         None \<Rightarrow> throwM TypeError
       | Some ca \<Rightarrow>
           bindM (getContent ca) (\<lambda>cc.
             case (bc, cc) of
               (OArray b, OArray c) \<Rightarrow>
                 (if length c < length b
                  then bindM (arrayPatches fuel (assigned_d st) c b basePath (snd pl, fst pl))
                         (\<lambda>r. retM (snd r, fst r))
                  else arrayPatches fuel (assigned_d st) b c basePath pl)
             | _ \<Rightarrow> throwM Unmodelled))"

text \<open>
  \<open>generateSetPatches\<close>:
  \<^verbatim>\<open>let i = 0
  base_.forEach((value: any) => {
    if (!copy_!.has(value)) {
      const path = basePath.concat([i])
      patches.push({op: REMOVE, path, value})
      inversePatches.unshift({op: ADD, path, value})
    }
    i++
  })
  i = 0
  copy_!.forEach((value: any) => {
    if (!base_.has(value)) {
      const path = basePath.concat([i])
      patches.push({op: ADD, path, value})
      inversePatches.unshift({op: REMOVE, path, value})
    }
    i++
  })\<close>
\<close>

definition setPatches ::
  "string \<Rightarrow> string \<Rightarrow> val list \<Rightarrow> val list \<Rightarrow> val list \<Rightarrow> patchlists \<Rightarrow> patchlists" where
  "setPatches op inv_op xs other basePath pl =
     foldl (\<lambda>acc iv.
        if \<not> set_has other (snd iv) then
          (fst acc @ [\<lparr>op_p = op, path_p = basePath @ [Prim (PNum (int (fst iv)))],
                       value_p = Some (snd iv)\<rparr>],
           \<lparr>op_p = inv_op, path_p = basePath @ [Prim (PNum (int (fst iv)))],
             value_p = Some (snd iv)\<rparr> # snd acc)
        else acc) pl (zip [0..<length xs] xs)"

definition generateSetPatches :: "dstate \<Rightarrow> val list \<Rightarrow> patchlists \<Rightarrow> patchlists M" where
  "generateSetPatches st basePath pl =
     bindM (setOf (base_d st)) (\<lambda>b.
       case copy_d st of
         None \<Rightarrow> throwM TypeError
       | Some ca \<Rightarrow>
           bindM (setOf ca) (\<lambda>c.
             retM (setPatches ADD REMOVE c b basePath (setPatches REMOVE ADD b c basePath pl))))"

text \<open>\<open>generatePatches_\<close>: the switch on \<open>state.type_\<close>.\<close>

definition generatePatches :: "nat \<Rightarrow> dstate \<Rightarrow> val list \<Rightarrow> patchlists \<Rightarrow> patchlists M" where
  "generatePatches fuel st basePath pl =
     (case type_d st of
        AObject \<Rightarrow> generatePatchesFromAssigned fuel st basePath pl
      | AMap \<Rightarrow> generatePatchesFromAssigned fuel st basePath pl
      | AArray \<Rightarrow> generateArrayPatches fuel st basePath pl
      | ASet \<Rightarrow> generateSetPatches st basePath pl)"

text \<open>
  \<open>generateReplacementPatches_\<close>:
  \<^verbatim>\<open>patches.push({op: REPLACE, path: [], value: replacement === NOTHING ? undefined : replacement})
  inversePatches.push({op: REPLACE, path: [], value: baseValue})\<close>
\<close>

definition generateReplacementPatches :: "val \<Rightarrow> val \<Rightarrow> patchlists \<Rightarrow> patchlists" where
  "generateReplacementPatches baseValue replacement pl =
     (fst pl @ [\<lparr>op_p = REPLACE, path_p = [],
                 value_p = Some (if replacement = NOTHING then Prim PUndefined else replacement)\<rparr>],
      snd pl @ [\<lparr>op_p = REPLACE, path_p = [], value_p = Some baseValue\<rparr>])"

section \<open>finalize.ts\<close>

text \<open>
  \<open>maybeFreeze\<close>:
  \<^verbatim>\<open>if (!scope.parent_ && scope.immer_.autoFreeze_ && scope.canAutoFreeze_) freeze(value, deep)\<close>
\<close>

definition maybeFreeze :: "nat \<Rightarrow> val \<Rightarrow> bool \<Rightarrow> unit M" where
  "maybeFreeze sc v deep =
     bindM (getScope sc) (\<lambda>x.
     bindM (getsM autoFreeze) (\<lambda>af.
       if parent_s x = None \<and> af \<and> canAutoFreeze_s x then freeze v deep else retM ()))"

text \<open>\<open>has(parentState.assigned_, prop)\<close>: own property of the object, or key of the
  native Map.\<close>

definition assigned_has :: "dstate \<Rightarrow> slot \<Rightarrow> bool M" where
  "assigned_has st pr =
     (if type_d st = AMap then
        (case massigned_d st of
           None \<Rightarrow> throwM TypeError
         | Some al \<Rightarrow> retM (map_has al (case pr of PVal k \<Rightarrow> k | PKey k \<Rightarrow> key_val k)))
      else
        (case pr of
           PKey k \<Rightarrow> retM (map_of (assigned_d st) k \<noteq> None)
         | PVal v \<Rightarrow> bindM (to_key v) (\<lambda>k. retM (map_of (assigned_d st) k \<noteq> None))))"

text \<open>
  The entries \<open>each(obj, iter)\<close> visits: the own keys of a record
  (\<open>Reflect.ownKeys\<close>), the indices below the length of an array, the keys of a map.
  \<open>forEach\<close> reads each entry when it reaches it: \<open>read_live\<close> is that read, which
  skips a hole of an array and a key that is no longer in the map.
\<close>

definition each_slots :: "content \<Rightarrow> slot list" where
  "each_slots c =
     (case c of
        OArray xs \<Rightarrow> map (\<lambda>i. PKey (KNum i)) [0..<length xs]
      | OMap m \<Rightarrow> map (\<lambda>e. PVal (fst e)) m
      | OSet xs \<Rightarrow> map PVal xs
      | _ \<Rightarrow> map PKey (own_keys c))"

definition read_live :: "nat \<Rightarrow> slot \<Rightarrow> val option M" where
  "read_live a pr =
     bindM (getContent a) (\<lambda>c.
       case c of
         OArray xs \<Rightarrow>
           (case pr of
              PKey k \<Rightarrow> retM (if own_has c k then Some (ord_get c k) else None)
            | PVal _ \<Rightarrow> retM None)
       | OMap m \<Rightarrow>
           (case pr of
              PVal k \<Rightarrow> retM (if map_has m k then Some (map_get_val m k) else None)
            | PKey _ \<Rightarrow> retM None)
       | OSet xs \<Rightarrow> retM None
       | _ \<Rightarrow> (case pr of PKey k \<Rightarrow> retM (Some (ord_get c k)) | PVal _ \<Rightarrow> retM None))"

text \<open>\<open>typeof prop !== "symbol" && Object.prototype.propertyIsEnumerable.call(targetObject, prop)\<close>;
  a key of a map or an element of a set is no own property of the container.\<close>

definition slot_enumerable :: "nat \<Rightarrow> slot \<Rightarrow> bool M" where
  "slot_enumerable a pr =
     bindM (getContent a) (\<lambda>c.
       case pr of
         PKey (KSym _) \<Rightarrow> retM False
       | PKey k \<Rightarrow> retM (own_enumerable c k)
       | PVal _ \<Rightarrow> retM False)"

text \<open>
  The end of \<open>finalize\<close> for a draft finalized the first time:
  \<^verbatim>\<open>if (path && rootScope.patches_) {
    getPlugin("Patches").generatePatches_(state, path, rootScope.patches_, rootScope.inversePatches_!)
  }\<close>
\<close>

definition emitPatches :: "nat \<Rightarrow> nat \<Rightarrow> nat \<Rightarrow> val list option \<Rightarrow> unit M" where
  "emitPatches fuel rootScope d path =
     bindM (getScope rootScope) (\<lambda>x.
       case path of
         None \<Rightarrow> retM ()
       | Some p \<Rightarrow>
           (case patches_s x of
              None \<Rightarrow> retM ()
            | Some ps \<Rightarrow>
                (case inversePatches_s x of
                   None \<Rightarrow> throwM TypeError
                 | Some ips \<Rightarrow>
                     bindM (getDraft d) (\<lambda>st.
                     bindM (generatePatches fuel st p (ps, ips)) (\<lambda>pl.
                       setScope rootScope (\<lambda>y. y\<lparr>patches_s := Some (fst pl),
                         inversePatches_s := Some (snd pl)\<rparr>))))))"

text \<open>
  The path \<open>finalizeProperty\<close> hands to \<open>finalize\<close> for a child that is a draft:
  \<^verbatim>\<open>rootPath && parentState && parentState!.type_ !== ArchType.Set &&
  !has((parentState as Exclude<ImmerState, SetState>).assigned_!, prop)
    ? rootPath!.concat(prop) : undefined\<close>
\<close>

definition childPath :: "val list option \<Rightarrow> nat option \<Rightarrow> slot \<Rightarrow> val list option M" where
  "childPath rootPath parentState pr =
     (case rootPath of
        None \<Rightarrow> retM None
      | Some rp \<Rightarrow>
          (case parentState of
             None \<Rightarrow> retM None
           | Some ps \<Rightarrow>
               bindM (getDraft ps) (\<lambda>pst.
                 if type_d pst = ASet then retM None
                 else bindM (assigned_has pst pr) (\<lambda>h.
                        if h then retM None
                        else bindM (path_concat rp pr) (\<lambda>p. retM (Some p))))))"

text \<open>The test before the last \<open>maybeFreeze\<close> of \<open>finalizeProperty\<close>:
  \<^verbatim>\<open>(!parentState || !parentState.scope_.parent_) && typeof prop !== "symbol" &&
  Object.prototype.propertyIsEnumerable.call(targetObject, prop)\<close>\<close>

definition freezesChild :: "nat option \<Rightarrow> nat \<Rightarrow> slot \<Rightarrow> bool M" where
  "freezesChild parentState targetObject pr =
     bindM (case parentState of
              None \<Rightarrow> retM True
            | Some ps \<Rightarrow>
                bindM (getDraft ps) (\<lambda>pst.
                bindM (getScope (scope_d pst)) (\<lambda>psc. retM (parent_s psc = None)))) (\<lambda>top.
       if top then slot_enumerable targetObject pr else retM False)"

text \<open>
  \<open>finalize\<close> and \<open>finalizeProperty\<close> call each other over the value graph, and
  the source does not end on a cycle of plain objects.  The embedding bounds the number
  of nested calls: a run that exceeds the bound ends in \<open>OutOfFuel\<close>.  Each function
  is written once, with its recursive calls going through the parameter \<open>rec\<close>;
  \<open>finalize_run\<close> ties the knot.  \<open>FinalizeSet\<close> is the \<open>forEach\<close> of \<open>each\<close>
  over a plain set, which also visits what is added to the set while the loop runs.
\<close>

datatype fcall =
    Finalize nat val "val list option"
  | FinalizeProperty nat "nat option" nat slot val "val list option" bool
  | FinalizeSet nat nat nat "val list option"

text \<open>
  \<open>each(obj, (key, childValue) => finalizeProperty(rootScope, state, target, key, childValue, path, isSet))\<close>
  over the entries listed when the loop starts.  For the set of a draft these are the
  elements of the snapshot \<open>new Set(result)\<close>, handed on as they are.
\<close>

definition finalize_each ::
  "(fcall \<Rightarrow> val M) \<Rightarrow> nat \<Rightarrow> nat option \<Rightarrow> nat \<Rightarrow> slot list \<Rightarrow> val list option \<Rightarrow> bool
   \<Rightarrow> unit M" where
  "finalize_each rec rootScope parentState targetObject prs path targetIsSet =
     forM prs (\<lambda>pr.
       bindM (if targetIsSet then retM (case pr of PVal v \<Rightarrow> Some v | PKey _ \<Rightarrow> None)
              else read_live targetObject pr) (\<lambda>cv.
         case cv of
           None \<Rightarrow> retM ()
         | Some childValue \<Rightarrow>
             bindM (rec (FinalizeProperty rootScope parentState targetObject pr childValue
                      path targetIsSet)) (\<lambda>_. retM ())))"

definition finalize_set_step ::
  "(fcall \<Rightarrow> val M) \<Rightarrow> nat \<Rightarrow> nat \<Rightarrow> nat \<Rightarrow> val list option \<Rightarrow> val M" where
  "finalize_set_step rec rootScope targetObject i path =
     bindM (setOf targetObject) (\<lambda>xs.
       if i < length xs then
         thenM (rec (FinalizeProperty rootScope None targetObject (PVal (xs ! i)) (xs ! i)
                  path False))
           (rec (FinalizeSet rootScope targetObject (Suc i) path))
       else retM (Prim PUndefined))"

text \<open>
  \<open>finalize\<close>, the part for a modified draft that is not yet finalized:
  \<^verbatim>\<open>state.finalized_ = true
  state.scope_.unfinalizedDrafts_--
  const result = state.copy_
  let resultEach = result
  let isSet = false
  if (state.type_ === ArchType.Set) { resultEach = new Set(result); result.clear(); isSet = true }
  each(resultEach, (key, childValue) =>
    finalizeProperty(rootScope, state, result, key, childValue, path, isSet))
  maybeFreeze(rootScope, result, false)
  if (path && rootScope.patches_) generatePatches_(state, path, rootScope.patches_, rootScope.inversePatches_!)\<close>
\<close>

definition finalize_modified ::
  "(fcall \<Rightarrow> val M) \<Rightarrow> nat \<Rightarrow> nat \<Rightarrow> nat \<Rightarrow> val list option \<Rightarrow> val M" where
  "finalize_modified rec fuel rootScope d path =
     thenM (setDraft d (\<lambda>x. x\<lparr>finalized_d := True\<rparr>))
    (thenM (setScope rootScope (\<lambda>x. x\<lparr>unfinalizedDrafts_s := unfinalizedDrafts_s x - 1\<rparr>))
    (bindM (getDraft d) (\<lambda>st.
       case copy_d st of
         None \<Rightarrow> throwM TypeError
       | Some ca \<Rightarrow>
           bindM (getContent ca) (\<lambda>c.
           thenM (if type_d st = ASet
                  then thenM (nativeUpdate ca (on_set (\<lambda>_. [])))
                         (finalize_each rec rootScope (Some d) ca (each_slots c) path True)
                  else finalize_each rec rootScope (Some d) ca (each_slots c) path False)
          (thenM (maybeFreeze rootScope (Ref ca) False)
          (thenM (emitPatches fuel rootScope d path)
                 (retM (Ref ca))))))))"

text \<open>
  \<open>finalize(rootScope, value, path)\<close>:
  \<^verbatim>\<open>if (isFrozen(value)) return value
  const state = value[DRAFT_STATE]
  if (!state) {
    each(value, (key, childValue) => finalizeProperty(rootScope, state, value, key, childValue, path))
    return value
  }
  if (state.scope_ !== rootScope) return value
  if (!state.modified_) { maybeFreeze(rootScope, state.base_, true); return state.base_ }
  if (!state.finalized_) { ... }
  return state.copy_\<close>
\<close>

definition finalize_step ::
  "(fcall \<Rightarrow> val M) \<Rightarrow> nat \<Rightarrow> nat \<Rightarrow> val \<Rightarrow> val list option \<Rightarrow> val M" where
  "finalize_step rec fuel rootScope v path =
     bindM (isFrozen v) (\<lambda>fr.
       if fr then retM v else
       (case v of
          Draft d \<Rightarrow>
            bindM (stateOf d) (\<lambda>st.
              if scope_d st \<noteq> rootScope then retM v
              else if \<not> modified_d st then
                thenM (maybeFreeze rootScope (Ref (base_d st)) True) (retM (Ref (base_d st)))
              else if finalized_d st then
                retM (case copy_d st of Some ca \<Rightarrow> Ref ca | None \<Rightarrow> Prim PNull)
              else finalize_modified rec fuel rootScope d path)
        | Ref a \<Rightarrow>
            bindM (getContent a) (\<lambda>c.
              thenM (if archtype_of c = ASet
                     then bindM (rec (FinalizeSet rootScope a 0 path)) (\<lambda>_. retM ())
                     else finalize_each rec rootScope None a (each_slots c) path False)
                    (retM v))
        | _ \<Rightarrow> throwM Unmodelled))"

text \<open>
  \<open>finalizeProperty\<close>:
  \<^verbatim>\<open>if (childValue === targetObject) die(5)
  if (isDraft(childValue)) {
    const path = ...
    const res = finalize(rootScope, childValue, path)
    set(targetObject, prop, res)
    if (isDraft(res)) rootScope.canAutoFreeze_ = false
    else return
  } else if (targetIsSet) targetObject.add(childValue)
  if (isDraftable(childValue) && !isFrozen(childValue)) {
    if (!rootScope.immer_.autoFreeze_ && rootScope.unfinalizedDrafts_ < 1) return
    finalize(rootScope, childValue)
    if ((!parentState || !parentState.scope_.parent_) && typeof prop !== "symbol" &&
        Object.prototype.propertyIsEnumerable.call(targetObject, prop))
      maybeFreeze(rootScope, childValue)
  }\<close>
\<close>

definition finalizeProperty_step ::
  "(fcall \<Rightarrow> val M) \<Rightarrow> nat \<Rightarrow> nat option \<Rightarrow> nat \<Rightarrow> slot \<Rightarrow> val \<Rightarrow> val list option \<Rightarrow> bool
   \<Rightarrow> val M" where
  "finalizeProperty_step rec rootScope parentState targetObject pr childValue rootPath targetIsSet =
     thenM (if strict_eq childValue (Ref targetObject) then die 5 else retM ())
    (bindM (isDraft childValue) (\<lambda>isd.
     bindM (if isd then
              bindM (childPath rootPath parentState pr) (\<lambda>path.
              bindM (rec (Finalize rootScope childValue path)) (\<lambda>res.
              thenM (set_prop targetObject pr res)
             (bindM (isDraft res) (\<lambda>still.
                if still
                then thenM (setScope rootScope (\<lambda>x. x\<lparr>canAutoFreeze_s := False\<rparr>)) (retM True)
                else retM False))))
            else
              thenM (if targetIsSet
                     then nativeUpdate targetObject (on_set (\<lambda>xs. set_add xs childValue))
                     else retM ())
                    (retM True)) (\<lambda>goes_on.
       if \<not> goes_on then retM (Prim PUndefined) else
       bindM (isDraftable childValue) (\<lambda>da.
         if \<not> da then retM (Prim PUndefined) else
         bindM (isFrozen childValue) (\<lambda>fr.
           if fr then retM (Prim PUndefined) else
           bindM (getsM autoFreeze) (\<lambda>af.
           bindM (getScope rootScope) (\<lambda>x.
             if \<not> af \<and> unfinalizedDrafts_s x < 1 then retM (Prim PUndefined) else
             bindM (rec (Finalize rootScope childValue None)) (\<lambda>_.
             bindM (freezesChild parentState targetObject pr) (\<lambda>en.
               thenM (if en then maybeFreeze rootScope childValue False else retM ())
                     (retM (Prim PUndefined)))))))))))"

primrec finalize_run :: "nat \<Rightarrow> fcall \<Rightarrow> val M" where
  "finalize_run 0 c = throwM OutOfFuel"
| "finalize_run (Suc n) c =
     (case c of
        Finalize rootScope v path \<Rightarrow> finalize_step (finalize_run n) n rootScope v path
      | FinalizeProperty rootScope parentState targetObject pr childValue rootPath targetIsSet \<Rightarrow>
          finalizeProperty_step (finalize_run n) rootScope parentState targetObject pr childValue
            rootPath targetIsSet
      | FinalizeSet rootScope targetObject i path \<Rightarrow>
          finalize_set_step (finalize_run n) rootScope targetObject i path)"

definition finalize :: "nat \<Rightarrow> nat \<Rightarrow> val \<Rightarrow> val list option \<Rightarrow> val M" where
  "finalize fuel rootScope v path = finalize_run fuel (Finalize rootScope v path)"

text \<open>
  \<open>processResult(result, scope)\<close>:
  \<^verbatim>\<open>scope.unfinalizedDrafts_ = scope.drafts_.length
  const baseDraft = scope.drafts_![0]
  const isReplaced = result !== undefined && result !== baseDraft
  if (isReplaced) {
    if (baseDraft[DRAFT_STATE].modified_) { revokeScope(scope); die(4) }
    if (isDraftable(result)) {
      result = finalize(scope, result)
      if (!scope.parent_) maybeFreeze(scope, result)
    }
    if (scope.patches_) generateReplacementPatches_(baseDraft[DRAFT_STATE].base_, result,
                                                    scope.patches_, scope.inversePatches_!)
  } else {
    result = finalize(scope, baseDraft, [])
  }
  revokeScope(scope)
  if (scope.patches_) scope.patchListener_!(scope.patches_, scope.inversePatches_!)
  return result !== NOTHING ? result : undefined\<close>
\<close>

definition processReplaced :: "nat \<Rightarrow> val \<Rightarrow> nat \<Rightarrow> nat \<Rightarrow> val M" where
  "processReplaced fuel result sc baseDraft =
     bindM (stateOf baseDraft) (\<lambda>bst.
       if modified_d bst then thenM (revokeScope sc) (die 4) else
       bindM (isDraftable result) (\<lambda>da.
       bindM (if da then
                bindM (finalize fuel sc result None) (\<lambda>r.
                bindM (getScope sc) (\<lambda>x.
                thenM (if parent_s x = None then maybeFreeze sc r False else retM ())
                      (retM r)))
              else retM result) (\<lambda>r.
       bindM (getScope sc) (\<lambda>x.
       thenM (case patches_s x of
                None \<Rightarrow> retM ()
              | Some ps \<Rightarrow>
                  (case inversePatches_s x of
                     None \<Rightarrow> throwM TypeError
                   | Some ips \<Rightarrow>
                       setScope sc (\<lambda>y.
                         y\<lparr>patches_s := Some (fst (generateReplacementPatches
                                                      (Ref (base_d bst)) r (ps, ips))),
                           inversePatches_s := Some (snd (generateReplacementPatches
                                                      (Ref (base_d bst)) r (ps, ips)))\<rparr>)))
             (retM r)))))"

definition processResult :: "nat \<Rightarrow> val \<Rightarrow> nat \<Rightarrow> val M" where
  "processResult fuel result sc =
     bindM (getScope sc) (\<lambda>x0.
       case drafts_s x0 of
         None \<Rightarrow> throwM TypeError
       | Some ds \<Rightarrow>
           thenM (setScope sc (\<lambda>x. x\<lparr>unfinalizedDrafts_s := int (length ds)\<rparr>))
             (case ds of
                [] \<Rightarrow> throwM TypeError
              | baseDraft # _ \<Rightarrow>
                  bindM (if \<not> strict_eq result (Prim PUndefined)
                            \<and> \<not> strict_eq result (Draft baseDraft)
                         then processReplaced fuel result sc baseDraft
                         else finalize fuel sc (Draft baseDraft) (Some [])) (\<lambda>r.
                  thenM (revokeScope sc)
                 (bindM (getScope sc) (\<lambda>x.
                  thenM (case patches_s x of
                           None \<Rightarrow> retM ()
                         | Some ps \<Rightarrow>
                             (case inversePatches_s x of
                                None \<Rightarrow> throwM Unmodelled
                              | Some ips \<Rightarrow> modifyM (\<lambda>s. s\<lparr>listener_calls :=
                                          listener_calls s @ [(ps, ips)]\<rparr>)))
                        (retM (if \<not> strict_eq r NOTHING then r else Prim PUndefined)))))))"

section \<open>patches.ts: applying patches\<close>

definition js_typeof :: "val \<Rightarrow> string M" where
  "js_typeof v =
     (case v of
        Prim p \<Rightarrow>
          retM (case p of
                  PUndefined \<Rightarrow> ''undefined'' | PNull \<Rightarrow> ''object'' | PBool _ \<Rightarrow> ''boolean''
                | PNum _ \<Rightarrow> ''number'' | PNegZero \<Rightarrow> ''number'' | PNaN \<Rightarrow> ''number''
                | PStr _ \<Rightarrow> ''string'' | PSym _ \<Rightarrow> ''symbol'')
      | Ref a \<Rightarrow>
          bindM (getContent a) (\<lambda>c.
            retM (case c of OFunction \<Rightarrow> ''function'' | _ \<Rightarrow> ''object''))
      | Draft _ \<Rightarrow> retM ''object''
      | Builtin n \<Rightarrow> retM (if is_prototype_object n then ''object'' else ''function''))"

definition truthy :: "val \<Rightarrow> bool" where
  "truthy v =
     (case v of
        Prim p \<Rightarrow>
          (case p of
             PUndefined \<Rightarrow> False | PNull \<Rightarrow> False | PBool b \<Rightarrow> b | PNum n \<Rightarrow> n \<noteq> 0
           | PNegZero \<Rightarrow> False | PNaN \<Rightarrow> False | PStr str \<Rightarrow> str \<noteq> [] | PSym _ \<Rightarrow> True)
      | _ \<Rightarrow> True)"

text \<open>common.ts \<open>get(thing, prop)\<close> on any value:
  \<^verbatim>\<open>return getArchtype(thing) === ArchType.Map ? thing.get(prop) : thing[prop]\<close>\<close>

definition get_any :: "val \<Rightarrow> val \<Rightarrow> val M" where
  "get_any thing p =
     bindM (getArchtype thing) (\<lambda>t.
       if t = AMap then js_map_get thing p
       else bindM (to_key p) (\<lambda>k. js_get thing k))"

text \<open>
  A path segment as the loop uses it:
  \<^verbatim>\<open>if (typeof p !== "string" && typeof p !== "number") p = "" + p\<close>
  The string form of a symbol does not exist (a TypeError), that of an object is outside
  the model.
\<close>

definition segment :: "val \<Rightarrow> val M" where
  "segment p =
     (case p of
        Prim (PStr _) \<Rightarrow> retM p
      | Prim (PNum _) \<Rightarrow> retM p
      | Prim PNegZero \<Rightarrow> retM p
      | Prim PNaN \<Rightarrow> retM p
      | Prim PUndefined \<Rightarrow> retM (Prim (PStr ''undefined''))
      | Prim PNull \<Rightarrow> retM (Prim (PStr ''null''))
      | Prim (PBool b) \<Rightarrow> retM (Prim (PStr (if b then ''true'' else ''false'')))
      | Prim (PSym _) \<Rightarrow> throwM TypeError
      | _ \<Rightarrow> throwM Unmodelled)"

text \<open>
  One round of the loop that walks \<open>path[0 .. path.length - 2]\<close>:
  \<^verbatim>\<open>const parentType = getArchtype(base)
  let p = path[i]
  if (typeof p !== "string" && typeof p !== "number") p = "" + p
  if ((parentType === ArchType.Object || parentType === ArchType.Array) &&
      (p === "__proto__" || p === "constructor")) die(errorOffset + 3)
  if (typeof base === "function" && p === "prototype") die(errorOffset + 3)
  base = get(base, p)
  if (typeof base !== "object") die(errorOffset + 2, path.join("/"))\<close>
  with \<open>errorOffset = 16\<close>.
\<close>

definition errorOffset :: nat where
  "errorOffset = 16"

definition walkStep :: "val \<Rightarrow> val \<Rightarrow> val M" where
  "walkStep b p0 =
     bindM (getArchtype b) (\<lambda>parentType.
     bindM (segment p0) (\<lambda>p.
       if (parentType = AObject \<or> parentType = AArray)
          \<and> (p = Prim (PStr ''__proto__'') \<or> p = Prim (PStr ''constructor''))
       then die (errorOffset + 3) else
       bindM (js_typeof b) (\<lambda>tb.
         if tb = ''function'' \<and> p = Prim (PStr ''prototype'') then die (errorOffset + 3) else
         bindM (get_any b p) (\<lambda>b'.
         bindM (js_typeof b') (\<lambda>tb'.
           if tb' \<noteq> ''object'' then die (errorOffset + 2) else retM b')))))"

text \<open>The walk: every segment but the last.\<close>

definition walkPath :: "val \<Rightarrow> val list \<Rightarrow> val M" where
  "walkPath draft path = foldM walkStep (butlast path) draft"

subsection \<open>Array methods, in terms of the operations on the array\<close>

text \<open>\<open>ToIntegerOrInfinity\<close> of an index argument; strings other than canonical
  numbers are outside the model.\<close>

definition to_integer :: "val \<Rightarrow> int M" where
  "to_integer v =
     (case v of
        Prim (PNum n) \<Rightarrow> retM n
      | Prim PNegZero \<Rightarrow> retM 0
      | Prim PNaN \<Rightarrow> retM 0
      | Prim PUndefined \<Rightarrow> retM 0
      | Prim PNull \<Rightarrow> retM 0
      | Prim (PBool b) \<Rightarrow> retM (if b then 1 else 0)
      | Prim (PStr str) \<Rightarrow>
          (case key_of_string str of KNum n \<Rightarrow> retM (int n)
           | _ \<Rightarrow> if str = [] then retM 0 else throwM Unmodelled)
      | Prim (PSym _) \<Rightarrow> throwM TypeError
      | _ \<Rightarrow> throwM Unmodelled)"

definition js_length :: "val \<Rightarrow> nat M" where
  "js_length v =
     bindM (js_get v (KStr ''length'')) (\<lambda>l.
       case l of Prim (PNum n) \<Rightarrow> retM (nat n) | _ \<Rightarrow> throwM Unmodelled)"

text \<open>\<open>Array.prototype.push(value)\<close>: \<open>Set(O, len, value)\<close>, then
  \<open>Set(O, "length", len + 1)\<close>.\<close>

definition array_push :: "val \<Rightarrow> val \<Rightarrow> unit M" where
  "array_push arr x =
     bindM (js_length arr) (\<lambda>len.
     thenM (js_set arr (KNum len) x)
           (js_set arr (KStr ''length'') (Prim (PNum (int len + 1)))))"

text \<open>One move of an element inside \<open>splice\<close>: \<open>if (from in O) O[to] = O[from] else
  delete O[to]\<close>.\<close>

definition array_move :: "val \<Rightarrow> nat \<Rightarrow> nat \<Rightarrow> unit M" where
  "array_move arr from to =
     bindM (js_has arr (KNum from)) (\<lambda>h.
       if h then bindM (js_get arr (KNum from)) (\<lambda>x. js_set arr (KNum to) x)
       else js_delete arr (KNum to))"

text \<open>
  \<open>Array.prototype.splice(start, deleteCount, ...items)\<close> as the language defines it:
  the deleted elements are read into a new array (found through the \<open>constructor\<close> of
  the receiver), the tail is moved down or up one element at a time, the items are
  stored, and the length is set.
\<close>

definition array_splice :: "val \<Rightarrow> val \<Rightarrow> nat \<Rightarrow> val list \<Rightarrow> val M" where
  "array_splice arr start deleteCount items =
     bindM (js_length arr) (\<lambda>len.
     bindM (to_integer start) (\<lambda>rel.
       let actualStart = (if rel < 0 then nat (max (int len + rel) 0) else min (nat rel) len);
           itemCount = length items;
           adc = min deleteCount (len - actualStart)
       in
       bindM (js_get arr (KStr ''constructor'')) (\<lambda>_.
       bindM (mapM [0..<adc] (\<lambda>k.
                bindM (js_has arr (KNum (actualStart + k))) (\<lambda>h.
                  if h then bindM (js_get arr (KNum (actualStart + k))) (\<lambda>x. retM (Some x))
                  else retM None))) (\<lambda>deleted.
       bindM (alloc (OArray deleted)) (\<lambda>a.
       thenM (if itemCount < adc then
                thenM (forM [actualStart..<len - adc]
                         (\<lambda>k. array_move arr (k + adc) (k + itemCount)))
                      (forM (rev [len - adc + itemCount..<len]) (\<lambda>k. js_delete arr (KNum k)))
              else if adc < itemCount then
                forM (rev [actualStart..<len - adc])
                  (\<lambda>k. array_move arr (k + adc) (k + itemCount))
              else retM ())
      (thenM (forM (zip [actualStart..<actualStart + itemCount] items)
                (\<lambda>ix. js_set arr (KNum (fst ix)) (snd ix)))
      (thenM (js_set arr (KStr ''length'') (Prim (PNum (int (len - adc + itemCount)))))
             (retM (Ref a)))))))))"

subsection \<open>applyPatches\<close>

text \<open>
  \<open>applyPatches_\<close>, the body of its loop for one patch, after the walk:
  \<^verbatim>\<open>const type = getArchtype(base)
  const value = deepClonePatchValue(patch.value)
  const key = path[path.length - 1]
  switch (op) {
    case REPLACE: switch (type) {
        case ArchType.Map: return base.set(key, value)
        case ArchType.Set: die(errorOffset)
        default: return (base[key] = value) }
    case ADD: switch (type) {
        case ArchType.Array: return key === "-" ? base.push(value) : base.splice(key as any, 0, value)
        case ArchType.Map: return base.set(key, value)
        case ArchType.Set: return base.add(value)
        default: return (base[key] = value) }
    case REMOVE: switch (type) {
        case ArchType.Array: return base.splice(key as any, 1)
        case ArchType.Map: return base.delete(key)
        case ArchType.Set: return base.delete(patch.value)
        default: return delete base[key] }
    default: die(errorOffset + 1, op)
  }\<close>
\<close>

definition patch_value :: "patch \<Rightarrow> val" where
  "patch_value pt = (case value_p pt of None \<Rightarrow> Prim PUndefined | Some v \<Rightarrow> v)"

definition assign_any :: "val \<Rightarrow> val \<Rightarrow> val \<Rightarrow> unit M" where
  "assign_any b key x = bindM (to_key key) (\<lambda>k. js_set b k x)"

definition applyOp :: "nat \<Rightarrow> val \<Rightarrow> patch \<Rightarrow> unit M" where
  "applyOp fuel b pt =
     bindM (getArchtype b) (\<lambda>type.
     bindM (deepClonePatchValue fuel (patch_value pt)) (\<lambda>v.
       let key = (if path_p pt = [] then Prim PUndefined else last (path_p pt)) in
       if op_p pt = REPLACE then
         (case type of
            AMap \<Rightarrow> js_map_set b key v
          | ASet \<Rightarrow> die errorOffset
          | _ \<Rightarrow> assign_any b key v)
       else if op_p pt = ADD then
         (case type of
            AArray \<Rightarrow>
              (if key = Prim (PStr ''-'') then array_push b v
               else bindM (array_splice b key 0 [v]) (\<lambda>_. retM ()))
          | AMap \<Rightarrow> js_map_set b key v
          | ASet \<Rightarrow> js_set_add b v
          | AObject \<Rightarrow> assign_any b key v)
       else if op_p pt = REMOVE then
         (case type of
            AArray \<Rightarrow> bindM (array_splice b key 1 []) (\<lambda>_. retM ())
          | AMap \<Rightarrow> bindM (js_map_delete b key) (\<lambda>_. retM ())
          | ASet \<Rightarrow> bindM (js_set_delete b (patch_value pt)) (\<lambda>_. retM ())
          | AObject \<Rightarrow> bindM (to_key key) (\<lambda>k. js_delete b k))
       else die (errorOffset + 1)))"

definition applyPatch :: "nat \<Rightarrow> val \<Rightarrow> patch \<Rightarrow> unit M" where
  "applyPatch fuel draft pt = bindM (walkPath draft (path_p pt)) (\<lambda>b. applyOp fuel b pt)"

text \<open>\<open>applyPatches_(draft, patches)\<close>: \<^verbatim>\<open>patches.forEach(patch => { ... }); return draft\<close>\<close>

definition applyPatches_impl :: "nat \<Rightarrow> val \<Rightarrow> patch list \<Rightarrow> val M" where
  "applyPatches_impl fuel draft patches =
     thenM (forM patches (applyPatch fuel draft)) (retM draft)"

section \<open>Recipes\<close>

text \<open>
  A recipe is user code.  It is modelled by what it can do to the engine: a recipe is a
  tree that returns a value, throws, or performs one operation and goes on as a function
  of the answer (a value or an exception, which it may catch).  The operations are those
  of the language on a draft (property access, the methods of a map or set draft), reads
  of ordinary objects, and the allocation of a new object.  Writes go through drafts: a
  recipe that assigns to an object that is not a draft is not a recipe of this model, and
  neither is one that starts a nested run.
\<close>

datatype action =
    AGet val key | ASet val key val | ADelete val key | AHas val key | AOwnKeys val
  | AGetPrototypeOf val | ADefineProperty val | ASetPrototypeOf val
  | AMapSize val | AMapHas val val | AMapGet val val | AMapSet val val val
  | AMapDelete val val | AMapClear val | AMapKeys val | AMapValues val | AMapEntries val
  | AMapForEach val
  | ASetSize val | ASetHas val val | ASetAdd val val | ASetDelete val val | ASetClear val
  | ASetValues val | ASetEntries val | ASetForEach val
  | ANew content

datatype answer =
    RVal val | RBool bool | RNat nat | RKeys "key list" | RVals "val list"
  | RPairs "(val \<times> val) list" | RUnit

datatype recipe = Return val | Throw val | Do action "error + answer \<Rightarrow> recipe"

definition on_draft :: "val \<Rightarrow> (nat \<Rightarrow> 'a M) \<Rightarrow> 'a M" where
  "on_draft v f = (case v of Draft d \<Rightarrow> f d | _ \<Rightarrow> throwM Unmodelled)"

definition answerM :: "'a M \<Rightarrow> ('a \<Rightarrow> answer) \<Rightarrow> answer M" where
  "answerM m f = bindM m (\<lambda>x. retM (f x))"

definition perform :: "action \<Rightarrow> answer M" where
  "perform a =
     (case a of
        AGet v k \<Rightarrow> answerM (js_get v k) RVal
      | ASet v k x \<Rightarrow> answerM (on_draft v (\<lambda>_. js_set v k x)) (\<lambda>_. RUnit)
      | ADelete v k \<Rightarrow> answerM (on_draft v (\<lambda>_. js_delete v k)) (\<lambda>_. RUnit)
      | AHas v k \<Rightarrow> answerM (js_has v k) RBool
      | AOwnKeys v \<Rightarrow> answerM (js_ownKeys v) RKeys
      | AGetPrototypeOf v \<Rightarrow> answerM (on_draft v objectTraps_getPrototypeOf) RVal
      | ADefineProperty v \<Rightarrow> answerM (on_draft v objectTraps_defineProperty) (\<lambda>_. RUnit)
      | ASetPrototypeOf v \<Rightarrow> answerM (on_draft v objectTraps_setPrototypeOf) (\<lambda>_. RUnit)
      | AMapSize v \<Rightarrow> answerM (on_draft v DraftMap_size) RNat
      | AMapHas v k \<Rightarrow> answerM (js_map_has v k) RBool
      | AMapGet v k \<Rightarrow> answerM (js_map_get v k) RVal
      | AMapSet v k x \<Rightarrow> answerM (on_draft v (\<lambda>d. DraftMap_set d k x)) (\<lambda>_. RUnit)
      | AMapDelete v k \<Rightarrow> answerM (on_draft v (\<lambda>d. DraftMap_delete d k)) RBool
      | AMapClear v \<Rightarrow> answerM (on_draft v DraftMap_clear) (\<lambda>_. RUnit)
      | AMapKeys v \<Rightarrow> answerM (on_draft v DraftMap_keys) RVals
      | AMapValues v \<Rightarrow> answerM (on_draft v DraftMap_values) RVals
      | AMapEntries v \<Rightarrow> answerM (on_draft v DraftMap_entries) RPairs
      | AMapForEach v \<Rightarrow> answerM (on_draft v DraftMap_forEach) RPairs
      | ASetSize v \<Rightarrow> answerM (on_draft v DraftSet_size) RNat
      | ASetHas v x \<Rightarrow> answerM (on_draft v (\<lambda>d. DraftSet_has d x)) RBool
      | ASetAdd v x \<Rightarrow> answerM (on_draft v (\<lambda>d. DraftSet_add d x)) (\<lambda>_. RUnit)
      | ASetDelete v x \<Rightarrow> answerM (on_draft v (\<lambda>d. DraftSet_delete d x)) RBool
      | ASetClear v \<Rightarrow> answerM (on_draft v DraftSet_clear) (\<lambda>_. RUnit)
      | ASetValues v \<Rightarrow> answerM (on_draft v DraftSet_values) RVals
      | ASetEntries v \<Rightarrow> answerM (on_draft v DraftSet_entries) RPairs
      | ASetForEach v \<Rightarrow> answerM (on_draft v DraftSet_forEach) RVals
      | ANew c \<Rightarrow> answerM (alloc c) (\<lambda>a. RVal (Ref a)))"

primrec interp :: "recipe \<Rightarrow> val M" where
  "interp (Return v) = retM v"
| "interp (Throw e) = throwM (UserError e)"
| "interp (Do a k) = (\<lambda>s. case perform a s of (r, s') \<Rightarrow> interp (k r) s')"

section \<open>immerClass.ts: produce and applyPatches\<close>

text \<open>
  \<open>produce(base, recipe, patchListener)\<close>, after its argument checks (the recipe is a
  function, the listener a function or undefined):
  \<^verbatim>\<open>if (isDraftable(base)) {
    const scope = enterScope(this)
    const proxy = createProxy(base, undefined)
    let hasError = true
    try { result = recipe(proxy); hasError = false }
    finally { if (hasError) revokeScope(scope); else leaveScope(scope) }
    usePatchesInScope(scope, patchListener)
    return processResult(result, scope)
  } else if (!base || typeof base !== "object") {
    result = recipe(base)
    if (result === undefined) result = base
    if (result === NOTHING) result = undefined
    if (this.autoFreeze_) freeze(result, true)
    if (patchListener) {
      const p = [], ip = []
      generateReplacementPatches_(base, result, p, ip)
      patchListener(p, ip)
    }
    return result
  } else die(1, base)\<close>
\<close>

definition produce_with :: "nat \<Rightarrow> val \<Rightarrow> (val \<Rightarrow> val M) \<Rightarrow> bool \<Rightarrow> val M" where
  "produce_with fuel b recipe patchListener =
     bindM (isDraftable b) (\<lambda>da.
       if da then
         bindM enterScope (\<lambda>sc.
         bindM (createProxy b None) (\<lambda>proxy.
         bindM (catchM (recipe proxy) (\<lambda>e. thenM (revokeScope sc) (throwM e))) (\<lambda>result.
         thenM (leaveScope sc)
        (thenM (usePatchesInScope sc patchListener)
               (processResult fuel result sc)))))
       else
         bindM (js_typeof b) (\<lambda>ty.
           if \<not> truthy b \<or> ty \<noteq> ''object'' then
             bindM (recipe b) (\<lambda>r0.
               let r1 = (if strict_eq r0 (Prim PUndefined) then b else r0);
                   r2 = (if strict_eq r1 NOTHING then Prim PUndefined else r1)
               in
               bindM (getsM autoFreeze) (\<lambda>af.
               thenM (if af then freeze r2 True else retM ())
              (thenM (if patchListener
                      then modifyM (\<lambda>s. s\<lparr>listener_calls := listener_calls s @
                             [generateReplacementPatches b r2 ([], [])]\<rparr>)
                      else retM ())
                     (retM r2))))
           else die 1))"

text \<open>\<open>Run\<close>: \<open>produce\<close> on a recipe of the model.\<close>

definition produce :: "nat \<Rightarrow> val \<Rightarrow> (val \<Rightarrow> recipe) \<Rightarrow> bool \<Rightarrow> val M" where
  "produce fuel b recipe patchListener =
     produce_with fuel b (\<lambda>draft. interp (recipe draft)) patchListener"

text \<open>
  \<open>applyPatches(base, patches)\<close>:
  \<^verbatim>\<open>let i
  for (i = patches.length - 1; i >= 0; i--) {
    const patch = patches[i]
    if (patch.path.length === 0 && patch.op === "replace") { base = patch.value; break }
  }
  if (i > -1) patches = patches.slice(i + 1)
  const applyPatchesImpl = getPlugin("Patches").applyPatches_
  if (isDraft(base)) return applyPatchesImpl(base, patches)
  return this.produce(base, draft => applyPatchesImpl(draft, patches))\<close>
\<close>

definition is_root_replace :: "patch \<Rightarrow> bool" where
  "is_root_replace pt = (path_p pt = [] \<and> op_p pt = ''replace'')"

text \<open>The patches after the last root replacement, and the new base it gives.\<close>

fun after_root_replace :: "val \<Rightarrow> patch list \<Rightarrow> val \<times> patch list" where
  "after_root_replace b [] = (b, [])"
| "after_root_replace b (pt # pts) =
     (if list_ex is_root_replace pts then after_root_replace b pts
      else if is_root_replace pt then (patch_value pt, pts)
      else (b, pt # pts))"

definition applyPatches :: "nat \<Rightarrow> val \<Rightarrow> patch list \<Rightarrow> val M" where
  "applyPatches fuel b patches =
     (let bp = after_root_replace b patches in
      bindM (isDraft (fst bp)) (\<lambda>dr.
        if dr then applyPatches_impl fuel (fst bp) (snd bp)
        else produce_with fuel (fst bp)
               (\<lambda>draft. applyPatches_impl fuel draft (snd bp)) False))"

section \<open>Starting states and example values\<close>

text \<open>A run starts outside every scope, with no draft and with the options of a fresh
  \<open>Immer\<close> instance (\<open>autoFreeze_ = true\<close>, \<open>useStrictShallowCopy_ = false\<close>), over a
  heap holding the base state.\<close>

definition init :: "obj list \<Rightarrow> state" where
  "init h = \<lparr>heap = h, drafts = [], scopes = [], currentScope = None, autoFreeze = True,
     useStrictShallowCopy = StrictFalse, listener_calls = [], proto_writes = []\<rparr>"

definition num :: "int \<Rightarrow> val" where
  "num n = Prim (PNum n)"

definition str :: "string \<Rightarrow> val" where
  "str x = Prim (PStr x)"

text \<open>An array literal \<open>[v, ...]\<close> and an object literal \<open>{k: v, ...}\<close>, not frozen.\<close>

definition arr :: "val list \<Rightarrow> obj" where
  "arr xs = \<lparr>content = OArray (map Some xs), is_frozen = False\<rparr>"

definition rcd :: "(string \<times> val) list \<Rightarrow> obj" where
  "rcd fs = \<lparr>content = ORecord (map (\<lambda>(k, v). (KStr k, v, True)) fs), is_frozen = False\<rparr>"

definition remove_patch :: "val list \<Rightarrow> patch" where
  "remove_patch p = \<lparr>op_p = REMOVE, path_p = p, value_p = None\<rparr>"

definition add_patch :: "val list \<Rightarrow> val \<Rightarrow> patch" where
  "add_patch p v = \<lparr>op_p = ADD, path_p = p, value_p = Some v\<rparr>"

definition replace_patch :: "val list \<Rightarrow> val \<Rightarrow> patch" where
  "replace_patch p v = \<lparr>op_p = REPLACE, path_p = p, value_p = Some v\<rparr>"

text \<open>The recipe \<open>d => { d.length = 2 }\<close>.\<close>

definition truncate_recipe :: "val \<Rightarrow> recipe" where
  "truncate_recipe d = Do (ASet d (KStr ''length'') (num 2)) (\<lambda>_. Return (Prim PUndefined))"

definition truncate_run :: "(error + val) \<times> state" where
  "truncate_run =
     produce 10 (Ref 0) truncate_recipe True (init [arr [num 1, num 2, num 3, num 4]])"

text \<open>The recipe \<open>d => { d.a; d.a = base.a; d.b = 5 }\<close> over the base \<open>{a: {x: 1}}\<close>:
  it reads the child (which drafts it), assigns the original child back, and adds a
  property.\<close>

definition reassign_recipe :: "val \<Rightarrow> recipe" where
  "reassign_recipe d =
     Do (AGet d (KStr ''a'')) (\<lambda>_.
     Do (ASet d (KStr ''a'') (Ref 0)) (\<lambda>_.
     Do (ASet d (KStr ''b'') (num 5)) (\<lambda>_. Return (Prim PUndefined))))"

definition reassign_run :: "(error + val) \<times> state" where
  "reassign_run =
     produce 10 (Ref 1) reassign_recipe True
       (init [rcd [(''x'', num 1)], rcd [(''a'', Ref 0)]])"

definition map_obj :: "(val \<times> val) list \<Rightarrow> obj" where
  "map_obj m = \<lparr>content = OMap m, is_frozen = False\<rparr>"

definition set_obj :: "val list \<Rightarrow> obj" where
  "set_obj xs = \<lparr>content = OSet xs, is_frozen = False\<rparr>"

text \<open>The state after a finished run over the map \<open>{k \<rightarrow> 1}\<close>: draft 0 is the root
  draft of that run, revoked.\<close>

definition after_map_run :: state where
  "after_map_run =
     snd (produce 10 (Ref 0) (\<lambda>d. Return (Prim PUndefined)) False
            (init [map_obj [(str ''k'', num 1)]]))"

section \<open>Invariants of the engine state\<close>

text \<open>A computation keeps a property of the state when the property holds after it,
  whether it returns or throws, on every state that has it; \<open>keeps2\<close> also says what
  the returned value is like.  A computation is a read when it leaves the state as it
  is.\<close>

definition keeps :: "(state \<Rightarrow> bool) \<Rightarrow> 'a M \<Rightarrow> bool" where
  "keeps I m = (\<forall>s. I s \<longrightarrow> I (snd (m s)))"

definition keeps2 :: "(state \<Rightarrow> bool) \<Rightarrow> 'a M \<Rightarrow> ('a \<Rightarrow> bool) \<Rightarrow> bool" where
  "keeps2 I m R = (\<forall>s. I s \<longrightarrow> I (snd (m s)) \<and> (\<forall>x. fst (m s) = Inr x \<longrightarrow> R x))"

definition reads :: "'a M \<Rightarrow> bool" where
  "reads m = (\<forall>s. snd (m s) = s)"

text \<open>
  The frame of a run over the heap \<open>h0\<close>: the heap has only grown, every object of
  \<open>h0\<close> holds what it held, and every copy made for a draft lies outside \<open>h0\<close>.
\<close>

definition frame :: "obj list \<Rightarrow> state \<Rightarrow> bool" where
  "frame h0 s =
     (length h0 \<le> length (heap s)
      \<and> (\<forall>a < length h0. content (heap s ! a) = content (h0 ! a))
      \<and> (\<forall>i < length (drafts s). \<forall>c. copy_d (drafts s ! i) = Some c \<longrightarrow> length h0 \<le> c))"

text \<open>The values held by an object, and a heap of ordinary data: every value held is a
  primitive or a reference into the heap.\<close>

definition vals_of :: "content \<Rightarrow> val list" where
  "vals_of c =
     (case c of
        ORecord fs \<Rightarrow> map (\<lambda>p. fst (snd p)) fs
      | OOpaque fs \<Rightarrow> map (\<lambda>p. fst (snd p)) fs
      | OArray xs \<Rightarrow> concat (map (\<lambda>x. case x of None \<Rightarrow> [] | Some v \<Rightarrow> [v]) xs)
      | OMap m \<Rightarrow> map fst m @ map snd m
      | OSet xs \<Rightarrow> xs
      | OFunction \<Rightarrow> [])"

definition plain_val :: "nat \<Rightarrow> val \<Rightarrow> bool" where
  "plain_val n v = (case v of Prim _ \<Rightarrow> True | Ref a \<Rightarrow> a < n | _ \<Rightarrow> False)"

definition plain_heap :: "obj list \<Rightarrow> bool" where
  "plain_heap h = list_all (\<lambda>ob. list_all (plain_val (length h)) (vals_of (content ob))) h"

section \<open>The strict shallow copy, property descriptor by property descriptor\<close>











text \<open>Two states that differ at most in \<open>modified_\<close> flags, which have only been
  raised.\<close>

definition only_modified :: "state \<Rightarrow> state \<Rightarrow> bool" where
  "only_modified s s' =
     (s' = s\<lparr>drafts := drafts s'\<rparr>
      \<and> length (drafts s') = length (drafts s)
      \<and> (\<forall>i < length (drafts s).
            drafts s' ! i = (drafts s ! i)\<lparr>modified_d := modified_d (drafts s' ! i)\<rparr>
            \<and> (modified_d (drafts s ! i) \<longrightarrow> modified_d (drafts s' ! i))))"

text \<open>
  The state of a run that started from the fresh state \<open>s0\<close> on the base at address
  \<open>a\<close>, while the recipe runs: the configuration and the listener calls are those of
  \<open>s0\<close>; the one scope is current, is a root scope that may still freeze and has no
  patches yet, and lists every draft in the order of creation; draft 0 is the root draft,
  of the base; no draft is revoked or finalized; a parent is older than its child; and a
  modified draft has a modified parent.
\<close>

definition parent_older :: "dstate list \<Rightarrow> bool" where
  "parent_older ds = (\<forall>d < length ds. \<forall>p. parent_d (ds ! d) = Some p \<longrightarrow> p < d)"

definition mod_closed :: "dstate list \<Rightarrow> bool" where
  "mod_closed ds =
     (\<forall>d < length ds. modified_d (ds ! d) \<longrightarrow>
        (\<forall>p. parent_d (ds ! d) = Some p \<longrightarrow> modified_d (ds ! p)))"

definition run_inv :: "state \<Rightarrow> nat \<Rightarrow> state \<Rightarrow> bool" where
  "run_inv s0 a s =
     (autoFreeze s = autoFreeze s0 \<and> useStrictShallowCopy s = useStrictShallowCopy s0
      \<and> listener_calls s = listener_calls s0
      \<and> length (scopes s) = 1 \<and> currentScope s = Some 0
      \<and> drafts_s (scopes s ! 0) = Some [0..<length (drafts s)]
      \<and> parent_s (scopes s ! 0) = None \<and> canAutoFreeze_s (scopes s ! 0)
      \<and> patches_s (scopes s ! 0) = None \<and> inversePatches_s (scopes s ! 0) = None
      \<and> \<not> patchListener_s (scopes s ! 0)
      \<and> 0 < length (drafts s)
      \<and> base_d (drafts s ! 0) = a \<and> parent_d (drafts s ! 0) = None
      \<and> (\<forall>d < length (drafts s).
            \<not> revoked_d (drafts s ! d) \<and> scope_d (drafts s ! d) = 0
            \<and> \<not> finalized_d (drafts s ! d))
      \<and> parent_older (drafts s) \<and> mod_closed (drafts s))"

section \<open>Verified properties\<close>

text \<open>C8. Truncating an array by assigning its length: with base \<open>[1, 2, 3, 4]\<close> and the
  recipe \<open>d.length = 2\<close>, the run returns a new array \<open>[1, 2]\<close> and leaves the base as it
  was; the listener receives the forward patches remove \<open>[3]\<close>, remove \<open>[2]\<close>, in that
  order, and the inverse patches add \<open>[2]\<close> 3, add \<open>[3]\<close> 4, in that order; applying the
  inverse patches to the result gives an array \<open>[1, 2, 3, 4]\<close> again.\<close>

theorem length_truncation_patches:
  "fst truncate_run = Inr (Ref 1)
   \<and> map content (heap (snd truncate_run))
       = [OArray [Some (num 1), Some (num 2), Some (num 3), Some (num 4)],
          OArray [Some (num 1), Some (num 2)]]
   \<and> listener_calls (snd truncate_run)
       = [([remove_patch [num 3], remove_patch [num 2]],
           [add_patch [num 2] (num 3), add_patch [num 3] (num 4)])]
   \<and> fst (applyPatches 10 (Ref 1) [add_patch [num 2] (num 3), add_patch [num 3] (num 4)]
             (snd truncate_run)) = Inr (Ref 3)
   \<and> content (heap (snd (applyPatches 10 (Ref 1)
                 [add_patch [num 2] (num 3), add_patch [num 3] (num 4)] (snd truncate_run))) ! 3)
       = OArray [Some (num 1), Some (num 2), Some (num 3), Some (num 4)]"
  by code_simp

text \<open>C3 (fails in the code). Base \<open>{a: {x: 1}}\<close>, recipe
  \<open>d => { d.a; d.a = base.a; d.b = 5 }\<close>, run with a listener.  The run returns
  \<open>{a: {x: 1}, b: 5}\<close>; the forward patches handed to the listener are remove \<open>["a"]\<close>,
  add \<open>["b"]\<close> 5, and applying them to the base gives \<open>{b: 5}\<close>, which is not
  structurally equal to the result of the run.\<close>

theorem reassign_original_forward_patches:
  "fst reassign_run = Inr (Ref 2)
   \<and> content (heap (snd reassign_run) ! 2)
       = ORecord [(KStr ''a'', Ref 0, True), (KStr ''b'', num 5, True)]
   \<and> content (heap (snd reassign_run) ! 0) = ORecord [(KStr ''x'', num 1, True)]
   \<and> listener_calls (snd reassign_run)
       = [([remove_patch [str ''a''], add_patch [str ''b''] (num 5)],
           [add_patch [str ''a''] (Ref 0), remove_patch [str ''b'']])]
   \<and> fst (applyPatches 10 (Ref 1) [remove_patch [str ''a''], add_patch [str ''b''] (num 5)]
             (snd reassign_run)) = Inr (Ref 3)
   \<and> content (heap (snd (applyPatches 10 (Ref 1)
                 [remove_patch [str ''a''], add_patch [str ''b''] (num 5)] (snd reassign_run))) ! 3)
       = ORecord [(KStr ''b'', num 5, True)]"
  by code_simp

text \<open>C6 (fails in the code). On a revoked map draft, \<open>size\<close>, \<open>has\<close> and \<open>keys\<close> do
  not fail: they answer from the latest map and leave the state as it is.  \<open>get\<close>,
  \<open>set\<close> and \<open>clear\<close> on the same draft fail with error 3.\<close>

theorem revoked_map_draft_answers:
  assumes "d < length (drafts s)"
    and "revoked_d (drafts s ! d)"
    and "latest (drafts s ! d) < length (heap s)"
    and "content (heap s ! latest (drafts s ! d)) = OMap m"
  shows "DraftMap_size d s = (Inr (length m), s)
       \<and> DraftMap_has d k s = (Inr (map_has m k), s)
       \<and> DraftMap_keys d s = (Inr (map fst m), s)
       \<and> DraftMap_get d k s = (Inl (Immer 3), s)
       \<and> DraftMap_set d k v s = (Inl (Immer 3), s)
       \<and> DraftMap_clear d s = (Inl (Immer 3), s)"
  using assms
  by (simp add: DraftMap_size_def DraftMap_has_def DraftMap_keys_def DraftMap_get_def
      DraftMap_set_def DraftMap_clear_def assertUnrevoked_def die_def mapOf_def
      getContent_def getObj_def getDraft_def bindM_def thenM_def retM_def throwM_def)

lemma after_map_run_revoked:
  "0 < length (drafts after_map_run) \<and> revoked_d (drafts after_map_run ! 0)
   \<and> latest (drafts after_map_run ! 0) < length (heap after_map_run)
   \<and> content (heap after_map_run ! latest (drafts after_map_run ! 0)) = OMap [(str ''k'', num 1)]"
  by code_simp

lemma map_has_example: "map_has [(str ''k'', num 1)] (str ''k'')"
  by code_simp

theorem revoked_map_draft_answers_witness:
  "DraftMap_size 0 after_map_run = (Inr 1, after_map_run)
   \<and> DraftMap_has 0 (str ''k'') after_map_run = (Inr True, after_map_run)
   \<and> DraftMap_keys 0 after_map_run = (Inr [str ''k''], after_map_run)
   \<and> DraftMap_get 0 (str ''k'') after_map_run = (Inl (Immer 3), after_map_run)
   \<and> DraftMap_set 0 (str ''k'') (num 2) after_map_run = (Inl (Immer 3), after_map_run)
   \<and> DraftMap_clear 0 after_map_run = (Inl (Immer 3), after_map_run)"
  using revoked_map_draft_answers [of 0 after_map_run "[(str ''k'', num 1)]" "str ''k''" "num 2"]
    after_map_run_revoked
  by (simp add: map_has_example)

subsection \<open>Rules for invariants\<close>

named_theorems keeps_intros

lemma keeps2_keeps: "keeps2 I m R \<Longrightarrow> keeps I m"
  by (simp add: keeps_def keeps2_def)

lemma keeps2_weaken: "keeps2 I m R \<Longrightarrow> (\<And>x. R x \<Longrightarrow> R' x) \<Longrightarrow> keeps2 I m R'"
  by (simp add: keeps2_def)

lemma reads_keeps: "reads m \<Longrightarrow> keeps I m"
  by (simp add: keeps_def reads_def)

lemma keeps_retM [keeps_intros]: "keeps I (retM x)"
  by (simp add: keeps_def retM_def)

lemma keeps_throwM [keeps_intros]: "keeps I (throwM e)"
  by (simp add: keeps_def throwM_def)

lemma keeps_die [keeps_intros]: "keeps I (die n)"
  by (simp add: die_def keeps_throwM)

lemma keeps_getsM [keeps_intros]: "keeps I (getsM f)"
  by (simp add: keeps_def getsM_def)

lemma keeps_bind2:
  "keeps2 I m R \<Longrightarrow> (\<And>x. R x \<Longrightarrow> keeps I (f x)) \<Longrightarrow> keeps I (bindM m f)"
  unfolding keeps_def keeps2_def bindM_def
  by (auto split: prod.splits sum.splits)

lemma keeps2_bind2:
  "keeps2 I m R \<Longrightarrow> (\<And>x. R x \<Longrightarrow> keeps2 I (f x) Q) \<Longrightarrow> keeps2 I (bindM m f) Q"
  unfolding keeps2_def bindM_def
  by (auto split: prod.splits sum.splits)

lemma keeps2_retM: "R x \<Longrightarrow> keeps2 I (retM x) R"
  by (simp add: keeps2_def retM_def)

lemma keeps2_throwM: "keeps2 I (throwM e) R"
  by (simp add: keeps2_def throwM_def)

lemma keeps2_True: "keeps I m \<Longrightarrow> keeps2 I m (\<lambda>_. True)"
  by (simp add: keeps2_def keeps_def)

lemma keeps_bindM [keeps_intros]:
  "keeps I m \<Longrightarrow> (\<And>x. keeps I (f x)) \<Longrightarrow> keeps I (bindM m f)"
  unfolding keeps_def bindM_def
  by (auto split: prod.splits sum.splits)

lemma keeps_thenM [keeps_intros]:
  "keeps I m \<Longrightarrow> keeps I n \<Longrightarrow> keeps I (thenM m n)"
  by (simp add: thenM_def keeps_bindM)

lemma keeps_catchM [keeps_intros]:
  "keeps I m \<Longrightarrow> (\<And>e. keeps I (h e)) \<Longrightarrow> keeps I (catchM m h)"
  unfolding keeps_def catchM_def
  by (auto split: prod.splits sum.splits)

lemma keeps_whenM [keeps_intros]: "keeps I m \<Longrightarrow> keeps I (whenM b m)"
  by (simp add: whenM_def keeps_retM)

lemma keeps_if [keeps_intros]:
  "(b \<Longrightarrow> keeps I m) \<Longrightarrow> (\<not> b \<Longrightarrow> keeps I n) \<Longrightarrow> keeps I (if b then m else n)"
  by simp

lemma keeps_forM:
  "(\<And>x. x \<in> set xs \<Longrightarrow> keeps I (f x)) \<Longrightarrow> keeps I (forM xs f)"
  by (induction xs) (auto intro!: keeps_intros)

lemma keeps_mapM:
  "(\<And>x. x \<in> set xs \<Longrightarrow> keeps I (f x)) \<Longrightarrow> keeps I (mapM xs f)"
  by (induction xs) (auto intro!: keeps_intros)

lemma keeps_foldM:
  "(\<And>acc x. x \<in> set xs \<Longrightarrow> keeps I (f acc x)) \<Longrightarrow> keeps I (foldM f xs acc)"
  by (induction xs arbitrary: acc) (auto intro!: keeps_intros)

lemma keeps_answerM [keeps_intros]: "keeps I m \<Longrightarrow> keeps I (answerM m f)"
  unfolding answerM_def by (intro keeps_intros)

subsection \<open>Reads\<close>

named_theorems reads_intros

named_theorems reads_leaf

lemma reads_retM [reads_intros]: "reads (retM x)"
  by (simp add: reads_def retM_def)

lemma reads_throwM [reads_intros]: "reads (throwM e)"
  by (simp add: reads_def throwM_def)

lemma reads_die [reads_intros]: "reads (die n)"
  by (simp add: die_def reads_throwM)

lemma reads_getsM [reads_intros]: "reads (getsM f)"
  by (simp add: reads_def getsM_def)

lemma reads_bindM [reads_intros]:
  "reads m \<Longrightarrow> (\<And>x. reads (f x)) \<Longrightarrow> reads (bindM m f)"
  unfolding reads_def bindM_def
  by (auto split: prod.splits sum.splits) (metis snd_conv)+

lemma reads_thenM [reads_intros]: "reads m \<Longrightarrow> reads n \<Longrightarrow> reads (thenM m n)"
  by (simp add: thenM_def reads_bindM)

lemma reads_if [reads_intros]:
  "(b \<Longrightarrow> reads m) \<Longrightarrow> (\<not> b \<Longrightarrow> reads n) \<Longrightarrow> reads (if b then m else n)"
  by simp

lemma reads_getObj [reads_intros, reads_leaf]: "reads (getObj a)"
  by (simp add: reads_def getObj_def)

lemma reads_getDraft [reads_intros, reads_leaf]: "reads (getDraft a)"
  by (simp add: reads_def getDraft_def)

lemma reads_getScope [reads_intros, reads_leaf]: "reads (getScope a)"
  by (simp add: reads_def getScope_def)

lemma reads_getContent [reads_intros, reads_leaf]: "reads (getContent a)"
  unfolding getContent_def by (intro reads_intros)

lemma reads_stateOf [reads_intros, reads_leaf]: "reads (stateOf a)"
  unfolding stateOf_def by (intro reads_intros)

lemma reads_isDraft [reads_intros, reads_leaf]: "reads (isDraft v)"
  unfolding isDraft_def by (cases v) (auto intro!: reads_intros)

lemma reads_isDraftable [reads_intros, reads_leaf]: "reads (isDraftable v)"
  unfolding isDraftable_def by (cases v) (auto intro!: reads_intros)

lemma reads_getArchtype [reads_intros, reads_leaf]: "reads (getArchtype v)"
  unfolding getArchtype_def by (cases v) (auto intro!: reads_intros)

lemma reads_isFrozen [reads_intros, reads_leaf]: "reads (isFrozen v)"
  unfolding isFrozen_def by (cases v) (auto intro!: reads_intros)

lemma reads_getCurrentScope [reads_intros, reads_leaf]: "reads getCurrentScope"
  unfolding getCurrentScope_def by (intro reads_intros)

lemma reads_peek [reads_intros, reads_leaf]: "reads (peek a k)"
  unfolding peek_def by (intro reads_intros)

lemma reads_readPropFromProto [reads_intros, reads_leaf]: "reads (readPropFromProto st source k)"
  unfolding readPropFromProto_def
  by (auto intro!: reads_intros split: option.splits protodesc.splits)

lemma reads_objectTraps_has [reads_intros, reads_leaf]: "reads (objectTraps_has d k)"
  unfolding objectTraps_has_def by (intro reads_intros)

lemma reads_objectTraps_ownKeys [reads_intros, reads_leaf]: "reads (objectTraps_ownKeys d)"
  unfolding objectTraps_ownKeys_def by (intro reads_intros)

lemma reads_objectTraps_getPrototypeOf [reads_intros, reads_leaf]: "reads (objectTraps_getPrototypeOf d)"
  unfolding objectTraps_getPrototypeOf_def by (intro reads_intros)

lemma reads_objectTraps_defineProperty [reads_intros, reads_leaf]: "reads (objectTraps_defineProperty d)"
  unfolding objectTraps_defineProperty_def by (intro reads_intros)

lemma reads_objectTraps_setPrototypeOf [reads_intros, reads_leaf]: "reads (objectTraps_setPrototypeOf d)"
  unfolding objectTraps_setPrototypeOf_def by (intro reads_intros)

lemma reads_key_parseInt_isNaN [reads_intros, reads_leaf]: "reads (key_parseInt_isNaN k)"
  unfolding key_parseInt_isNaN_def by (cases k) (auto intro!: reads_intros)

lemma reads_assertUnrevoked [reads_intros, reads_leaf]: "reads (assertUnrevoked d)"
  unfolding assertUnrevoked_def by (intro reads_intros)

lemma reads_mapOf [reads_intros, reads_leaf]: "reads (mapOf a)"
  unfolding mapOf_def by (auto intro!: reads_intros split: content.splits)

lemma reads_setOf [reads_intros, reads_leaf]: "reads (setOf a)"
  unfolding setOf_def by (auto intro!: reads_intros split: content.splits)

lemma reads_DraftMap_size [reads_intros, reads_leaf]: "reads (DraftMap_size d)"
  unfolding DraftMap_size_def by (intro reads_intros)

lemma reads_DraftMap_has [reads_intros, reads_leaf]: "reads (DraftMap_has d k)"
  unfolding DraftMap_has_def by (intro reads_intros)

lemma reads_DraftMap_keys [reads_intros, reads_leaf]: "reads (DraftMap_keys d)"
  unfolding DraftMap_keys_def by (intro reads_intros)

lemma reads_DraftSet_size [reads_intros, reads_leaf]: "reads (DraftSet_size d)"
  unfolding DraftSet_size_def by (intro reads_intros)

lemma reads_DraftSet_has [reads_intros, reads_leaf]: "reads (DraftSet_has d v)"
  unfolding DraftSet_has_def by (auto intro!: reads_intros split: option.splits)

lemma reads_js_typeof [reads_intros, reads_leaf]: "reads (js_typeof v)"
  unfolding js_typeof_def by (cases v) (auto intro!: reads_intros)

lemma reads_segment [reads_intros, reads_leaf]: "reads (segment p)"
  unfolding segment_def by (auto intro!: reads_intros split: val.splits prim.splits)

lemma reads_js_has [reads_intros, reads_leaf]: "reads (js_has v k)"
  unfolding js_has_def by (cases v) (auto intro!: reads_intros)

lemma reads_js_hasOwn [reads_intros, reads_leaf]: "reads (js_hasOwn v k)"
  unfolding js_hasOwn_def by (cases v) (auto intro!: reads_intros)

lemma reads_js_isEnumerable [reads_intros, reads_leaf]: "reads (js_isEnumerable v k)"
  unfolding js_isEnumerable_def by (cases v) (auto intro!: reads_intros)

lemma reads_js_ownKeys [reads_intros, reads_leaf]: "reads (js_ownKeys v)"
  unfolding js_ownKeys_def by (cases v) (auto intro!: reads_intros)

lemma reads_js_map_has [reads_intros, reads_leaf]: "reads (js_map_has v k)"
  unfolding js_map_has_def by (cases v) (auto intro!: reads_intros)

lemmas keeps_reads [keeps_intros] = reads_leaf [THEN reads_keeps]

subsection \<open>The strict shallow copy\<close>







subsection \<open>Rules for case distinctions\<close>

lemma keeps_case_option [keeps_intros]:
  "(x = None \<Longrightarrow> keeps I m) \<Longrightarrow> (\<And>y. x = Some y \<Longrightarrow> keeps I (f y)) \<Longrightarrow>
     keeps I (case x of None \<Rightarrow> m | Some y \<Rightarrow> f y)"
  by (cases x) simp_all

lemma keeps_case_list [keeps_intros]:
  "(xs = [] \<Longrightarrow> keeps I m) \<Longrightarrow> (\<And>y ys. xs = y # ys \<Longrightarrow> keeps I (f y ys)) \<Longrightarrow>
     keeps I (case xs of [] \<Rightarrow> m | y # ys \<Rightarrow> f y ys)"
  by (cases xs) simp_all

lemma keeps_case_prod [keeps_intros]:
  "(\<And>a b. p = (a, b) \<Longrightarrow> keeps I (f a b)) \<Longrightarrow> keeps I (case p of (a, b) \<Rightarrow> f a b)"
  by (cases p) simp_all

lemma keeps_case_val [keeps_intros]:
  "(\<And>p. v = Prim p \<Longrightarrow> keeps I (f1 p)) \<Longrightarrow> (\<And>a. v = Ref a \<Longrightarrow> keeps I (f2 a)) \<Longrightarrow>
   (\<And>d. v = Draft d \<Longrightarrow> keeps I (f3 d)) \<Longrightarrow> (\<And>n. v = Builtin n \<Longrightarrow> keeps I (f4 n)) \<Longrightarrow>
     keeps I (case v of Prim p \<Rightarrow> f1 p | Ref a \<Rightarrow> f2 a | Draft d \<Rightarrow> f3 d | Builtin n \<Rightarrow> f4 n)"
  by (cases v) simp_all

lemma keeps_case_prim [keeps_intros]:
  "(p = PUndefined \<Longrightarrow> keeps I m1) \<Longrightarrow> (p = PNull \<Longrightarrow> keeps I m2) \<Longrightarrow>
   (\<And>b. p = PBool b \<Longrightarrow> keeps I (f3 b)) \<Longrightarrow> (\<And>n. p = PNum n \<Longrightarrow> keeps I (f4 n)) \<Longrightarrow>
   (p = PNegZero \<Longrightarrow> keeps I m5) \<Longrightarrow> (p = PNaN \<Longrightarrow> keeps I m6) \<Longrightarrow>
   (\<And>x. p = PStr x \<Longrightarrow> keeps I (f7 x)) \<Longrightarrow> (\<And>x. p = PSym x \<Longrightarrow> keeps I (f8 x)) \<Longrightarrow>
     keeps I (case p of PUndefined \<Rightarrow> m1 | PNull \<Rightarrow> m2 | PBool b \<Rightarrow> f3 b | PNum n \<Rightarrow> f4 n
              | PNegZero \<Rightarrow> m5 | PNaN \<Rightarrow> m6 | PStr x \<Rightarrow> f7 x | PSym x \<Rightarrow> f8 x)"
  by (cases p) simp_all

lemma keeps_case_key [keeps_intros]:
  "(\<And>x. k = KStr x \<Longrightarrow> keeps I (f1 x)) \<Longrightarrow> (\<And>n. k = KNum n \<Longrightarrow> keeps I (f2 n)) \<Longrightarrow>
   (\<And>x. k = KSym x \<Longrightarrow> keeps I (f3 x)) \<Longrightarrow>
     keeps I (case k of KStr x \<Rightarrow> f1 x | KNum n \<Rightarrow> f2 n | KSym x \<Rightarrow> f3 x)"
  by (cases k) simp_all

lemma keeps_case_content [keeps_intros]:
  "(\<And>fs. c = ORecord fs \<Longrightarrow> keeps I (f1 fs)) \<Longrightarrow> (\<And>xs. c = OArray xs \<Longrightarrow> keeps I (f2 xs)) \<Longrightarrow>
   (\<And>m. c = OMap m \<Longrightarrow> keeps I (f3 m)) \<Longrightarrow> (\<And>xs. c = OSet xs \<Longrightarrow> keeps I (f4 xs)) \<Longrightarrow>
   (c = OFunction \<Longrightarrow> keeps I m5) \<Longrightarrow> (\<And>fs. c = OOpaque fs \<Longrightarrow> keeps I (f6 fs)) \<Longrightarrow>
     keeps I (case c of ORecord fs \<Rightarrow> f1 fs | OArray xs \<Rightarrow> f2 xs | OMap m \<Rightarrow> f3 m
              | OSet xs \<Rightarrow> f4 xs | OFunction \<Rightarrow> m5 | OOpaque fs \<Rightarrow> f6 fs)"
  by (cases c) simp_all

lemma keeps_case_archtype [keeps_intros]:
  "(t = AObject \<Longrightarrow> keeps I m1) \<Longrightarrow> (t = AArray \<Longrightarrow> keeps I m2) \<Longrightarrow>
   (t = AMap \<Longrightarrow> keeps I m3) \<Longrightarrow> (t = archtype.ASet \<Longrightarrow> keeps I m4) \<Longrightarrow>
     keeps I (case t of AObject \<Rightarrow> m1 | AArray \<Rightarrow> m2 | AMap \<Rightarrow> m3 | archtype.ASet \<Rightarrow> m4)"
  by (cases t) simp_all

lemma keeps_case_protodesc [keeps_intros]:
  "(\<And>v. p = PData v \<Longrightarrow> keeps I (f v)) \<Longrightarrow> (p = PAccessor \<Longrightarrow> keeps I m) \<Longrightarrow>
     keeps I (case p of PData v \<Rightarrow> f v | PAccessor \<Rightarrow> m)"
  by (cases p) simp_all

lemma keeps_case_slot [keeps_intros]:
  "(\<And>k. p = PKey k \<Longrightarrow> keeps I (f k)) \<Longrightarrow> (\<And>v. p = PVal v \<Longrightarrow> keeps I (g v)) \<Longrightarrow>
     keeps I (case p of PKey k \<Rightarrow> f k | PVal v \<Rightarrow> g v)"
  by (cases p) simp_all

lemma keeps_Let [keeps_intros]: "keeps I (f x) \<Longrightarrow> keeps I (Let x f)"
  by simp

lemma keeps_on_draft [keeps_intros]:
  "(\<And>d. v = Draft d \<Longrightarrow> keeps I (f d)) \<Longrightarrow> keeps I (on_draft v f)"
  unfolding on_draft_def by (cases v) (simp_all add: keeps_throwM)
subsection \<open>markChanged changes nothing but \<open>modified_\<close> flags\<close>

lemma markChanged_rec_skip:
  "\<not> (d < length (drafts s) \<and> \<not> modified_d (drafts s ! d)) \<Longrightarrow> markChanged_rec d s = s"
  by (subst markChanged_rec.simps) auto

lemma markChanged_rec_step:
  "d < length (drafts s) \<Longrightarrow> \<not> modified_d (drafts s ! d) \<Longrightarrow>
   markChanged_rec d s =
     (case parent_d (drafts s ! d) of
        None \<Rightarrow> s\<lparr>drafts := (drafts s)[d := (drafts s ! d)\<lparr>modified_d := True\<rparr>]\<rparr>
      | Some p \<Rightarrow>
          if p < d
          then markChanged_rec p (s\<lparr>drafts := (drafts s)[d := (drafts s ! d)\<lparr>modified_d := True\<rparr>]\<rparr>)
          else s\<lparr>drafts := (drafts s)[d := (drafts s ! d)\<lparr>modified_d := True\<rparr>]\<rparr>)"
  by (subst markChanged_rec.simps) (simp add: Let_def)

lemma only_modified_refl: "only_modified s s"
  by (simp add: only_modified_def)

lemma only_modified_trans:
  "only_modified s s' \<Longrightarrow> only_modified s' s'' \<Longrightarrow> only_modified s s''"
  unfolding only_modified_def
  apply (intro conjI allI impI)
     apply (metis (no_types, lifting) state.surjective state.update_convs(2))
    apply simp
   apply (metis (no_types, lifting) dstate.surjective dstate.update_convs(3))
  apply simp
  done

lemma only_modified_mark:
  "d < length (drafts s) \<Longrightarrow>
     only_modified s (s\<lparr>drafts := (drafts s)[d := (drafts s ! d)\<lparr>modified_d := True\<rparr>]\<rparr>)"
  unfolding only_modified_def
  by (auto simp: nth_list_update)

lemma markChanged_rec_only_modified: "only_modified s (markChanged_rec d s)"
proof (induction d s rule: markChanged_rec.induct)
  case (1 d s)
  show ?case
  proof (cases "d < length (drafts s) \<and> \<not> modified_d (drafts s ! d)")
    case False
    then show ?thesis by (simp add: markChanged_rec_skip only_modified_refl)
  next
    case True
    let ?s' = "s\<lparr>drafts := (drafts s)[d := (drafts s ! d)\<lparr>modified_d := True\<rparr>]\<rparr>"
    have base: "only_modified s ?s'"
      using True by (simp add: only_modified_mark)
    show ?thesis
    proof (cases "parent_d (drafts s ! d)")
      case None
      with True base show ?thesis by (simp add: markChanged_rec_step)
    next
      case (Some p)
      show ?thesis
      proof (cases "p < d")
        case False
        with True Some base show ?thesis by (simp add: markChanged_rec_step)
      next
        case lt: True
        from "1.IH"[OF True refl Some lt] base
        have "only_modified s (markChanged_rec p ?s')"
          by (rule only_modified_trans [rotated])
        with True Some lt show ?thesis by (simp add: markChanged_rec_step)
      qed
    qed
  qed
qed

lemma only_modified_fields:
  assumes "only_modified s s'"
  shows "heap s' = heap s" "scopes s' = scopes s" "currentScope s' = currentScope s"
    "autoFreeze s' = autoFreeze s" "useStrictShallowCopy s' = useStrictShallowCopy s"
    "listener_calls s' = listener_calls s" "proto_writes s' = proto_writes s"
    "length (drafts s') = length (drafts s)"
proof -
  from assms have eq: "s' = s\<lparr>drafts := drafts s'\<rparr>" by (simp add: only_modified_def)
  show "heap s' = heap s" by (subst eq) simp
  show "scopes s' = scopes s" by (subst eq) simp
  show "currentScope s' = currentScope s" by (subst eq) simp
  show "autoFreeze s' = autoFreeze s" by (subst eq) simp
  show "useStrictShallowCopy s' = useStrictShallowCopy s" by (subst eq) simp
  show "listener_calls s' = listener_calls s" by (subst eq) simp
  show "proto_writes s' = proto_writes s" by (subst eq) simp
  show "length (drafts s') = length (drafts s)" using assms by (simp add: only_modified_def)
qed

lemma only_modified_draft:
  assumes "only_modified s s'" and "i < length (drafts s)"
  shows "type_d (drafts s' ! i) = type_d (drafts s ! i)"
    "scope_d (drafts s' ! i) = scope_d (drafts s ! i)"
    "finalized_d (drafts s' ! i) = finalized_d (drafts s ! i)"
    "isManual_d (drafts s' ! i) = isManual_d (drafts s ! i)"
    "parent_d (drafts s' ! i) = parent_d (drafts s ! i)"
    "base_d (drafts s' ! i) = base_d (drafts s ! i)"
    "copy_d (drafts s' ! i) = copy_d (drafts s ! i)"
    "assigned_d (drafts s' ! i) = assigned_d (drafts s ! i)"
    "massigned_d (drafts s' ! i) = massigned_d (drafts s ! i)"
    "drafts_d (drafts s' ! i) = drafts_d (drafts s ! i)"
    "revoked_d (drafts s' ! i) = revoked_d (drafts s ! i)"
    "modified_d (drafts s ! i) \<Longrightarrow> modified_d (drafts s' ! i)"
proof -
  from assms have eq:
    "drafts s' ! i = (drafts s ! i)\<lparr>modified_d := modified_d (drafts s' ! i)\<rparr>"
    and up: "modified_d (drafts s ! i) \<longrightarrow> modified_d (drafts s' ! i)"
    by (simp_all add: only_modified_def)
  show "type_d (drafts s' ! i) = type_d (drafts s ! i)" by (subst eq) simp
  show "scope_d (drafts s' ! i) = scope_d (drafts s ! i)" by (subst eq) simp
  show "finalized_d (drafts s' ! i) = finalized_d (drafts s ! i)" by (subst eq) simp
  show "isManual_d (drafts s' ! i) = isManual_d (drafts s ! i)" by (subst eq) simp
  show "parent_d (drafts s' ! i) = parent_d (drafts s ! i)" by (subst eq) simp
  show "base_d (drafts s' ! i) = base_d (drafts s ! i)" by (subst eq) simp
  show "copy_d (drafts s' ! i) = copy_d (drafts s ! i)" by (subst eq) simp
  show "assigned_d (drafts s' ! i) = assigned_d (drafts s ! i)" by (subst eq) simp
  show "massigned_d (drafts s' ! i) = massigned_d (drafts s ! i)" by (subst eq) simp
  show "drafts_d (drafts s' ! i) = drafts_d (drafts s ! i)" by (subst eq) simp
  show "revoked_d (drafts s' ! i) = revoked_d (drafts s ! i)" by (subst eq) simp
  show "modified_d (drafts s ! i) \<Longrightarrow> modified_d (drafts s' ! i)" using up by simp
qed

subsection \<open>The frame: what the operations of a recipe keep\<close>

lemma nth_update_same:
  "(\<And>x. g (f x) = g x) \<Longrightarrow> g (xs[d := f (xs ! d)] ! i) = g (xs ! i)"
  by (cases "i = d"; cases "d < length xs"; simp add: list_update_beyond)

lemma nth_update_frozen:
  "content (xs[a := (xs ! a)\<lparr>is_frozen := b\<rparr>] ! i) = content (xs ! i)"
  by (cases "i = a"; cases "a < length xs"; simp add: list_update_beyond)

lemma frame_alloc: "keeps2 (frame h0) (alloc c) (\<lambda>a. length h0 \<le> a)"
  by (auto simp: keeps2_def frame_def alloc_def nth_append)

lemma frame_alloc' [keeps_intros]: "keeps (frame h0) (alloc c)"
  using frame_alloc by (rule keeps2_keeps)

lemma frame_setContent: "length h0 \<le> a \<Longrightarrow> keeps (frame h0) (setContent a c)"
  by (auto simp: keeps_def frame_def setContent_def modifyM_def)

lemma frame_setFrozen [keeps_intros]: "keeps (frame h0) (modifyM (setFrozen a))"
  by (auto simp: keeps_def frame_def setFrozen_def modifyM_def nth_update_frozen)

lemma frame_setDraft:
  "(\<And>st. copy_d (f st) = copy_d st) \<Longrightarrow> keeps (frame h0) (setDraft d f)"
  by (simp add: keeps_def frame_def setDraft_def modifyM_def nth_update_same[where g=copy_d])

lemma frame_setDraft_copy:
  "length h0 \<le> a \<Longrightarrow> keeps (frame h0) (setDraft d (\<lambda>x. x\<lparr>copy_d := Some a\<rparr>))"
proof -
  assume a: "length h0 \<le> a"
  have *: "copy_d (xs[d := (xs ! d)\<lparr>copy_d := Some a\<rparr>] ! i) = Some c \<Longrightarrow>
          c = a \<or> copy_d (xs ! i) = Some c" for xs i c
    by (cases "i = d"; cases "d < length xs"; simp add: list_update_beyond)
  have "frame h0 (s\<lparr>drafts := (drafts s)[d := (drafts s ! d)\<lparr>copy_d := Some a\<rparr>]\<rparr>)"
    if "frame h0 s" for s
    unfolding frame_def
  proof (intro conjI allI impI)
    show "length h0 \<le> length (heap (s\<lparr>drafts := (drafts s)[d := (drafts s ! d)\<lparr>copy_d := Some a\<rparr>]\<rparr>))"
      using that by (simp add: frame_def)
  next
    fix b assume "b < length h0"
    then show "content (heap (s\<lparr>drafts := (drafts s)[d := (drafts s ! d)\<lparr>copy_d := Some a\<rparr>]\<rparr>) ! b)
        = content (h0 ! b)"
      using that by (simp add: frame_def)
  next
    fix i c
    assume i: "i < length (drafts (s\<lparr>drafts := (drafts s)[d := (drafts s ! d)\<lparr>copy_d := Some a\<rparr>]\<rparr>))"
      and c: "copy_d (drafts (s\<lparr>drafts := (drafts s)[d := (drafts s ! d)\<lparr>copy_d := Some a\<rparr>]\<rparr>) ! i) = Some c"
    from c have "c = a \<or> copy_d (drafts s ! i) = Some c" using * by simp
    with a i that show "length h0 \<le> c" by (auto simp: frame_def)
  qed
  then show ?thesis
    by (simp add: keeps_def setDraft_def modifyM_def)
qed

lemma frame_setScope [keeps_intros]: "keeps (frame h0) (setScope i f)"
  by (auto simp: keeps_def frame_def setScope_def modifyM_def)

lemma frame_getDraft2:
  "keeps2 (frame h0) (getDraft d) (\<lambda>st. \<forall>c. copy_d st = Some c \<longrightarrow> length h0 \<le> c)"
  by (auto simp: keeps2_def frame_def getDraft_def)

lemma frame_stateOf2:
  "keeps2 (frame h0) (stateOf d) (\<lambda>st. \<forall>c. copy_d st = Some c \<longrightarrow> length h0 \<le> c)"
  by (auto simp: keeps2_def frame_def stateOf_def getDraft_def bindM_def retM_def throwM_def)

lemma frame_markChanged [keeps_intros]: "keeps (frame h0) (markChanged d)"
proof -
  have "frame h0 (markChanged_rec d s)" if "frame h0 s" for s
  proof -
    have om: "only_modified s (markChanged_rec d s)"
      by (rule markChanged_rec_only_modified)
    show ?thesis
      using that only_modified_fields(1,8) [OF om] only_modified_draft(7) [OF om]
      by (simp add: frame_def)
  qed
  then show ?thesis
    by (simp add: keeps_def markChanged_def modifyM_def)
qed

lemma frame_enterScope [keeps_intros]: "keeps (frame h0) enterScope"
  by (auto simp: keeps_def frame_def enterScope_def)

lemma frame_leaveScope [keeps_intros]: "keeps (frame h0) (leaveScope sc)"
proof -
  have "keeps (frame h0)
          (modifyM (\<lambda>s. if currentScope s = Some sc then s\<lparr>currentScope := p\<rparr> else s))" for p
    by (simp add: keeps_def frame_def modifyM_def)
  then show ?thesis
    unfolding leaveScope_def by (intro keeps_intros)
qed

lemma frame_proto_write:
  "keeps (frame h0) (modifyM (\<lambda>s. s\<lparr>proto_writes := proto_writes s @ [x]\<rparr>))"
  by (simp add: keeps_def frame_def modifyM_def)

lemma frame_ordSet:
  assumes len: "length h0 \<le> a"
  shows "keeps (frame h0) (ordSet a k v)"
  unfolding ordSet_def
  by (intro keeps_intros frame_proto_write frame_setContent len)

lemma frame_ordDelete:
  assumes len: "length h0 \<le> a"
  shows "keeps (frame h0) (ordDelete a k)"
  unfolding ordDelete_def
  by (intro keeps_intros frame_setContent len)

lemma frame_new_draft:
  "keeps (frame h0) (modifyM (\<lambda>s. s\<lparr>drafts := drafts s @ [new_dstate t sc parent a]\<rparr>))"
  by (auto simp: keeps_def frame_def modifyM_def nth_append new_dstate_def)

lemma frame_createProxy [keeps_intros]: "keeps (frame h0) (createProxy v parent)"
  unfolding createProxy_def
  by (intro keeps_intros frame_new_draft)

lemma frame_prepareCopy [keeps_intros]: "keeps (frame h0) (prepareCopy d)"
  unfolding prepareCopy_def
  by (intro keeps_intros keeps_bind2 [OF frame_alloc] frame_setDraft_copy)

lemma frame_copyAssign [keeps_intros]: "keeps (frame h0) (copyAssign d k v)"
  unfolding copyAssign_def
  by (rule keeps_bind2 [OF frame_getDraft2]) (intro keeps_intros frame_ordSet; simp)

lemma frame_objectTraps_get [keeps_intros]: "keeps (frame h0) (objectTraps_get d k)"
  unfolding objectTraps_get_def
  by (intro keeps_intros)

lemma frame_setAssigned [keeps_intros]: "keeps (frame h0) (setAssigned d k b)"
  unfolding setAssigned_def by (rule frame_setDraft) simp

lemma frame_deleteAssigned [keeps_intros]: "keeps (frame h0) (deleteAssigned d k)"
  unfolding deleteAssigned_def by (rule frame_setDraft) simp

lemma frame_set_unmodified [keeps_intros]: "keeps (frame h0) (set_unmodified d k v)"
  unfolding set_unmodified_def
  by (intro keeps_intros)

lemma frame_set_store [keeps_intros]: "keeps (frame h0) (set_store d k v)"
  unfolding set_store_def
  by (rule keeps_bind2 [OF frame_getDraft2]) (intro keeps_intros frame_ordSet; simp)

lemma frame_objectTraps_set [keeps_intros]: "keeps (frame h0) (objectTraps_set d k v)"
  unfolding objectTraps_set_def
  by (intro keeps_intros)

lemma frame_objectTraps_deleteProperty [keeps_intros]:
  "keeps (frame h0) (objectTraps_deleteProperty d k)"
  unfolding objectTraps_deleteProperty_def
  by (intro keeps_intros keeps_bind2 [OF frame_getDraft2] frame_ordDelete; simp)

lemma frame_arrayTraps_set [keeps_intros]: "keeps (frame h0) (arrayTraps_set d k v)"
  unfolding arrayTraps_set_def
  by (intro keeps_intros)

lemma frame_arrayTraps_deleteProperty [keeps_intros]:
  "keeps (frame h0) (arrayTraps_deleteProperty d k)"
  unfolding arrayTraps_deleteProperty_def
  by (intro keeps_intros)

subsection \<open>The frame: map and set drafts\<close>

lemma frame_copyUpdate [keeps_intros]: "keeps (frame h0) (copyUpdate d f)"
  unfolding copyUpdate_def
  by (rule keeps_bind2 [OF frame_getDraft2]) (intro keeps_intros frame_setContent; simp)

lemma frame_prepareMapCopy [keeps_intros]: "keeps (frame h0) (prepareMapCopy d)"
  unfolding prepareMapCopy_def
  by (intro keeps_intros keeps_bind2 [OF frame_alloc] frame_setDraft_copy frame_setDraft; simp)

lemma frame_massignedUpdate [keeps_intros]: "keeps (frame h0) (massignedUpdate d f)"
  unfolding massignedUpdate_def
  by (intro keeps_intros frame_setDraft; simp)

lemma frame_DraftMap_set [keeps_intros]: "keeps (frame h0) (DraftMap_set d k v)"
  unfolding DraftMap_set_def
  by (intro keeps_intros)

lemma frame_DraftMap_delete [keeps_intros]: "keeps (frame h0) (DraftMap_delete d k)"
  unfolding DraftMap_delete_def
  by (intro keeps_intros)

lemma frame_DraftMap_clear [keeps_intros]: "keeps (frame h0) (DraftMap_clear d)"
  unfolding DraftMap_clear_def
  by (intro keeps_intros frame_setDraft; simp)

lemma frame_DraftMap_get [keeps_intros]: "keeps (frame h0) (DraftMap_get d k)"
  unfolding DraftMap_get_def
  by (intro keeps_intros)

lemma frame_DraftMap_values [keeps_intros]: "keeps (frame h0) (DraftMap_values d)"
  unfolding DraftMap_values_def
  by (intro keeps_intros keeps_mapM)

lemma frame_DraftMap_entries [keeps_intros]: "keeps (frame h0) (DraftMap_entries d)"
  unfolding DraftMap_entries_def
  by (intro keeps_intros keeps_mapM)

lemma frame_DraftMap_forEach [keeps_intros]: "keeps (frame h0) (DraftMap_forEach d)"
  unfolding DraftMap_forEach_def
  by (intro keeps_intros keeps_mapM)

lemma frame_prepareSetCopy [keeps_intros]: "keeps (frame h0) (prepareSetCopy d)"
  unfolding prepareSetCopy_def
  by (intro keeps_intros keeps_bind2 [OF frame_alloc] keeps_forM frame_setDraft_copy
        frame_setDraft; simp)

lemma frame_DraftSet_add [keeps_intros]: "keeps (frame h0) (DraftSet_add d v)"
  unfolding DraftSet_add_def
  by (intro keeps_intros)

lemma frame_DraftSet_delete [keeps_intros]: "keeps (frame h0) (DraftSet_delete d v)"
  unfolding DraftSet_delete_def
  by (intro keeps_intros)

lemma frame_DraftSet_clear [keeps_intros]: "keeps (frame h0) (DraftSet_clear d)"
  unfolding DraftSet_clear_def
  by (intro keeps_intros)

lemma frame_DraftSet_values [keeps_intros]: "keeps (frame h0) (DraftSet_values d)"
  unfolding DraftSet_values_def
  by (intro keeps_intros)

lemma frame_DraftSet_keys [keeps_intros]: "keeps (frame h0) (DraftSet_keys d)"
  unfolding DraftSet_keys_def by (rule frame_DraftSet_values)

lemma frame_DraftSet_entries [keeps_intros]: "keeps (frame h0) (DraftSet_entries d)"
  unfolding DraftSet_entries_def
  by (intro keeps_intros)

lemma frame_DraftSet_forEach [keeps_intros]: "keeps (frame h0) (DraftSet_forEach d)"
  unfolding DraftSet_forEach_def by (rule frame_DraftSet_values)

subsection \<open>The frame: the operations of a recipe\<close>

lemma frame_js_get [keeps_intros]: "keeps (frame h0) (js_get v k)"
  unfolding js_get_def
  by (intro keeps_intros)

lemma frame_js_set_draft: "keeps (frame h0) (js_set (Draft d) k x)"
  unfolding js_set_def val.case
  by (intro keeps_intros)

lemma frame_js_delete_draft: "keeps (frame h0) (js_delete (Draft d) k)"
  unfolding js_delete_def val.case
  by (intro keeps_intros)

lemma frame_js_map_get [keeps_intros]: "keeps (frame h0) (js_map_get v k)"
  unfolding js_map_get_def
  by (intro keeps_intros)

lemma frame_perform: "keeps (frame h0) (perform a)"
proof (cases a)
  case (ASet v k x)
  then show ?thesis
    unfolding perform_def
    by (cases v) (simp_all add: on_draft_def answerM_def keeps_intros frame_js_set_draft)
next
  case (ADelete v k)
  then show ?thesis
    unfolding perform_def
    by (cases v) (simp_all add: on_draft_def answerM_def keeps_intros frame_js_delete_draft)
qed (simp_all add: perform_def, (intro keeps_intros)+)

lemma keeps_interp:
  "(\<And>a. keeps I (perform a)) \<Longrightarrow> keeps I (interp r)"
proof (induction r)
  case (Return v)
  show ?case by (simp add: keeps_intros)
next
  case (Throw e)
  show ?case by (simp add: keeps_intros)
next
  case (Do a k)
  have "I (snd (interp (Do a k) s))" if "I s" for s
  proof -
    obtain r s' where p: "perform a s = (r, s')" by (cases "perform a s")
    with Do.prems [of a] that have "I s'" by (auto simp: keeps_def)
    moreover have "keeps I (interp (k r))" using Do.IH Do.prems by blast
    ultimately show ?thesis using p by (simp add: keeps_def)
  qed
  then show ?case by (simp add: keeps_def)
qed

lemma frame_interp: "keeps (frame h0) (interp r)"
  by (rule keeps_interp) (rule frame_perform)

subsection \<open>The drafts of a run: what the operations of a recipe keep\<close>

lemma mod_closed_markChanged_rec:
  "parent_older (drafts s) \<Longrightarrow>
   (\<forall>i < length (drafts s). modified_d (drafts s ! i) \<longrightarrow>
      (\<forall>p. parent_d (drafts s ! i) = Some p \<longrightarrow> p \<noteq> d \<longrightarrow> modified_d (drafts s ! p))) \<Longrightarrow>
   mod_closed (drafts (markChanged_rec d s))"
proof (induction d s rule: markChanged_rec.induct)
  case (1 d s)
  note po = "1.prems"(1) and hyp = "1.prems"(2)
  have hyp': "modified_d (drafts s ! p)"
    if "i < length (drafts s)" "modified_d (drafts s ! i)" "parent_d (drafts s ! i) = Some p"
      "p \<noteq> d" for i p
    using hyp that by blast
  have po'': "p < i" if "i < length (drafts s)" "parent_d (drafts s ! i) = Some p" for i p
    using po that unfolding parent_older_def by blast
  show ?case
  proof (cases "d < length (drafts s) \<and> \<not> modified_d (drafts s ! d)")
    case False
    have "mod_closed (drafts s)"
      unfolding mod_closed_def
    proof (intro allI impI)
      fix i p
      assume i: "i < length (drafts s)" and m: "modified_d (drafts s ! i)"
        and p: "parent_d (drafts s ! i) = Some p"
      show "modified_d (drafts s ! p)"
      proof (cases "p = d")
        case True
        from po'' [OF i p] i have "p < length (drafts s)" by simp
        with True False show ?thesis by simp
      next
        case False
        then show ?thesis by (rule hyp' [OF i m p])
      qed
    qed
    with False show ?thesis by (simp add: markChanged_rec_skip)
  next
    case True
    then have dl: "d < length (drafts s)" and dm: "\<not> modified_d (drafts s ! d)" by simp_all
    let ?ds' = "(drafts s)[d := (drafts s ! d)\<lparr>modified_d := True\<rparr>]"
    let ?s' = "s\<lparr>drafts := ?ds'\<rparr>"
    have par: "parent_d (?ds' ! i) = parent_d (drafts s ! i)" for i
      by (rule nth_update_same) simp
    have upd: "modified_d (?ds' ! j)" if "modified_d (drafts s ! j)" for j
      using that by (cases "j = d"; cases "d < length (drafts s)"; simp add: list_update_beyond)
    have updd: "modified_d (?ds' ! d)" using dl by simp
    have old: "modified_d (drafts s ! j)" if "modified_d (?ds' ! j)" "j \<noteq> d" for j
      using that by simp
    have po': "parent_older (drafts ?s')"
      using po by (simp add: parent_older_def par)
    have step: "modified_d (?ds' ! p)"
      if i: "i < length (drafts s)" and m: "modified_d (?ds' ! i)"
        and p: "parent_d (drafts s ! i) = Some p" and id: "i \<noteq> d" for i p
    proof (cases "p = d")
      case True
      then show ?thesis using updd by simp
    next
      case False
      from old [OF m id] have "modified_d (drafts s ! i)" .
      from hyp' [OF i this p False] show ?thesis by (rule upd)
    qed
    show ?thesis
    proof (cases "parent_d (drafts s ! d)")
      case None
      have "mod_closed ?ds'"
        unfolding mod_closed_def
      proof (intro allI impI)
        fix i p
        assume i: "i < length ?ds'" and m: "modified_d (?ds' ! i)"
          and p: "parent_d (?ds' ! i) = Some p"
        from i have i': "i < length (drafts s)" by simp
        from p have p': "parent_d (drafts s ! i) = Some p" by (simp only: par)
        with None have "i \<noteq> d" by auto
        then show "modified_d (?ds' ! p)" by (rule step [OF i' m p'])
      qed
      with dl dm None show ?thesis by (simp add: markChanged_rec_step)
    next
      case (Some q)
      from po'' [OF dl Some] have lt: "q < d" .
      have "\<forall>i < length (drafts ?s'). modified_d (drafts ?s' ! i) \<longrightarrow>
              (\<forall>p. parent_d (drafts ?s' ! i) = Some p \<longrightarrow> p \<noteq> q \<longrightarrow> modified_d (drafts ?s' ! p))"
      proof (intro allI impI)
        fix i p
        assume i: "i < length (drafts ?s')" and m: "modified_d (drafts ?s' ! i)"
          and p: "parent_d (drafts ?s' ! i) = Some p" and pq: "p \<noteq> q"
        from i have i': "i < length (drafts s)" by simp
        from m have m': "modified_d (?ds' ! i)" by simp
        from p have "parent_d (?ds' ! i) = Some p" by simp
        then have p': "parent_d (drafts s ! i) = Some p" by (simp only: par)
        with Some pq have "i \<noteq> d" by auto
        then have "modified_d (?ds' ! p)" by (rule step [OF i' m' p'])
        then show "modified_d (drafts ?s' ! p)" by simp
      qed
      from "1.IH" [OF True refl Some lt po' this]
      have "mod_closed (drafts (markChanged_rec q ?s'))" .
      with dl dm Some lt show ?thesis by (simp add: markChanged_rec_step)
    qed
  qed
qed

lemma run_inv_markChanged_rec:
  assumes "run_inv s0 a0 s"
  shows "run_inv s0 a0 (markChanged_rec d s)"
proof -
  have om: "only_modified s (markChanged_rec d s)"
    by (rule markChanged_rec_only_modified)
  note f = only_modified_fields [OF om] and g = only_modified_draft [OF om]
  from assms have po: "parent_older (drafts s)" and mc: "mod_closed (drafts s)"
    by (simp_all add: run_inv_def)
  have "mod_closed (drafts (markChanged_rec d s))"
    using po mc by (intro mod_closed_markChanged_rec) (auto simp: mod_closed_def)
  moreover have "parent_older (drafts (markChanged_rec d s))"
    using po by (simp add: parent_older_def f(8) g(5))
  ultimately show ?thesis
    using assms by (simp add: run_inv_def f g(2,3,5,6,11))
qed

lemma run_inv_markChanged [keeps_intros]: "keeps (run_inv s0 a0) (markChanged d)"
  by (simp add: keeps_def markChanged_def modifyM_def run_inv_markChanged_rec)

lemma run_inv_heap:
  "(\<And>s. drafts (f s) = drafts s \<and> scopes (f s) = scopes s \<and> currentScope (f s) = currentScope s
      \<and> autoFreeze (f s) = autoFreeze s \<and> useStrictShallowCopy (f s) = useStrictShallowCopy s
      \<and> listener_calls (f s) = listener_calls s)
     \<Longrightarrow> keeps (run_inv s0 a0) (modifyM f)"
  by (simp add: keeps_def modifyM_def run_inv_def)

lemma run_inv_setContent [keeps_intros]: "keeps (run_inv s0 a0) (setContent a c)"
  unfolding setContent_def by (rule run_inv_heap) simp

lemma run_inv_alloc [keeps_intros]: "keeps (run_inv s0 a0) (alloc c)"
  by (simp add: keeps_def alloc_def run_inv_def)

lemma run_inv_proto_write:
  "keeps (run_inv s0 a0) (modifyM (\<lambda>s. s\<lparr>proto_writes := proto_writes s @ [x]\<rparr>))"
  by (rule run_inv_heap) simp

lemma run_inv_setDraft:
  assumes "\<And>st. revoked_d (f st) = revoked_d st \<and> scope_d (f st) = scope_d st
      \<and> parent_d (f st) = parent_d st \<and> modified_d (f st) = modified_d st
      \<and> finalized_d (f st) = finalized_d st \<and> base_d (f st) = base_d st"
  shows "keeps (run_inv s0 a0) (setDraft d f)"
proof -
  have "run_inv s0 a0 (s\<lparr>drafts := (drafts s)[d := f (drafts s ! d)]\<rparr>)" if "run_inv s0 a0 s" for s
  proof -
    let ?ds = "(drafts s)[d := f (drafts s ! d)]"
    have r: "revoked_d (?ds ! i) = revoked_d (drafts s ! i)" for i
      by (rule nth_update_same) (simp add: assms)
    have sc: "scope_d (?ds ! i) = scope_d (drafts s ! i)" for i
      by (rule nth_update_same) (simp add: assms)
    have p: "parent_d (?ds ! i) = parent_d (drafts s ! i)" for i
      by (rule nth_update_same) (simp add: assms)
    have m: "modified_d (?ds ! i) = modified_d (drafts s ! i)" for i
      by (rule nth_update_same) (simp add: assms)
    have fi: "finalized_d (?ds ! i) = finalized_d (drafts s ! i)" for i
      by (rule nth_update_same) (simp add: assms)
    have b: "base_d (?ds ! i) = base_d (drafts s ! i)" for i
      by (rule nth_update_same) (simp add: assms)
    from that show ?thesis
      by (simp add: run_inv_def parent_older_def mod_closed_def r sc p m fi b)
  qed
  then show ?thesis by (simp add: keeps_def setDraft_def modifyM_def)
qed

lemma run_inv_append:
  assumes inv: "run_inv s0 a0 s"
    and par: "parent_d st = None \<or> (\<exists>p. parent_d st = Some p \<and> p < length (drafts s))"
    and st: "\<not> revoked_d st" "scope_d st = 0" "\<not> modified_d st" "\<not> finalized_d st"
  shows "run_inv s0 a0 (s\<lparr>drafts := drafts s @ [st],
                     scopes := (scopes s)[0 := (scopes s ! 0)\<lparr>drafts_s :=
                        Some ([0..<length (drafts s)] @ [length (drafts s)])\<rparr>]\<rparr>)"
proof -
  let ?n = "length (drafts s)"
  let ?ds = "drafts s @ [st]"
  from inv have sc: "length (scopes s) = 1" and n0: "0 < ?n"
    and all: "\<And>d. d < ?n \<Longrightarrow> \<not> revoked_d (drafts s ! d) \<and> scope_d (drafts s ! d) = 0
        \<and> \<not> finalized_d (drafts s ! d)"
    and po: "parent_older (drafts s)" and mc: "mod_closed (drafts s)"
    by (simp_all add: run_inv_def)
  have old: "?ds ! d = drafts s ! d" if "d < ?n" for d
    using that by (simp add: nth_append)
  have new: "?ds ! ?n = st" by simp
  have split: "d < ?n \<or> d = ?n" if "d < length ?ds" for d
    using that by auto
  have a: "\<not> revoked_d (?ds ! d) \<and> scope_d (?ds ! d) = 0 \<and> \<not> finalized_d (?ds ! d)"
    if "d < length ?ds" for d
    using split [OF that] all st by (auto simp: old)
  have b: "parent_older ?ds"
    unfolding parent_older_def
  proof (intro allI impI)
    fix d p assume d: "d < length ?ds" and p: "parent_d (?ds ! d) = Some p"
    from split [OF d] show "p < d"
    proof
      assume "d < ?n"
      with p po show ?thesis by (auto simp: old parent_older_def)
    next
      assume "d = ?n"
      with p par show ?thesis by auto
    qed
  qed
  have c: "mod_closed ?ds"
    unfolding mod_closed_def
  proof (intro allI impI)
    fix d p assume d: "d < length ?ds" and m: "modified_d (?ds ! d)"
      and p: "parent_d (?ds ! d) = Some p"
    from split [OF d] show "modified_d (?ds ! p)"
    proof
      assume dn: "d < ?n"
      with p po have "p < d" by (auto simp: old parent_older_def)
      with dn have pn: "p < ?n" by simp
      from dn m p mc have "modified_d (drafts s ! p)" by (auto simp: old mod_closed_def)
      with pn show ?thesis by (simp add: old)
    next
      assume "d = ?n"
      with m st show ?thesis by simp
    qed
  qed
  from n0 have z: "?ds ! 0 = drafts s ! 0" by (rule old)
  show ?thesis
    unfolding run_inv_def
    using inv sc a b c by (simp add: run_inv_def z)
qed

lemma createProxy_result:
  assumes "a < length (heap s)" and "0 < length (scopes s)"
    and "drafts_s (scopes s ! 0) = Some ds"
    and "parent = None \<and> currentScope s = Some 0
         \<or> (\<exists>p. parent = Some p \<and> p < length (drafts s) \<and> scope_d (drafts s ! p) = 0)"
  shows "createProxy (Ref a) parent s =
      (Inr (Draft (length (drafts s))),
       s\<lparr>drafts := drafts s @ [new_dstate (archtype_of (content (heap s ! a))) 0 parent a],
         scopes := (scopes s)[0 := (scopes s ! 0)\<lparr>drafts_s := Some (ds @ [length (drafts s)])\<rparr>]\<rparr>)"
proof (cases parent)
  case None
  with assms show ?thesis
    by (simp add: createProxy_def getContent_def getObj_def bindM_def retM_def thenM_def
        getCurrentScope_def getsM_def modifyM_def getScope_def setScope_def)
next
  case (Some p)
  with assms show ?thesis
    by (simp add: createProxy_def getContent_def getObj_def bindM_def retM_def thenM_def
        getDraft_def getsM_def modifyM_def getScope_def setScope_def)
qed

lemma run_inv_createProxy [keeps_intros]: "keeps (run_inv s0 a0) (createProxy v parent)"
proof -
  have "run_inv s0 a0 (snd (createProxy v parent s))" if inv: "run_inv s0 a0 s" for s
  proof (cases v)
    case (Ref a)
    show ?thesis
    proof (cases "a < length (heap s)")
      case False
      with Ref inv show ?thesis
        by (simp add: createProxy_def getContent_def getObj_def bindM_def)
    next
      case a: True
      from inv have sc: "0 < length (scopes s)" and cur: "currentScope s = Some 0"
        and ds: "drafts_s (scopes s ! 0) = Some [0..<length (drafts s)]"
        and all: "\<And>d. d < length (drafts s) \<Longrightarrow> scope_d (drafts s ! d) = 0"
        and n0: "0 < length (drafts s)"
        by (simp_all add: run_inv_def)
      show ?thesis
      proof (cases "\<exists>p. parent = Some p \<and> \<not> p < length (drafts s)")
        case True
        then obtain p where "parent = Some p" "\<not> p < length (drafts s)" by blast
        with Ref a inv show ?thesis
          by (simp add: createProxy_def getContent_def getObj_def bindM_def retM_def
              getDraft_def)
      next
        case False
        then have par: "parent = None \<or> (\<exists>p. parent = Some p \<and> p < length (drafts s))"
          by (cases parent) auto
        with cur all have "parent = None \<and> currentScope s = Some 0
           \<or> (\<exists>p. parent = Some p \<and> p < length (drafts s) \<and> scope_d (drafts s ! p) = 0)"
          by auto
        from createProxy_result [OF a sc ds this] Ref
        have "snd (createProxy v parent s) =
           s\<lparr>drafts := drafts s @ [new_dstate (archtype_of (content (heap s ! a))) 0 parent a],
             scopes := (scopes s)[0 := (scopes s ! 0)\<lparr>drafts_s :=
                Some ([0..<length (drafts s)] @ [length (drafts s)])\<rparr>]\<rparr>"
          by simp
        moreover have "run_inv s0 a0 \<dots>"
          by (rule run_inv_append [OF inv]) (use par in \<open>simp_all add: new_dstate_def\<close>)
        ultimately show ?thesis by simp
      qed
    qed
  qed (simp_all add: createProxy_def throwM_def that)
  then show ?thesis by (simp add: keeps_def)
qed
lemma run_inv_ordSet [keeps_intros]: "keeps (run_inv s0 a0) (ordSet a k v)"
  unfolding ordSet_def
  by (intro keeps_intros run_inv_proto_write)

lemma run_inv_ordDelete [keeps_intros]: "keeps (run_inv s0 a0) (ordDelete a k)"
  unfolding ordDelete_def
  by (intro keeps_intros)

lemma run_inv_prepareCopy [keeps_intros]: "keeps (run_inv s0 a0) (prepareCopy d)"
  unfolding prepareCopy_def
  by (intro keeps_intros run_inv_setDraft; simp)

lemma run_inv_copyAssign [keeps_intros]: "keeps (run_inv s0 a0) (copyAssign d k v)"
  unfolding copyAssign_def
  by (intro keeps_intros)

lemma run_inv_objectTraps_get [keeps_intros]: "keeps (run_inv s0 a0) (objectTraps_get d k)"
  unfolding objectTraps_get_def
  by (intro keeps_intros)

lemma run_inv_setAssigned [keeps_intros]: "keeps (run_inv s0 a0) (setAssigned d k b)"
  unfolding setAssigned_def by (rule run_inv_setDraft) simp

lemma run_inv_deleteAssigned [keeps_intros]: "keeps (run_inv s0 a0) (deleteAssigned d k)"
  unfolding deleteAssigned_def by (rule run_inv_setDraft) simp

lemma run_inv_set_unmodified [keeps_intros]: "keeps (run_inv s0 a0) (set_unmodified d k v)"
  unfolding set_unmodified_def
  by (intro keeps_intros)

lemma run_inv_set_store [keeps_intros]: "keeps (run_inv s0 a0) (set_store d k v)"
  unfolding set_store_def
  by (intro keeps_intros)

lemma run_inv_objectTraps_set [keeps_intros]: "keeps (run_inv s0 a0) (objectTraps_set d k v)"
  unfolding objectTraps_set_def
  by (intro keeps_intros)

lemma run_inv_objectTraps_deleteProperty [keeps_intros]:
  "keeps (run_inv s0 a0) (objectTraps_deleteProperty d k)"
  unfolding objectTraps_deleteProperty_def
  by (intro keeps_intros)

lemma run_inv_arrayTraps_set [keeps_intros]: "keeps (run_inv s0 a0) (arrayTraps_set d k v)"
  unfolding arrayTraps_set_def
  by (intro keeps_intros)

lemma run_inv_arrayTraps_deleteProperty [keeps_intros]:
  "keeps (run_inv s0 a0) (arrayTraps_deleteProperty d k)"
  unfolding arrayTraps_deleteProperty_def
  by (intro keeps_intros)

lemma run_inv_copyUpdate [keeps_intros]: "keeps (run_inv s0 a0) (copyUpdate d f)"
  unfolding copyUpdate_def
  by (intro keeps_intros)

lemma run_inv_prepareMapCopy [keeps_intros]: "keeps (run_inv s0 a0) (prepareMapCopy d)"
  unfolding prepareMapCopy_def
  by (intro keeps_intros run_inv_setDraft; simp)

lemma run_inv_massignedUpdate [keeps_intros]: "keeps (run_inv s0 a0) (massignedUpdate d f)"
  unfolding massignedUpdate_def
  by (intro keeps_intros run_inv_setDraft; simp)

lemma run_inv_DraftMap_set [keeps_intros]: "keeps (run_inv s0 a0) (DraftMap_set d k v)"
  unfolding DraftMap_set_def
  by (intro keeps_intros)

lemma run_inv_DraftMap_delete [keeps_intros]: "keeps (run_inv s0 a0) (DraftMap_delete d k)"
  unfolding DraftMap_delete_def
  by (intro keeps_intros)

lemma run_inv_DraftMap_clear [keeps_intros]: "keeps (run_inv s0 a0) (DraftMap_clear d)"
  unfolding DraftMap_clear_def
  by (intro keeps_intros run_inv_setDraft; simp)

lemma run_inv_DraftMap_get [keeps_intros]: "keeps (run_inv s0 a0) (DraftMap_get d k)"
  unfolding DraftMap_get_def
  by (intro keeps_intros)

lemma run_inv_DraftMap_values [keeps_intros]: "keeps (run_inv s0 a0) (DraftMap_values d)"
  unfolding DraftMap_values_def
  by (intro keeps_intros keeps_mapM)

lemma run_inv_DraftMap_entries [keeps_intros]: "keeps (run_inv s0 a0) (DraftMap_entries d)"
  unfolding DraftMap_entries_def
  by (intro keeps_intros keeps_mapM)

lemma run_inv_DraftMap_forEach [keeps_intros]: "keeps (run_inv s0 a0) (DraftMap_forEach d)"
  unfolding DraftMap_forEach_def
  by (intro keeps_intros keeps_mapM)

lemma run_inv_prepareSetCopy [keeps_intros]: "keeps (run_inv s0 a0) (prepareSetCopy d)"
  unfolding prepareSetCopy_def
  by (intro keeps_intros keeps_forM run_inv_setDraft; simp)

lemma run_inv_DraftSet_add [keeps_intros]: "keeps (run_inv s0 a0) (DraftSet_add d v)"
  unfolding DraftSet_add_def
  by (intro keeps_intros)

lemma run_inv_DraftSet_delete [keeps_intros]: "keeps (run_inv s0 a0) (DraftSet_delete d v)"
  unfolding DraftSet_delete_def
  by (intro keeps_intros)

lemma run_inv_DraftSet_clear [keeps_intros]: "keeps (run_inv s0 a0) (DraftSet_clear d)"
  unfolding DraftSet_clear_def
  by (intro keeps_intros)

lemma run_inv_DraftSet_values [keeps_intros]: "keeps (run_inv s0 a0) (DraftSet_values d)"
  unfolding DraftSet_values_def
  by (intro keeps_intros)

lemma run_inv_DraftSet_keys [keeps_intros]: "keeps (run_inv s0 a0) (DraftSet_keys d)"
  unfolding DraftSet_keys_def by (rule run_inv_DraftSet_values)

lemma run_inv_DraftSet_entries [keeps_intros]: "keeps (run_inv s0 a0) (DraftSet_entries d)"
  unfolding DraftSet_entries_def
  by (intro keeps_intros)

lemma run_inv_DraftSet_forEach [keeps_intros]: "keeps (run_inv s0 a0) (DraftSet_forEach d)"
  unfolding DraftSet_forEach_def by (rule run_inv_DraftSet_values)

lemma run_inv_js_get [keeps_intros]: "keeps (run_inv s0 a0) (js_get v k)"
  unfolding js_get_def
  by (intro keeps_intros)

lemma run_inv_js_set [keeps_intros]: "keeps (run_inv s0 a0) (js_set v k x)"
  unfolding js_set_def
  by (intro keeps_intros)

lemma run_inv_js_delete [keeps_intros]: "keeps (run_inv s0 a0) (js_delete v k)"
  unfolding js_delete_def
  by (intro keeps_intros)

lemma run_inv_js_map_get [keeps_intros]: "keeps (run_inv s0 a0) (js_map_get v k)"
  unfolding js_map_get_def
  by (intro keeps_intros)

lemma run_inv_perform: "keeps (run_inv s0 a0) (perform a)"
  by (cases a) (simp_all add: perform_def, (intro keeps_intros)+)

lemma run_inv_interp: "keeps (run_inv s0 a0) (interp r)"
  by (rule keeps_interp) (rule run_inv_perform)

end
